theory Spec2Isabelle
  imports Complex_Main "HOL-Library.AList"
begin

section \<open>Values, errors and environment bindings\<close>

text \<open>
  The settings modules of \<^verbatim>\<open>backend/settings\<close> are straight-line Python: every statement
  binds a module-level name or mutates a value bound earlier. A module namespace is a map from
  names to Python values; the values are the literals the settings use.
  \<^item> \<open>VFloat\<close> holds the value of a float literal (\<^verbatim>\<open>3600.0\<close>, \<^verbatim>\<open>0.1\<close>) as a real number;
    no floating-point arithmetic is performed by the code.
  \<^item> \<open>VPath\<close> holds the parts of a \<^verbatim>\<open>pathlib.Path\<close>, \<open>VTimedelta\<close> the seconds given to
    \<^verbatim>\<open>timedelta(seconds=...)\<close>.
  \<^item> \<open>VOpaque\<close> stands for a lambda or a class instance, named by its source text.
  \<^item> A dict is an association list: Python dicts keep insertion order, and assigning to a key
    that is present keeps its position, which is what \<open>AList.update\<close> does.
\<close>

datatype pyval =
    VNone
  | VBool bool
  | VInt int
  | VFloat real
  | VStr string
  | VPath "string list"
  | VTimedelta int
  | VOpaque string
  | VList "pyval list"
  | VTuple "pyval list"
  | VDict "(string \<times> pyval) list"

text \<open>
  Every way a settings module can stop: \<open>UndefinedValueError\<close> is raised by
  \<^verbatim>\<open>decouple.config\<close> for a binding that is absent and has no default; \<open>ValueError\<close> is the
  failed coercion of a binding that is present (the option name and the offending text are kept
  for the diagnostic); the others are the Python exceptions of the same names.
\<close>

datatype error =
    UndefinedValueError string
  | ValueError string string
  | OverflowError
  | NameError string
  | KeyError string
  | IndexError
  | TypeError
  | AttributeError string
  | ImproperlyConfigured
  | ModuleNotFoundError string

type_synonym environ = "string \<rightharpoonup> string"
type_synonym namespace = "string \<rightharpoonup> pyval"

definition environ_of :: "(string \<times> string) list \<Rightarrow> environ" where
  "environ_of kvs = map_of kvs"

definition and_then :: "error + 'a \<Rightarrow> ('a \<Rightarrow> error + 'b) \<Rightarrow> error + 'b" where
  "and_then m f = (case m of Inl e \<Rightarrow> Inl e | Inr x \<Rightarrow> f x)"

text \<open>A module body is a sequence of sections run in order; the first exception ends it.\<close>

fun run :: "('s \<Rightarrow> error + 's) list \<Rightarrow> 's \<Rightarrow> error + 's" where
  "run [] s = Inr s"
| "run (f # fs) s = (case f s of Inl e \<Rightarrow> Inl e | Inr s' \<Rightarrow> run fs s')"

subsection \<open>\<^verbatim>\<open>decouple.config\<close>\<close>

text \<open>
  \<^verbatim>\<open>config(name, default=d, cast=c)\<close> comes from the library python-decouple, which is not part
  of the repository. It looks the name up (process environment first, then the \<^verbatim>\<open>.env\<close>
  file: \<open>environ\<close> is that combined lookup); a name that is absent gives the default, or raises
  when no default was given; a name that is present gives \<open>c\<close> applied to its text. The
  library's coercions of text to \<^verbatim>\<open>bool\<close>, \<^verbatim>\<open>int\<close> and \<^verbatim>\<open>float\<close> are parameters of the model
  (\<open>None\<close>: the coercion raises), so every result below holds whatever text they accept. The
  defaults the settings pass with these casts (\<^verbatim>\<open>False\<close>, \<^verbatim>\<open>3600\<close>, \<^verbatim>\<open>0.1\<close>, ...) are values of
  the target type already, which the casts return unchanged.
\<close>

record casts =
  to_bool :: "string \<Rightarrow> bool option"
  to_int :: "string \<Rightarrow> int option"
  to_float :: "string \<Rightarrow> real option"

definition config :: "environ \<Rightarrow> string \<Rightarrow> error + string" where
  "config env name =
     (case env name of None \<Rightarrow> Inl (UndefinedValueError name) | Some v \<Rightarrow> Inr v)"

definition config_or :: "environ \<Rightarrow> string \<Rightarrow> string \<Rightarrow> string" where
  "config_or env name d = (case env name of None \<Rightarrow> d | Some v \<Rightarrow> v)"

definition config_bool :: "casts \<Rightarrow> environ \<Rightarrow> string \<Rightarrow> bool \<Rightarrow> error + bool" where
  "config_bool c env name d =
     (case env name of
        None \<Rightarrow> Inr d
      | Some v \<Rightarrow> (case to_bool c v of None \<Rightarrow> Inl (ValueError name v) | Some b \<Rightarrow> Inr b))"

definition config_int :: "casts \<Rightarrow> environ \<Rightarrow> string \<Rightarrow> int \<Rightarrow> error + int" where
  "config_int c env name d =
     (case env name of
        None \<Rightarrow> Inr d
      | Some v \<Rightarrow> (case to_int c v of None \<Rightarrow> Inl (ValueError name v) | Some i \<Rightarrow> Inr i))"

definition config_float :: "casts \<Rightarrow> environ \<Rightarrow> string \<Rightarrow> real \<Rightarrow> error + real" where
  "config_float c env name d =
     (case env name of
        None \<Rightarrow> Inr d
      | Some v \<Rightarrow> (case to_float c v of None \<Rightarrow> Inl (ValueError name v) | Some x \<Rightarrow> Inr x))"

text \<open>
  The cast the settings write out themselves:
  \<^verbatim>\<open>lambda v: [s.strip() for s in v.split(',')]\<close>. \<open>split\<close> is \<^verbatim>\<open>str.split(sep)\<close>, which
  returns one field more than there are separators; \<open>strip\<close> removes leading and trailing
  whitespace (the ASCII characters \<^verbatim>\<open>str.isspace\<close> accepts).
\<close>

fun split :: "char \<Rightarrow> string \<Rightarrow> string list" where
  "split sep [] = [[]]"
| "split sep (x # xs) =
     (if x = sep then [] # split sep xs
      else (case split sep xs of [] \<Rightarrow> [[x]] | y # ys \<Rightarrow> (x # y) # ys))"

definition isspace :: "char \<Rightarrow> bool" where
  "isspace ch = (ch \<in> set [CHR 0x09, CHR 0x0A, CHR 0x0B, CHR 0x0C, CHR 0x0D,
                             CHR 0x1C, CHR 0x1D, CHR 0x1E, CHR 0x1F, CHR 0x20])"

definition strip :: "string \<Rightarrow> string" where
  "strip s = rev (dropWhile isspace (rev (dropWhile isspace s)))"

definition csv :: "string \<Rightarrow> pyval" where
  "csv v = VList (map (\<lambda>s. VStr (strip s)) (split CHR '','' v))"

definition config_csv :: "environ \<Rightarrow> string \<Rightarrow> error + pyval" where
  "config_csv env name =
     (case env name of None \<Rightarrow> Inl (UndefinedValueError name) | Some v \<Rightarrow> Inr (csv v))"

definition config_csv_or :: "environ \<Rightarrow> string \<Rightarrow> string \<Rightarrow> pyval" where
  "config_csv_or env name d = csv (config_or env name d)"

text \<open>
  \<^verbatim>\<open>timedelta(seconds=n)\<close> normalises to days and seconds and raises \<^verbatim>\<open>OverflowError\<close> when
  the days leave the range of \<^verbatim>\<open>timedelta\<close> (magnitude at most 999999999).
\<close>

definition timedelta_seconds :: "int \<Rightarrow> error + pyval" where
  "timedelta_seconds n =
     (if \<bar>n div 86400\<bar> \<le> 999999999 then Inr (VTimedelta n) else Inl OverflowError)"

subsection \<open>Reading and mutating bound values\<close>

definition lookup :: "namespace \<Rightarrow> string \<Rightarrow> error + pyval" where
  "lookup ns name = (case ns name of None \<Rightarrow> Inl (NameError name) | Some v \<Rightarrow> Inr v)"

datatype key = K string | I nat

fun getitem :: "pyval \<Rightarrow> key \<Rightarrow> error + pyval" where
  "getitem (VDict kvs) (K k) =
     (case map_of kvs k of None \<Rightarrow> Inl (KeyError k) | Some v \<Rightarrow> Inr v)"
| "getitem (VList xs) (I i) = (if i < length xs then Inr (xs ! i) else Inl IndexError)"
| "getitem _ _ = Inl TypeError"

fun setitem :: "pyval \<Rightarrow> key \<Rightarrow> pyval \<Rightarrow> error + pyval" where
  "setitem (VDict kvs) (K k) v = Inr (VDict (AList.update k v kvs))"
| "setitem (VList xs) (I i) v =
     (if i < length xs then Inr (VList (xs[i := v])) else Inl IndexError)"
| "setitem _ _ _ = Inl TypeError"

text \<open>
  \<open>modify d path f\<close> is what a statement does to the value \<open>d\<close> bound to a name when it
  mutates the object reached by \<^verbatim>\<open>d[k1][k2]...\<close>: the object at the path is replaced by
  \<open>f\<close> of it and everything beside the path is kept.
\<close>

fun modify :: "pyval \<Rightarrow> key list \<Rightarrow> (pyval \<Rightarrow> error + pyval) \<Rightarrow> error + pyval" where
  "modify d [] f = f d"
| "modify d (k # ks) f =
     and_then (getitem d k) (\<lambda>d'. and_then (modify d' ks f) (\<lambda>d''. setitem d k d''))"

text \<open>\<^verbatim>\<open>d.update({...})\<close> and the list methods the overlays call.\<close>

fun dict_update :: "(string \<times> pyval) list \<Rightarrow> pyval \<Rightarrow> error + pyval" where
  "dict_update new (VDict kvs) = Inr (VDict (fold (\<lambda>(k, v). AList.update k v) new kvs))"
| "dict_update new _ = Inl (AttributeError ''update'')"

fun list_insert :: "nat \<Rightarrow> pyval \<Rightarrow> pyval \<Rightarrow> error + pyval" where
  "list_insert i x (VList xs) = Inr (VList (take i xs @ x # drop i xs))"
| "list_insert i x _ = Inl (AttributeError ''insert'')"

fun list_append :: "pyval \<Rightarrow> pyval \<Rightarrow> error + pyval" where
  "list_append x (VList xs) = Inr (VList (xs @ [x]))"
| "list_append x _ = Inl (AttributeError ''append'')"

fun list_concat :: "pyval \<Rightarrow> pyval \<Rightarrow> error + pyval" where
  "list_concat (VList xs) (VList ys) = Inr (VList (xs @ ys))"
| "list_concat _ _ = Inl TypeError"

text \<open>
  The statements of the overlays, on a namespace: \<^verbatim>\<open>NAME[k1]...[kn][k] = v\<close>, a method call
  on \<^verbatim>\<open>NAME[k1]...[kn]\<close>, and reading \<^verbatim>\<open>NAME[k1]...[kn]\<close>.
\<close>

definition mutate :: "string \<Rightarrow> key list \<Rightarrow> (pyval \<Rightarrow> error + pyval) \<Rightarrow> namespace \<Rightarrow> error + namespace" where
  "mutate name path f ns =
     and_then (lookup ns name) (\<lambda>d. and_then (modify d path f) (\<lambda>d'. Inr (ns(name \<mapsto> d'))))"

definition assign_item :: "string \<Rightarrow> key list \<Rightarrow> key \<Rightarrow> pyval \<Rightarrow> namespace \<Rightarrow> error + namespace" where
  "assign_item name path k v = mutate name path (\<lambda>d. setitem d k v)"

fun read_path :: "pyval \<Rightarrow> key list \<Rightarrow> error + pyval" where
  "read_path d [] = Inr d"
| "read_path d (k # ks) = and_then (getitem d k) (\<lambda>d'. read_path d' ks)"

definition read :: "namespace \<Rightarrow> string \<Rightarrow> key list \<Rightarrow> error + pyval" where
  "read ns name path = and_then (lookup ns name) (\<lambda>d. read_path d path)"

section \<open>\<^verbatim>\<open>settings/base.py\<close>\<close>

text \<open>
  What a settings module reads besides the environment bindings: the directory the package
  lives in (\<^verbatim>\<open>Path(__file__).resolve().parent.parent.parent\<close>), whether \<^verbatim>\<open>/.dockerenv\<close> exists,
  the command line, and the names of the modules already imported.
\<close>

record process =
  base_dir :: "string list"
  dockerenv_exists :: bool
  sys_argv :: "string list"
  sys_modules :: "string list"

definition strs :: "string list \<Rightarrow> pyval" where
  "strs xs = VList (map VStr xs)"

definition secret_key :: "environ \<Rightarrow> string" where
  "secret_key env = config_or env ''SECRET_KEY'' ''your-super-secret-key-change-this-in-production''"

definition django_apps :: "string list" where
  "django_apps =
     [''django.contrib.admin'', ''django.contrib.auth'', ''django.contrib.contenttypes'',
      ''django.contrib.sessions'', ''django.contrib.messages'', ''django.contrib.staticfiles'',
      ''django.contrib.sites'']"

definition third_party_apps :: "string list" where
  "third_party_apps =
     [''rest_framework'', ''rest_framework_simplejwt'', ''drf_spectacular'',
      ''corsheaders'',
      ''django_filters'', ''phonenumber_field'', ''django_countries'',
      ''cachalot'',
      ''channels'',
      ''django_celery_beat'', ''django_celery_results'',
      ''health_check'', ''health_check.db'', ''health_check.cache'', ''health_check.storage'',
      ''axes'', ''django_ratelimit'']"

definition local_apps :: "string list" where
  "local_apps = []"

definition base_middleware :: "string list" where
  "base_middleware =
     [''django.middleware.security.SecurityMiddleware'',
      ''whitenoise.middleware.WhiteNoiseMiddleware'',
      ''corsheaders.middleware.CorsMiddleware'',
      ''django.contrib.sessions.middleware.SessionMiddleware'',
      ''django.middleware.common.CommonMiddleware'',
      ''django.middleware.csrf.CsrfViewMiddleware'',
      ''django.contrib.auth.middleware.AuthenticationMiddleware'',
      ''django.contrib.messages.middleware.MessageMiddleware'',
      ''django.middleware.clickjacking.XFrameOptionsMiddleware'',
      ''axes.middleware.AxesMiddleware'']"

definition base_templates :: "process \<Rightarrow> pyval" where
  "base_templates p =
     VList [VDict
       [(''BACKEND'', VStr ''django.template.backends.django.DjangoTemplates''),
        (''DIRS'', VList [VPath (base_dir p @ [''templates''])]),
        (''APP_DIRS'', VBool True),
        (''OPTIONS'', VDict
          [(''context_processors'', strs
             [''django.template.context_processors.debug'',
              ''django.template.context_processors.request'',
              ''django.contrib.auth.context_processors.auth'',
              ''django.contrib.messages.context_processors.messages''])])]]"

text \<open>Lines 14 to 118: paths and core settings. Only the \<^verbatim>\<open>DEBUG\<close> cast can raise.\<close>

definition base_core :: "casts \<Rightarrow> environ \<Rightarrow> process \<Rightarrow> namespace \<Rightarrow> error + namespace" where
  "base_core c env p ns =
     and_then (config_bool c env ''DEBUG'' False) (\<lambda>debug.
     Inr (ns(''BASE_DIR'' \<mapsto> VPath (base_dir p),
             ''SECRET_KEY'' \<mapsto> VStr (secret_key env),
             ''DEBUG'' \<mapsto> VBool debug,
             ''ALLOWED_HOSTS'' \<mapsto> config_csv_or env ''ALLOWED_HOSTS'' ''localhost,127.0.0.1'',
             ''DJANGO_APPS'' \<mapsto> strs django_apps,
             ''THIRD_PARTY_APPS'' \<mapsto> strs third_party_apps,
             ''LOCAL_APPS'' \<mapsto> strs local_apps,
             ''INSTALLED_APPS'' \<mapsto> strs (django_apps @ third_party_apps @ local_apps),
             ''MIDDLEWARE'' \<mapsto> strs base_middleware,
             ''ROOT_URLCONF'' \<mapsto> VStr ''backend.urls'',
             ''TEMPLATES'' \<mapsto> base_templates p,
             ''WSGI_APPLICATION'' \<mapsto> VStr ''backend.wsgi.application'',
             ''ASGI_APPLICATION'' \<mapsto> VStr ''backend.asgi.application'')))"

definition base_databases :: "environ \<Rightarrow> pyval" where
  "base_databases env =
     VDict [(''default'', VDict
       [(''ENGINE'', VStr ''django.db.backends.postgresql''),
        (''NAME'', VStr (config_or env ''DATABASE_NAME'' ''primepass_db'')),
        (''USER'', VStr (config_or env ''DATABASE_USER'' ''primepass_user'')),
        (''PASSWORD'', VStr (config_or env ''DATABASE_PASSWORD'' ''primepass_password'')),
        (''HOST'', VStr (config_or env ''DATABASE_HOST'' ''localhost'')),
        (''PORT'', VStr (config_or env ''DATABASE_PORT'' ''5432'')),
        (''OPTIONS'', VDict [(''connect_timeout'', VInt 10)])])]"

definition base_database :: "environ \<Rightarrow> namespace \<Rightarrow> error + namespace" where
  "base_database env ns = Inr (ns(''DATABASES'' \<mapsto> base_databases env))"

definition base_cache_options :: "(string \<times> pyval) list" where
  "base_cache_options =
     [(''CLIENT_CLASS'', VStr ''django_redis.client.DefaultClient''),
      (''CONNECTION_POOL_KWARGS'', VDict
         [(''max_connections'', VInt 50), (''retry_on_timeout'', VBool True)]),
      (''SERIALIZER'', VStr ''django_redis.serializers.json.JSONSerializer''),
      (''COMPRESSOR'', VStr ''django_redis.compressors.zlib.ZlibCompressor'')]"

definition base_caches :: "environ \<Rightarrow> int \<Rightarrow> pyval" where
  "base_caches env ttl =
     VDict [(''default'', VDict
       [(''BACKEND'', VStr ''django_redis.cache.RedisCache''),
        (''LOCATION'', VStr (config_or env ''REDIS_URL'' ''redis://localhost:6379/0'')),
        (''OPTIONS'', VDict base_cache_options),
        (''KEY_PREFIX'', VStr ''primepass''),
        (''TIMEOUT'', VInt ttl)])]"

text \<open>Lines 142 to 163: the cache and the session settings, with two \<^verbatim>\<open>int\<close> casts.\<close>

definition base_cache :: "casts \<Rightarrow> environ \<Rightarrow> namespace \<Rightarrow> error + namespace" where
  "base_cache c env ns =
     and_then (config_int c env ''CACHE_TTL'' 3600) (\<lambda>ttl.
     and_then (config_int c env ''SESSION_CACHE_TTL'' 86400) (\<lambda>age.
     Inr (ns(''CACHES'' \<mapsto> base_caches env ttl,
             ''SESSION_ENGINE'' \<mapsto> VStr ''django.contrib.sessions.backends.cache'',
             ''SESSION_CACHE_ALIAS'' \<mapsto> VStr ''default'',
             ''SESSION_COOKIE_AGE'' \<mapsto> VInt age))))"

definition base_auth :: "namespace \<Rightarrow> error + namespace" where
  "base_auth ns =
     Inr (ns(''AUTHENTICATION_BACKENDS'' \<mapsto>
               strs [''axes.backends.AxesBackend'', ''django.contrib.auth.backends.ModelBackend''],
             ''SITE_ID'' \<mapsto> VInt 1,
             ''ACCOUNT_EMAIL_REQUIRED'' \<mapsto> VBool True,
             ''ACCOUNT_USERNAME_REQUIRED'' \<mapsto> VBool False,
             ''ACCOUNT_AUTHENTICATION_METHOD'' \<mapsto> VStr ''email'',
             ''ACCOUNT_EMAIL_VERIFICATION'' \<mapsto> VStr ''mandatory''))"

definition base_rest_framework :: "pyval" where
  "base_rest_framework =
     VDict
       [(''DEFAULT_AUTHENTICATION_CLASSES'', strs
           [''rest_framework_simplejwt.authentication.JWTAuthentication'',
            ''rest_framework.authentication.SessionAuthentication'']),
        (''DEFAULT_PERMISSION_CLASSES'', strs [''rest_framework.permissions.IsAuthenticated'']),
        (''DEFAULT_RENDERER_CLASSES'', strs
           [''djangorestframework_camel_case.render.CamelCaseJSONRenderer'',
            ''rest_framework.renderers.JSONRenderer'']),
        (''DEFAULT_PARSER_CLASSES'', strs
           [''djangorestframework_camel_case.parser.CamelCaseFormParser'',
            ''djangorestframework_camel_case.parser.CamelCaseMultiPartParser'',
            ''djangorestframework_camel_case.parser.CamelCaseJSONParser'']),
        (''DEFAULT_FILTER_BACKENDS'', strs
           [''django_filters.rest_framework.DjangoFilterBackend'',
            ''rest_framework.filters.SearchFilter'',
            ''rest_framework.filters.OrderingFilter'']),
        (''DEFAULT_PAGINATION_CLASS'', VStr ''rest_framework.pagination.PageNumberPagination''),
        (''PAGE_SIZE'', VInt 20),
        (''DEFAULT_SCHEMA_CLASS'', VStr ''drf_spectacular.openapi.AutoSchema'')]"

definition base_simple_jwt :: "environ \<Rightarrow> pyval \<Rightarrow> pyval \<Rightarrow> bool \<Rightarrow> pyval" where
  "base_simple_jwt env access refresh rot =
     VDict
       [(''ACCESS_TOKEN_LIFETIME'', access),
        (''REFRESH_TOKEN_LIFETIME'', refresh),
        (''ROTATE_REFRESH_TOKENS'', VBool rot),
        (''BLACKLIST_AFTER_ROTATION'', VBool True),
        (''UPDATE_LAST_LOGIN'', VBool True),
        (''ALGORITHM'', VStr (config_or env ''JWT_ALGORITHM'' ''HS256'')),
        (''SIGNING_KEY'', VStr (config_or env ''JWT_SECRET_KEY'' (secret_key env))),
        (''VERIFYING_KEY'', VNone),
        (''AUDIENCE'', VNone),
        (''ISSUER'', VNone),
        (''AUTH_HEADER_TYPES'', VTuple [VStr ''Bearer'']),
        (''AUTH_HEADER_NAME'', VStr ''HTTP_AUTHORIZATION''),
        (''USER_ID_FIELD'', VStr ''id''),
        (''USER_ID_CLAIM'', VStr ''user_id''),
        (''USER_AUTHENTICATION_RULE'',
           VStr ''rest_framework_simplejwt.authentication.default_user_authentication_rule''),
        (''AUTH_TOKEN_CLASSES'', VTuple [VStr ''rest_framework_simplejwt.tokens.AccessToken'']),
        (''TOKEN_TYPE_CLAIM'', VStr ''token_type'')]"

text \<open>
  Lines 188 to 234. The dict display of \<^verbatim>\<open>SIMPLE_JWT\<close> evaluates its values in order: the
  access lifetime is cast and turned into a \<^verbatim>\<open>timedelta\<close> before the refresh lifetime is read.
\<close>

definition base_rest :: "casts \<Rightarrow> environ \<Rightarrow> namespace \<Rightarrow> error + namespace" where
  "base_rest c env ns =
     and_then (config_int c env ''JWT_ACCESS_TOKEN_LIFETIME'' 3600) (\<lambda>a.
     and_then (timedelta_seconds a) (\<lambda>access.
     and_then (config_int c env ''JWT_REFRESH_TOKEN_LIFETIME'' 86400) (\<lambda>r.
     and_then (timedelta_seconds r) (\<lambda>refresh.
     and_then (config_bool c env ''JWT_ROTATE_REFRESH_TOKENS'' True) (\<lambda>rot.
     Inr (ns(''REST_FRAMEWORK'' \<mapsto> base_rest_framework,
             ''SIMPLE_JWT'' \<mapsto> base_simple_jwt env access refresh rot)))))))"

text \<open>Lines 240 to 247.\<close>

definition base_cors :: "casts \<Rightarrow> environ \<Rightarrow> namespace \<Rightarrow> error + namespace" where
  "base_cors c env ns =
     and_then (config_bool c env ''CORS_ALLOW_CREDENTIALS'' True) (\<lambda>credentials.
     and_then (config_bool c env ''CORS_ALLOW_ALL_ORIGINS'' False) (\<lambda>all_origins.
     Inr (ns(''CORS_ALLOWED_ORIGINS'' \<mapsto>
               config_csv_or env ''CORS_ALLOWED_ORIGINS''
                 ''http://localhost:3000,http://127.0.0.1:3000'',
             ''CORS_ALLOW_CREDENTIALS'' \<mapsto> VBool credentials,
             ''CORS_ALLOW_ALL_ORIGINS'' \<mapsto> VBool all_origins))))"

text \<open>Lines 253 to 299: channel layers, Celery, internationalisation, static files and media.\<close>

definition redis_url :: "environ \<Rightarrow> string" where
  "redis_url env = config_or env ''REDIS_URL'' ''redis://localhost:6379/0''"

definition base_services :: "environ \<Rightarrow> process \<Rightarrow> namespace \<Rightarrow> error + namespace" where
  "base_services env p ns =
     Inr (ns(''CHANNEL_LAYERS'' \<mapsto>
               VDict [(''default'', VDict
                 [(''BACKEND'', VStr ''channels_redis.core.RedisChannelLayer''),
                  (''CONFIG'', VDict
                     [(''hosts'', VList [VStr (redis_url env)]),
                      (''capacity'', VInt 1500),
                      (''expiry'', VInt 10)])])],
             ''CELERY_BROKER_URL'' \<mapsto> VStr (redis_url env),
             ''CELERY_RESULT_BACKEND'' \<mapsto> VStr (redis_url env),
             ''CELERY_ACCEPT_CONTENT'' \<mapsto> strs [''json''],
             ''CELERY_TASK_SERIALIZER'' \<mapsto> VStr ''json'',
             ''CELERY_RESULT_SERIALIZER'' \<mapsto> VStr ''json'',
             ''CELERY_TIMEZONE'' \<mapsto> VStr ''UTC'',
             ''CELERY_BEAT_SCHEDULER'' \<mapsto> VStr ''django_celery_beat.schedulers:DatabaseScheduler'',
             ''LANGUAGE_CODE'' \<mapsto> VStr ''en-us'',
             ''TIME_ZONE'' \<mapsto> VStr ''UTC'',
             ''USE_I18N'' \<mapsto> VBool True,
             ''USE_TZ'' \<mapsto> VBool True,
             ''STATIC_URL'' \<mapsto> VStr (config_or env ''STATIC_URL'' ''/static/''),
             ''STATIC_ROOT'' \<mapsto> VPath (base_dir p @ [''staticfiles'']),
             ''STATICFILES_DIRS'' \<mapsto> VList [VPath (base_dir p @ [''static''])],
             ''MEDIA_URL'' \<mapsto> VStr (config_or env ''MEDIA_URL'' ''/media/''),
             ''MEDIA_ROOT'' \<mapsto> VPath (base_dir p @ [''media'']),
             ''STATICFILES_STORAGE'' \<mapsto>
               VStr ''whitenoise.storage.CompressedManifestStaticFilesStorage''))"

text \<open>Lines 306 to 313: security headers and brute-force protection.\<close>

definition base_security :: "casts \<Rightarrow> environ \<Rightarrow> namespace \<Rightarrow> error + namespace" where
  "base_security c env ns =
     and_then (config_bool c env ''SECURE_BROWSER_XSS_FILTER'' True) (\<lambda>xss.
     and_then (config_bool c env ''SECURE_CONTENT_TYPE_NOSNIFF'' True) (\<lambda>nosniff.
     Inr (ns(''SECURE_BROWSER_XSS_FILTER'' \<mapsto> VBool xss,
             ''SECURE_CONTENT_TYPE_NOSNIFF'' \<mapsto> VBool nosniff,
             ''X_FRAME_OPTIONS'' \<mapsto> VStr (config_or env ''X_FRAME_OPTIONS'' ''DENY''),
             ''AXES_FAILURE_LIMIT'' \<mapsto> VInt 5,
             ''AXES_COOLOFF_TIME'' \<mapsto> VInt 1,
             ''AXES_LOCK_OUT_BY_COMBINATION_USER_AND_IP'' \<mapsto> VBool True))))"

definition log_level :: "environ \<Rightarrow> string" where
  "log_level env = config_or env ''LOG_LEVEL'' ''INFO''"

definition base_logging :: "environ \<Rightarrow> pyval" where
  "base_logging env =
     VDict
       [(''version'', VInt 1),
        (''disable_existing_loggers'', VBool False),
        (''formatters'', VDict
           [(''verbose'', VDict
               [(''format'', VStr ''{levelname} {asctime} {module} {process:d} {thread:d} {message}''),
                (''style'', VStr ''{'')]),
            (''simple'', VDict
               [(''format'', VStr ''{levelname} {message}''),
                (''style'', VStr ''{'')])]),
        (''handlers'', VDict
           [(''file'', VDict
               [(''level'', VStr (log_level env)),
                (''class'', VStr ''logging.FileHandler''),
                (''filename'', VStr (config_or env ''LOG_FILE'' ''logs/primepass.log'')),
                (''formatter'', VStr ''verbose'')]),
            (''console'', VDict
               [(''level'', VStr (log_level env)),
                (''class'', VStr ''logging.StreamHandler''),
                (''formatter'', VStr ''simple'')])]),
        (''root'', VDict
           [(''handlers'', strs [''console'', ''file'']),
            (''level'', VStr (log_level env))]),
        (''loggers'', VDict
           [(''django'', VDict
               [(''handlers'', strs [''console'', ''file'']),
                (''level'', VStr (log_level env)),
                (''propagate'', VBool False)]),
            (''primepass'', VDict
               [(''handlers'', strs [''console'', ''file'']),
                (''level'', VStr (log_level env)),
                (''propagate'', VBool False)])])]"

text \<open>Lines 319 to 380: logging, API documentation, the default primary key type.\<close>

definition base_logging_docs :: "environ \<Rightarrow> namespace \<Rightarrow> error + namespace" where
  "base_logging_docs env ns =
     Inr (ns(''LOGGING'' \<mapsto> base_logging env,
             ''SPECTACULAR_SETTINGS'' \<mapsto>
               VDict
                 [(''TITLE'', VStr ''PrimePass API''),
                  (''DESCRIPTION'', VStr ''High-ticket event management platform API''),
                  (''VERSION'', VStr ''1.0.0''),
                  (''SERVE_INCLUDE_SCHEMA'', VBool False),
                  (''COMPONENT_SPLIT_REQUEST'', VBool True),
                  (''SCHEMA_PATH_PREFIX'', VStr ''/api/v1/'')],
             ''DEFAULT_AUTO_FIELD'' \<mapsto> VStr ''django.db.models.BigAutoField''))"

text \<open>Lines 386 to 391.\<close>

definition base_email :: "casts \<Rightarrow> environ \<Rightarrow> namespace \<Rightarrow> error + namespace" where
  "base_email c env ns =
     and_then (config_int c env ''EMAIL_PORT'' 587) (\<lambda>port.
     and_then (config_bool c env ''EMAIL_USE_TLS'' True) (\<lambda>tls.
     Inr (ns(''EMAIL_BACKEND'' \<mapsto>
               VStr (config_or env ''EMAIL_BACKEND'' ''django.core.mail.backends.console.EmailBackend''),
             ''EMAIL_HOST'' \<mapsto> VStr (config_or env ''EMAIL_HOST'' ''smtp.gmail.com''),
             ''EMAIL_PORT'' \<mapsto> VInt port,
             ''EMAIL_USE_TLS'' \<mapsto> VBool tls,
             ''EMAIL_HOST_USER'' \<mapsto> VStr (config_or env ''EMAIL_HOST_USER'' []),
             ''EMAIL_HOST_PASSWORD'' \<mapsto> VStr (config_or env ''EMAIL_HOST_PASSWORD'' [])))))"

text \<open>Lines 398 to 411.\<close>

definition base_custom :: "casts \<Rightarrow> environ \<Rightarrow> namespace \<Rightarrow> error + namespace" where
  "base_custom c env ns =
     and_then (config_int c env ''MAX_EVENTS_PER_USER'' 10) (\<lambda>max_events.
     and_then (config_int c env ''MAX_ATTENDEES_PER_EVENT'' 1000) (\<lambda>max_attendees.
     and_then (config_int c env ''DEFAULT_EVENT_DURATION'' 3600) (\<lambda>duration.
     and_then (config_bool c env ''ENABLE_NOTIFICATIONS'' True) (\<lambda>notifications.
     Inr (ns(''FRONTEND_URL'' \<mapsto> VStr (config_or env ''FRONTEND_URL'' ''http://localhost:3000''),
             ''API_VERSION'' \<mapsto> VStr (config_or env ''API_VERSION'' ''v1''),
             ''MAX_EVENTS_PER_USER'' \<mapsto> VInt max_events,
             ''MAX_ATTENDEES_PER_EVENT'' \<mapsto> VInt max_attendees,
             ''DEFAULT_EVENT_DURATION'' \<mapsto> VInt duration,
             ''ENABLE_NOTIFICATIONS'' \<mapsto> VBool notifications,
             ''NOTIFICATION_CHANNELS'' \<mapsto>
               config_csv_or env ''NOTIFICATION_CHANNELS'' ''email,websocket'',
             ''WEBSOCKET_URL'' \<mapsto> VStr (config_or env ''WEBSOCKET_URL'' ''ws://localhost:8000/ws/'')))))))"

text \<open>The module, top to bottom, on the empty namespace.\<close>

definition base_sections :: "casts \<Rightarrow> environ \<Rightarrow> process \<Rightarrow> (namespace \<Rightarrow> error + namespace) list" where
  "base_sections c env p =
     [base_core c env p, base_database env, base_cache c env, base_auth, base_rest c env,
      base_cors c env, base_services env p, base_security c env, base_logging_docs env,
      base_email c env, base_custom c env]"

definition base :: "casts \<Rightarrow> environ \<Rightarrow> process \<Rightarrow> error + namespace" where
  "base c env p = run (base_sections c env p) Map.empty"

section \<open>\<^verbatim>\<open>settings/development.py\<close>\<close>

text \<open>
  \<^verbatim>\<open>from .base import *\<close> runs the base module and copies its names; the overlay then rebinds
  names and mutates values in that namespace. \<open>assign\<close> is the statement \<^verbatim>\<open>NAME = value\<close>.
\<close>

definition assign :: "string \<Rightarrow> pyval \<Rightarrow> namespace \<Rightarrow> error + namespace" where
  "assign name v ns = Inr (ns(name \<mapsto> v))"

text \<open>
  Lines 14 to 57. \<^verbatim>\<open>INSTALLED_APPS += [...]\<close> extends the list, \<^verbatim>\<open>MIDDLEWARE = [...] + MIDDLEWARE\<close>
  puts the two debug middlewares in front.
\<close>

definition dev_debug :: "casts \<Rightarrow> environ \<Rightarrow> namespace \<Rightarrow> error + namespace" where
  "dev_debug c env ns =
     and_then
       (run [assign ''DEBUG'' (VBool True),
             assign ''ALLOWED_HOSTS'' (strs [''localhost'', ''127.0.0.1'', ''0.0.0.0'', ''backend'']),
             mutate ''INSTALLED_APPS'' []
               (\<lambda>apps. list_concat apps (strs [''django_extensions'', ''debug_toolbar'', ''silk''])),
             mutate ''MIDDLEWARE'' []
               (list_concat (strs [''debug_toolbar.middleware.DebugToolbarMiddleware'',
                                   ''silk.middleware.SilkyMiddleware''])),
             assign ''INTERNAL_IPS'' (strs [''127.0.0.1'', ''localhost'']),
             assign ''DEBUG_TOOLBAR_CONFIG''
               (VDict [(''SHOW_TOOLBAR_CALLBACK'', VOpaque ''lambda request: DEBUG''),
                       (''SHOW_COLLAPSED'', VBool True)])] ns) (\<lambda>ns1.
     and_then (config_bool c env ''ENABLE_SILK_PROFILING'' False) (\<lambda>profiler.
     Inr (ns1(''SILKY_PYTHON_PROFILER'' \<mapsto> VBool profiler,
              ''SILKY_PYTHON_PROFILER_BINARY'' \<mapsto> VBool True,
              ''SILKY_AUTHENTICATION'' \<mapsto> VBool True,
              ''SILKY_AUTHORISATION'' \<mapsto> VBool True))))"

text \<open>
  Lines 64 to 72. The second condition is \<^verbatim>\<open>os.path.exists('/.dockerenv') or config(...)\<close>:
  when the file exists the binding \<^verbatim>\<open>DOCKER_ENV\<close> is not read at all.
\<close>

definition dev_database :: "casts \<Rightarrow> environ \<Rightarrow> process \<Rightarrow> namespace \<Rightarrow> error + namespace" where
  "dev_database c env p ns =
     and_then (config_bool c env ''USE_PGBOUNCER'' False) (\<lambda>use_pgbouncer.
     and_then
       (if use_pgbouncer
        then run [assign_item ''DATABASES'' [K ''default''] (K ''HOST'')
                    (VStr (config_or env ''DATABASE_HOST'' ''pgbouncer'')),
                  assign_item ''DATABASES'' [K ''default''] (K ''PORT'')
                    (VStr (config_or env ''PGBOUNCER_PORT'' ''5432''))] ns
        else Inr ns) (\<lambda>ns1.
     and_then
       (if dockerenv_exists p then Inr True else config_bool c env ''DOCKER_ENV'' False) (\<lambda>docker.
     if docker
     then run [assign_item ''DATABASES'' [K ''default''] (K ''HOST'') (VStr ''pgbouncer''),
               assign_item ''DATABASES'' [K ''default''] (K ''PORT'') (VStr ''6432'')] ns1
     else Inr ns1)))"

text \<open>Line 79: \<^verbatim>\<open>CACHES['default']['OPTIONS']['IGNORE_EXCEPTIONS'] = True\<close>.\<close>

definition dev_cache :: "namespace \<Rightarrow> error + namespace" where
  "dev_cache = assign_item ''CACHES'' [K ''default'', K ''OPTIONS''] (K ''IGNORE_EXCEPTIONS'') (VBool True)"

text \<open>Lines 86 to 99.\<close>

definition dev_cors_origins :: "string list" where
  "dev_cors_origins =
     [''http://localhost:3000'', ''http://127.0.0.1:3000'',
      ''http://localhost:5173'', ''http://127.0.0.1:5173'']"

definition dev_email_cors :: "namespace \<Rightarrow> error + namespace" where
  "dev_email_cors =
     run [assign ''EMAIL_BACKEND'' (VStr ''django.core.mail.backends.console.EmailBackend''),
          assign ''CORS_ALLOW_ALL_ORIGINS'' (VBool True),
          assign ''CORS_ALLOWED_ORIGINS'' (strs dev_cors_origins)]"

text \<open>Lines 105 to 129.\<close>

definition dev_logging_security :: "namespace \<Rightarrow> error + namespace" where
  "dev_logging_security =
     run [assign_item ''LOGGING'' [K ''handlers'', K ''console''] (K ''level'') (VStr ''DEBUG''),
          assign_item ''LOGGING'' [K ''loggers''] (K ''django.db.backends'')
            (VDict [(''handlers'', strs [''console'']),
                    (''level'', VStr ''DEBUG''),
                    (''propagate'', VBool False)]),
          assign ''SHELL_PLUS_PRINT_SQL'' (VBool True),
          assign ''SHELL_PLUS_PRINT_SQL_TRUNCATE'' (VInt 1000),
          assign ''SECURE_SSL_REDIRECT'' (VBool False),
          assign ''SECURE_PROXY_SSL_HEADER'' VNone,
          assign ''SECURE_HSTS_SECONDS'' (VInt 0),
          assign ''SECURE_HSTS_INCLUDE_SUBDOMAINS'' (VBool False),
          assign ''SECURE_HSTS_PRELOAD'' (VBool False)]"

text \<open>Lines 136 to 158.\<close>

definition dev_celery :: "casts \<Rightarrow> environ \<Rightarrow> namespace \<Rightarrow> error + namespace" where
  "dev_celery c env ns =
     and_then (config_bool c env ''CELERY_EAGER'' False) (\<lambda>eager.
     Inr (ns(''CELERY_TASK_ALWAYS_EAGER'' \<mapsto> VBool eager,
             ''CELERY_TASK_EAGER_PROPAGATES'' \<mapsto> VBool True,
             ''QUERYCOUNT'' \<mapsto>
               VDict
                 [(''THRESHOLDS'', VDict
                     [(''MEDIUM'', VInt 50),
                      (''HIGH'', VInt 200),
                      (''MIN_TIME_TO_LOG'', VInt 0),
                      (''MIN_QUERY_COUNT_TO_LOG'', VInt 5)]),
                  (''IGNORE_REQUEST_PATTERNS'', strs [''^/admin/'', ''^/static/'', ''^/media/'']),
                  (''IGNORE_SQL_PATTERNS'', VList []),
                  (''DISPLAY_DUPLICATES'', VInt 10)])))"

text \<open>
  Lines 161 to 166: \<^verbatim>\<open>TEMPLATES[0]['OPTIONS']['debug'] = True\<close>, then the loaders are replaced
  when \<^verbatim>\<open>'loaders' in TEMPLATES[0]['OPTIONS']\<close>. \<open>contains_key\<close> is the operator \<^verbatim>\<open>in\<close> on
  the containers of the settings (the keys of a dict, the items of a list or tuple).
\<close>

fun contains_key :: "pyval \<Rightarrow> string \<Rightarrow> error + bool" where
  "contains_key (VDict kvs) k = Inr (k \<in> set (map fst kvs))"
| "contains_key (VList xs) k = Inr (VStr k \<in> set xs)"
| "contains_key (VTuple xs) k = Inr (VStr k \<in> set xs)"
| "contains_key _ k = Inl TypeError"

definition dev_templates :: "namespace \<Rightarrow> error + namespace" where
  "dev_templates ns =
     and_then (assign_item ''TEMPLATES'' [I 0, K ''OPTIONS''] (K ''debug'') (VBool True) ns) (\<lambda>ns1.
     and_then (read ns1 ''TEMPLATES'' [I 0, K ''OPTIONS'']) (\<lambda>options.
     and_then (contains_key options ''loaders'') (\<lambda>has_loaders.
     if has_loaders
     then assign_item ''TEMPLATES'' [I 0, K ''OPTIONS''] (K ''loaders'')
            (strs [''django.template.loaders.filesystem.Loader'',
                   ''django.template.loaders.app_directories.Loader'']) ns1
     else Inr ns1)))"

text \<open>
  Lines 172 to 198, the testing overrides: taken when \<^verbatim>\<open>'test' in sys.argv or 'pytest' in
  sys.modules\<close>. They replace the default database and the whole of \<^verbatim>\<open>CACHES\<close>.
\<close>

definition testing :: "process \<Rightarrow> bool" where
  "testing p = (''test'' \<in> set (sys_argv p) \<or> ''pytest'' \<in> set (sys_modules p))"

definition dev_testing :: "process \<Rightarrow> namespace \<Rightarrow> error + namespace" where
  "dev_testing p ns =
     (if testing p
      then run [assign_item ''DATABASES'' [] (K ''default'')
                  (VDict [(''ENGINE'', VStr ''django.db.backends.sqlite3''),
                          (''NAME'', VStr '':memory:'')]),
                assign ''MIGRATION_MODULES'' (VOpaque ''DisableMigrations()''),
                assign ''CACHES''
                  (VDict [(''default'', VDict
                     [(''BACKEND'', VStr ''django.core.cache.backends.dummy.DummyCache'')])]),
                assign ''CELERY_TASK_ALWAYS_EAGER'' (VBool True),
                assign ''CELERY_TASK_EAGER_PROPAGATES'' (VBool True)] ns
      else Inr ns)"

definition development_sections :: "casts \<Rightarrow> environ \<Rightarrow> process \<Rightarrow> (namespace \<Rightarrow> error + namespace) list" where
  "development_sections c env p =
     [dev_debug c env, dev_database c env p, dev_cache, dev_email_cors, dev_logging_security,
      dev_celery c env, dev_templates, dev_testing p]"

definition development :: "casts \<Rightarrow> environ \<Rightarrow> process \<Rightarrow> error + namespace" where
  "development c env p = and_then (base c env p) (run (development_sections c env p))"

section \<open>\<^verbatim>\<open>settings/production.py\<close>\<close>

text \<open>
  Lines 17 to 36. \<^verbatim>\<open>config('ALLOWED_HOSTS', cast=...)\<close> has no default: the binding is
  required.
\<close>

definition prod_security :: "casts \<Rightarrow> environ \<Rightarrow> namespace \<Rightarrow> error + namespace" where
  "prod_security c env ns =
     and_then (config_csv env ''ALLOWED_HOSTS'') (\<lambda>hosts.
     and_then (config_bool c env ''SECURE_SSL_REDIRECT'' True) (\<lambda>ssl_redirect.
     and_then (config_int c env ''SECURE_HSTS_SECONDS'' 31536000) (\<lambda>hsts_seconds.
     and_then (config_bool c env ''SECURE_HSTS_INCLUDE_SUBDOMAINS'' True) (\<lambda>hsts_subdomains.
     and_then (config_bool c env ''SECURE_HSTS_PRELOAD'' True) (\<lambda>hsts_preload.
     Inr (ns(''DEBUG'' \<mapsto> VBool False,
             ''ALLOWED_HOSTS'' \<mapsto> hosts,
             ''SECURE_SSL_REDIRECT'' \<mapsto> VBool ssl_redirect,
             ''SECURE_PROXY_SSL_HEADER'' \<mapsto> VTuple [VStr ''HTTP_X_FORWARDED_PROTO'', VStr ''https''],
             ''SECURE_HSTS_SECONDS'' \<mapsto> VInt hsts_seconds,
             ''SECURE_HSTS_INCLUDE_SUBDOMAINS'' \<mapsto> VBool hsts_subdomains,
             ''SECURE_HSTS_PRELOAD'' \<mapsto> VBool hsts_preload,
             ''SECURE_CONTENT_TYPE_NOSNIFF'' \<mapsto> VBool True,
             ''SECURE_BROWSER_XSS_FILTER'' \<mapsto> VBool True,
             ''SECURE_REFERRER_POLICY'' \<mapsto> VStr ''strict-origin-when-cross-origin'',
             ''SESSION_COOKIE_SECURE'' \<mapsto> VBool True,
             ''SESSION_COOKIE_HTTPONLY'' \<mapsto> VBool True,
             ''SESSION_COOKIE_SAMESITE'' \<mapsto> VStr ''Lax'',
             ''CSRF_COOKIE_SECURE'' \<mapsto> VBool True,
             ''CSRF_COOKIE_HTTPONLY'' \<mapsto> VBool True,
             ''CSRF_COOKIE_SAMESITE'' \<mapsto> VStr ''Lax'')))))))"

text \<open>Lines 43 to 52. \<^verbatim>\<open>config('DATABASE_HOST')\<close> has no default either.\<close>

definition prod_database :: "environ \<Rightarrow> namespace \<Rightarrow> error + namespace" where
  "prod_database env ns =
     and_then (config env ''DATABASE_HOST'') (\<lambda>host.
     run [assign_item ''DATABASES'' [K ''default''] (K ''HOST'') (VStr host),
          assign_item ''DATABASES'' [K ''default''] (K ''PORT'')
            (VStr (config_or env ''PGBOUNCER_PORT'' ''6432'')),
          mutate ''DATABASES'' [K ''default'', K ''OPTIONS'']
            (dict_update
               [(''sslmode'', VStr ''require''),
                (''connect_timeout'', VInt 10),
                (''options'', VStr ''-c default_transaction_isolation=read_committed'')]),
          assign_item ''DATABASES'' [K ''default''] (K ''CONN_MAX_AGE'') (VInt 60)] ns)"

text \<open>Lines 59 to 67: \<^verbatim>\<open>CACHES['default']['OPTIONS'].update({...})\<close>.\<close>

definition prod_cache_options :: "(string \<times> pyval) list" where
  "prod_cache_options =
     [(''CONNECTION_POOL_KWARGS'', VDict
         [(''max_connections'', VInt 100),
          (''retry_on_timeout'', VBool True),
          (''socket_keepalive'', VBool True),
          (''socket_keepalive_options'', VDict [])]),
      (''IGNORE_EXCEPTIONS'', VBool False)]"

definition prod_cache :: "namespace \<Rightarrow> error + namespace" where
  "prod_cache = mutate ''CACHES'' [K ''default'', K ''OPTIONS''] (dict_update prod_cache_options)"

text \<open>
  Lines 74 to 92, taken when \<^verbatim>\<open>USE_S3\<close> is true: the three credentials have no default.
  The URLs use \<^verbatim>\<open>AWS_S3_CUSTOM_DOMAIN or f"{AWS_STORAGE_BUCKET_NAME}.s3.amazonaws.com"\<close>: the
  custom domain when it is bound to a non-empty text.
\<close>

definition s3_host :: "environ \<Rightarrow> string \<Rightarrow> string" where
  "s3_host env bucket =
     (case env ''AWS_S3_CUSTOM_DOMAIN'' of
        None \<Rightarrow> bucket @ ''.s3.amazonaws.com''
      | Some d \<Rightarrow> if d = [] then bucket @ ''.s3.amazonaws.com'' else d)"

definition prod_storage :: "casts \<Rightarrow> environ \<Rightarrow> namespace \<Rightarrow> error + namespace" where
  "prod_storage c env ns =
     and_then (config_bool c env ''USE_S3'' False) (\<lambda>use_s3.
     if use_s3
     then
       and_then (config env ''AWS_ACCESS_KEY_ID'') (\<lambda>access_key.
       and_then (config env ''AWS_SECRET_ACCESS_KEY'') (\<lambda>secret.
       and_then (config env ''AWS_STORAGE_BUCKET_NAME'') (\<lambda>bucket.
       Inr (ns(''AWS_ACCESS_KEY_ID'' \<mapsto> VStr access_key,
               ''AWS_SECRET_ACCESS_KEY'' \<mapsto> VStr secret,
               ''AWS_STORAGE_BUCKET_NAME'' \<mapsto> VStr bucket,
               ''AWS_S3_REGION_NAME'' \<mapsto> VStr (config_or env ''AWS_S3_REGION_NAME'' ''us-east-1''),
               ''AWS_S3_CUSTOM_DOMAIN'' \<mapsto>
                 (case env ''AWS_S3_CUSTOM_DOMAIN'' of None \<Rightarrow> VNone | Some d \<Rightarrow> VStr d),
               ''AWS_DEFAULT_ACL'' \<mapsto> VNone,
               ''AWS_S3_OBJECT_PARAMETERS'' \<mapsto> VDict [(''CacheControl'', VStr ''max-age=86400'')],
               ''STATICFILES_STORAGE'' \<mapsto> VStr ''storages.backends.s3boto3.S3Boto3Storage'',
               ''STATIC_URL'' \<mapsto> VStr (''https://'' @ s3_host env bucket @ ''/static/''),
               ''DEFAULT_FILE_STORAGE'' \<mapsto> VStr ''storages.backends.s3boto3.S3Boto3Storage'',
               ''MEDIA_URL'' \<mapsto> VStr (''https://'' @ s3_host env bucket @ ''/media/''))))))
     else Inr ns)"

definition prod_logging :: "pyval" where
  "prod_logging =
     VDict
       [(''version'', VInt 1),
        (''disable_existing_loggers'', VBool False),
        (''formatters'', VDict
           [(''verbose'', VDict
               [(''format'', VStr ''{levelname} {asctime} {module} {process:d} {thread:d} {message}''),
                (''style'', VStr ''{'')]),
            (''json'', VDict
               [(''()'', VStr ''pythonjsonlogger.jsonlogger.JsonFormatter''),
                (''format'',
                   VStr ''%(levelname)s %(asctime)s %(module)s %(process)d %(thread)d %(message)s'')])]),
        (''handlers'', VDict
           [(''file'', VDict
               [(''level'', VStr ''INFO''),
                (''class'', VStr ''logging.handlers.RotatingFileHandler''),
                (''filename'', VStr ''/var/log/primepass/primepass.log''),
                (''maxBytes'', VInt (1024 * 1024 * 50)),
                (''backupCount'', VInt 5),
                (''formatter'', VStr ''json'')]),
            (''console'', VDict
               [(''level'', VStr ''INFO''),
                (''class'', VStr ''logging.StreamHandler''),
                (''formatter'', VStr ''json'')]),
            (''sentry'', VDict
               [(''level'', VStr ''ERROR''),
                (''class'', VStr ''sentry_sdk.integrations.logging.SentryHandler'')])]),
        (''root'', VDict
           [(''handlers'', strs [''console'', ''file'', ''sentry'']),
            (''level'', VStr ''INFO'')]),
        (''loggers'', VDict
           [(''django'', VDict
               [(''handlers'', strs [''console'', ''file'', ''sentry'']),
                (''level'', VStr ''INFO''),
                (''propagate'', VBool False)]),
            (''primepass'', VDict
               [(''handlers'', strs [''console'', ''file'', ''sentry'']),
                (''level'', VStr ''INFO''),
                (''propagate'', VBool False)]),
            (''celery'', VDict
               [(''handlers'', strs [''console'', ''file'', ''sentry'']),
                (''level'', VStr ''INFO''),
                (''propagate'', VBool False)])])]"

text \<open>Lines 99 to 164: e-mail through SendGrid, and \<^verbatim>\<open>LOGGING\<close> rebound to a new dict.\<close>

definition prod_email_logging :: "environ \<Rightarrow> namespace \<Rightarrow> error + namespace" where
  "prod_email_logging env ns =
     Inr (ns(''EMAIL_BACKEND'' \<mapsto> VStr ''anymail.backends.sendgrid.EmailBackend'',
             ''ANYMAIL'' \<mapsto> VDict [(''SENDGRID_API_KEY'', VStr (config_or env ''SENDGRID_API_KEY'' []))],
             ''DEFAULT_FROM_EMAIL'' \<mapsto>
               VStr (config_or env ''DEFAULT_FROM_EMAIL'' ''noreply@primepass.com''),
             ''SERVER_EMAIL'' \<mapsto> VStr (config_or env ''SERVER_EMAIL'' ''server@primepass.com''),
             ''LOGGING'' \<mapsto> prod_logging))"

text \<open>
  Lines 170 to 190. When \<^verbatim>\<open>SENTRY_DSN\<close> is bound to a non-empty text the module calls
  \<^verbatim>\<open>sentry_sdk.init\<close> while it is being imported. The call is the one effect a settings module
  has on the process; it is recorded with the arguments that depend on the bindings, in the
  order \<^verbatim>\<open>dsn\<close>, \<^verbatim>\<open>traces_sample_rate\<close>, \<^verbatim>\<open>environment\<close>, \<^verbatim>\<open>release\<close> (the
  integrations and \<^verbatim>\<open>send_default_pii=False\<close> are fixed). The arguments are evaluated before
  the call, so a sample rate that cannot be cast raises with nothing initialised.
\<close>

datatype effect = Sentry_init string real string string

definition prod_sentry :: "casts \<Rightarrow> environ \<Rightarrow> namespace \<Rightarrow> error + namespace \<times> effect list" where
  "prod_sentry c env ns =
     (let sentry_dsn = config_or env ''SENTRY_DSN'' [];
          ns1 = ns(''SENTRY_DSN'' \<mapsto> VStr sentry_dsn)
      in if sentry_dsn \<noteq> []
         then and_then (config_float c env ''SENTRY_TRACES_SAMPLE_RATE'' (1 / 10)) (\<lambda>rate.
              Inr (ns1, [Sentry_init sentry_dsn rate
                           (config_or env ''ENVIRONMENT'' ''production'')
                           (config_or env ''RELEASE_VERSION'' ''1.0.0'')]))
         else Inr (ns1, []))"

text \<open>Lines 196 to 217. \<^verbatim>\<open>CORS_ALLOWED_ORIGINS\<close> is required.\<close>

definition prod_cors_celery :: "environ \<Rightarrow> namespace \<Rightarrow> error + namespace" where
  "prod_cors_celery env ns =
     and_then (config_csv env ''CORS_ALLOWED_ORIGINS'') (\<lambda>origins.
     Inr (ns(''CORS_ALLOW_ALL_ORIGINS'' \<mapsto> VBool False,
             ''CORS_ALLOWED_ORIGINS'' \<mapsto> origins,
             ''CELERY_TASK_ALWAYS_EAGER'' \<mapsto> VBool False,
             ''CELERY_WORKER_PREFETCH_MULTIPLIER'' \<mapsto> VInt 1,
             ''CELERY_TASK_ACKS_LATE'' \<mapsto> VBool True,
             ''CELERY_WORKER_MAX_TASKS_PER_CHILD'' \<mapsto> VInt 1000,
             ''CELERY_TASK_ROUTES'' \<mapsto>
               VDict
                 [(''apps.notifications.tasks.*'', VDict [(''queue'', VStr ''notifications'')]),
                  (''apps.events.tasks.*'', VDict [(''queue'', VStr ''events'')]),
                  (''apps.analytics.tasks.*'', VDict [(''queue'', VStr ''analytics'')])])))"

text \<open>Lines 224 to 290.\<close>

definition prod_tuning :: "environ \<Rightarrow> namespace \<Rightarrow> error + namespace" where
  "prod_tuning env =
     run [mutate ''DATABASES'' [K ''default'', K ''OPTIONS'']
            (dict_update
               [(''MAX_CONNS'', VInt 20),
                (''OPTIONS'', VDict [(''MAX_CONNS'', VInt 20), (''autocommit'', VBool True)])]),
          assign_item ''TEMPLATES'' [I 0, K ''OPTIONS''] (K ''loaders'')
            (VList [VTuple [VStr ''django.template.loaders.cached.Loader'',
                            strs [''django.template.loaders.filesystem.Loader'',
                                  ''django.template.loaders.app_directories.Loader'']]]),
          assign ''HEALTH_CHECK'' (VDict [(''DISK_USAGE_MAX'', VInt 90), (''MEMORY_MIN'', VInt 100)]),
          assign ''RATELIMIT_ENABLE'' (VBool True),
          assign ''RATELIMIT_USE_CACHE'' (VStr ''default''),
          assign_item ''REST_FRAMEWORK'' [] (K ''DEFAULT_RENDERER_CLASSES'')
            (strs [''djangorestframework_camel_case.render.CamelCaseJSONRenderer'']),
          mutate ''MIDDLEWARE'' [] (list_insert 1 (VStr ''django.middleware.cache.UpdateCacheMiddleware'')),
          mutate ''MIDDLEWARE'' [] (list_append (VStr ''django.middleware.cache.FetchFromCacheMiddleware'')),
          assign ''CACHE_MIDDLEWARE_ALIAS'' (VStr ''default''),
          assign ''CACHE_MIDDLEWARE_SECONDS'' (VInt 600),
          assign ''CACHE_MIDDLEWARE_KEY_PREFIX'' (VStr ''primepass''),
          assign ''DBBACKUP_STORAGE'' (VStr ''django.core.files.storage.FileSystemStorage''),
          assign ''DBBACKUP_STORAGE_OPTIONS'' (VDict [(''location'', VStr ''/var/backups/primepass/'')]),
          assign ''ADMIN_URL'' (VStr (config_or env ''ADMIN_URL'' ''admin/'')),
          assign ''ADMIN_FORCE_ALLAUTH'' (VBool True)]"

text \<open>
  The module from top to bottom. What the import leaves behind is the namespace (or the
  exception that ended it) and the effects performed up to that point: an exception raised
  after line 172 does not undo the initialisation of the SDK.
\<close>

record resolution =
  outcome :: "error + namespace"
  effects :: "effect list"

definition production_head :: "casts \<Rightarrow> environ \<Rightarrow> (namespace \<Rightarrow> error + namespace) list" where
  "production_head c env =
     [prod_security c env, prod_database env, prod_cache, prod_storage c env, prod_email_logging env]"

definition production_tail :: "environ \<Rightarrow> (namespace \<Rightarrow> error + namespace) list" where
  "production_tail env = [prod_cors_celery env, prod_tuning env]"

definition production :: "casts \<Rightarrow> environ \<Rightarrow> process \<Rightarrow> resolution" where
  "production c env p =
     (case and_then (base c env p) (run (production_head c env)) of
        Inl e \<Rightarrow> \<lparr>outcome = Inl e, effects = []\<rparr>
      | Inr ns \<Rightarrow>
          (case prod_sentry c env ns of
             Inl e \<Rightarrow> \<lparr>outcome = Inl e, effects = []\<rparr>
           | Inr (ns1, effs) \<Rightarrow> \<lparr>outcome = run (production_tail env) ns1, effects = effs\<rparr>))"

section \<open>Resolution\<close>

text \<open>
  Resolving the configuration is importing the settings module of the chosen overlay, here in
  an interpreter that has not imported \<^verbatim>\<open>backend.settings.base\<close> before, so that
  \<^verbatim>\<open>from .base import *\<close> runs the base module. The development module performs no effect.
\<close>

datatype overlay = Development | Production

definition resolve :: "casts \<Rightarrow> overlay \<Rightarrow> environ \<Rightarrow> process \<Rightarrow> resolution" where
  "resolve c ov env p =
     (case ov of
        Development \<Rightarrow> \<lparr>outcome = development c env p, effects = []\<rparr>
      | Production \<Rightarrow> production c env p)"

text \<open>
  Python runs a module once per interpreter and keeps it in \<^verbatim>\<open>sys.modules\<close>. When the base
  module has been imported before, \<^verbatim>\<open>from .base import *\<close> copies the names of the module as it
  is by then: the objects an overlay imported earlier has mutated in place
  (\<^verbatim>\<open>INSTALLED_APPS += ...\<close>, the item assignments, \<^verbatim>\<open>MIDDLEWARE.insert\<close>) are the base module's
  own. \<open>cached\<close> is the namespace of the base module held by the interpreter, if it holds one.
\<close>

definition import_base :: "casts \<Rightarrow> environ \<Rightarrow> process \<Rightarrow> namespace option \<Rightarrow> error + namespace" where
  "import_base c env p cached = (case cached of None \<Rightarrow> base c env p | Some ns \<Rightarrow> Inr ns)"

definition development_in :: "casts \<Rightarrow> environ \<Rightarrow> process \<Rightarrow> namespace option \<Rightarrow> error + namespace" where
  "development_in c env p cached =
     and_then (import_base c env p cached) (run (development_sections c env p))"

definition production_in :: "casts \<Rightarrow> environ \<Rightarrow> process \<Rightarrow> namespace option \<Rightarrow> resolution" where
  "production_in c env p cached =
     (case and_then (import_base c env p cached) (run (production_head c env)) of
        Inl e \<Rightarrow> \<lparr>outcome = Inl e, effects = []\<rparr>
      | Inr ns \<Rightarrow>
          (case prod_sentry c env ns of
             Inl e \<Rightarrow> \<lparr>outcome = Inl e, effects = []\<rparr>
           | Inr (ns1, effs) \<Rightarrow> \<lparr>outcome = run (production_tail env) ns1, effects = effs\<rparr>))"

definition resolve_in :: "casts \<Rightarrow> overlay \<Rightarrow> environ \<Rightarrow> process \<Rightarrow> namespace option \<Rightarrow> resolution" where
  "resolve_in c ov env p cached =
     (case ov of
        Development \<Rightarrow> \<lparr>outcome = development_in c env p cached, effects = []\<rparr>
      | Production \<Rightarrow> production_in c env p cached)"

section \<open>\<^verbatim>\<open>urls.py\<close>\<close>

text \<open>
  A route is \<^verbatim>\<open>path(prefix, handler, name=...)\<close>. A handler is a view (named by the expression
  that builds it), \<^verbatim>\<open>include\<close> of a URL module (with its optional namespace), or \<^verbatim>\<open>include\<close> of
  a list of routes. \<open>Serve_route\<close> is the route Django's \<^verbatim>\<open>static\<close> helper builds: the pattern
  \<^verbatim>\<open>re_path(r'^%s(?P<path>.*)$' % re.escape(prefix), serve, kwargs={'document_root': root})\<close>,
  kept by the prefix and the document root it is built from.
\<close>

datatype route =
      Route string handler "string option"
    | Serve_route string pyval
  and handler =
      View string
    | Include_module string "string option"
    | Include_patterns "route list"

definition api_v1_patterns :: "route list" where
  "api_v1_patterns =
     [Route ''auth/token/'' (View ''TokenObtainPairView.as_view()'') (Some ''token_obtain_pair''),
      Route ''auth/token/refresh/'' (View ''TokenRefreshView.as_view()'') (Some ''token_refresh''),
      Route ''auth/token/verify/'' (View ''TokenVerifyView.as_view()'') (Some ''token_verify''),
      Route ''health/'' (Include_module ''health_check.urls'' None) None]"

definition main_patterns :: "route list" where
  "main_patterns =
     [Route ''admin/'' (View ''admin.site.urls'') None,
      Route ''api/v1/'' (Include_patterns api_v1_patterns) None,
      Route ''api/schema/'' (View ''SpectacularAPIView.as_view()'') (Some ''schema''),
      Route ''api/docs/'' (View ''SpectacularSwaggerView.as_view(url_name=schema)'') (Some ''swagger-ui''),
      Route ''api/redoc/'' (View ''SpectacularRedocView.as_view(url_name=schema)'') (Some ''redoc'')]"

definition debug_patterns :: "route list" where
  "debug_patterns =
     [Route ''__debug__/'' (Include_module ''debug_toolbar.urls'' None) None,
      Route ''silk/'' (Include_module ''silk.urls'' (Some ''silk'')) None]"

text \<open>The truth value Python gives a setting in \<^verbatim>\<open>if settings.DEBUG:\<close>.\<close>

fun truthy :: "pyval \<Rightarrow> bool" where
  "truthy VNone = False"
| "truthy (VBool b) = b"
| "truthy (VInt i) = (i \<noteq> 0)"
| "truthy (VFloat x) = (x \<noteq> 0)"
| "truthy (VStr s) = (s \<noteq> [])"
| "truthy (VPath parts) = True"
| "truthy (VTimedelta n) = (n \<noteq> 0)"
| "truthy (VOpaque s) = True"
| "truthy (VList xs) = (xs \<noteq> [])"
| "truthy (VTuple xs) = (xs \<noteq> [])"
| "truthy (VDict kvs) = (kvs \<noteq> [])"

definition setting :: "namespace \<Rightarrow> string \<Rightarrow> error + pyval" where
  "setting ns name = (case ns name of None \<Rightarrow> Inl (AttributeError name) | Some v \<Rightarrow> Inr v)"

text \<open>
  What \<^verbatim>\<open>urls.py\<close> takes from Django and the standard library when it reads the two URL
  settings and calls \<^verbatim>\<open>static\<close>: the script prefix in force when the module is imported
  (\<^verbatim>\<open>django.urls.get_script_prefix()\<close>, \<^verbatim>\<open>/\<close> unless the deployment sets another), and the
  network location \<^verbatim>\<open>urlsplit(url).netloc\<close> of a URL (it can raise, on a malformed host).
\<close>

record django =
  script_prefix :: string
  netloc :: "string \<Rightarrow> error + string"

text \<open>
  \<^verbatim>\<open>settings.MEDIA_URL\<close> and \<^verbatim>\<open>settings.STATIC_URL\<close> are not the values of the settings module as
  they stand: \<^verbatim>\<open>LazySettings.__getattr__\<close> passes a value of these two names that is not \<^verbatim>\<open>None\<close>
  through \<^verbatim>\<open>_add_script_prefix\<close>,
  \<^verbatim>\<open>
  if value.startswith(("http://", "https://", "/")):
      return value
  return "%s%s" % (get_script_prefix(), value)
  \<close>
\<close>

definition startswith :: "string \<Rightarrow> string \<Rightarrow> bool" where
  "startswith v pre = (take (length pre) v = pre)"

definition add_script_prefix :: "django \<Rightarrow> string \<Rightarrow> string" where
  "add_script_prefix w v =
     (if startswith v ''http://'' \<or> startswith v ''https://'' \<or> startswith v ''/'' then v
      else script_prefix w @ v)"

definition url_setting :: "django \<Rightarrow> namespace \<Rightarrow> string \<Rightarrow> error + pyval" where
  "url_setting w ns name =
     and_then (setting ns name) (\<lambda>v.
     case v of
       VNone \<Rightarrow> Inr VNone
     | VStr url \<Rightarrow> Inr (VStr (add_script_prefix w url))
     | _ \<Rightarrow> Inl (AttributeError ''startswith''))"

text \<open>
  Django's helper \<^verbatim>\<open>static(prefix, view=serve, **kwargs)\<close> (\<^verbatim>\<open>django.conf.urls.static\<close>) is
  library code; it is modelled from its source:
  \<^verbatim>\<open>
  if not prefix:
      raise ImproperlyConfigured("Empty static prefix not permitted")
  elif not settings.DEBUG or urlsplit(prefix).netloc:
      return []
  return [re_path(r"^%s(?P<path>.*)$" % re.escape(prefix.lstrip("/")), view, kwargs=kwargs)]
  \<close>
\<close>

definition lstrip_slash :: "string \<Rightarrow> string" where
  "lstrip_slash url = dropWhile (\<lambda>ch. ch = CHR ''/'') url"

definition static :: "django \<Rightarrow> namespace \<Rightarrow> pyval \<Rightarrow> pyval \<Rightarrow> error + route list" where
  "static w ns prefix document_root =
     (if \<not> truthy prefix then Inl ImproperlyConfigured
      else
        and_then (setting ns ''DEBUG'') (\<lambda>debug.
        if \<not> truthy debug then Inr []
        else
          (case prefix of
             VStr url \<Rightarrow>
               and_then (netloc w url) (\<lambda>location.
               if location \<noteq> [] then Inr []
               else Inr [Serve_route (lstrip_slash url) document_root])
           | _ \<Rightarrow> Inl TypeError)))"

text \<open>
  The module builds \<^verbatim>\<open>urlpatterns\<close> once, when it is imported, from the settings then in
  force (lines 41 to 68): no request takes part in it. The packages \<^verbatim>\<open>debug_toolbar\<close> and
  \<^verbatim>\<open>silk\<close> are taken to be installed, as the development settings require.
\<close>

definition urlpatterns :: "django \<Rightarrow> namespace \<Rightarrow> error + route list" where
  "urlpatterns w ns =
     and_then (setting ns ''DEBUG'') (\<lambda>debug.
     if truthy debug
     then
       and_then (url_setting w ns ''MEDIA_URL'') (\<lambda>media_url.
       and_then (setting ns ''MEDIA_ROOT'') (\<lambda>media_root.
       and_then (static w ns media_url media_root) (\<lambda>media_routes.
       and_then (url_setting w ns ''STATIC_URL'') (\<lambda>static_url.
       and_then (setting ns ''STATIC_ROOT'') (\<lambda>static_root.
       and_then (static w ns static_url static_root) (\<lambda>static_routes.
       Inr (main_patterns @ debug_patterns @ media_routes @ static_routes)))))))
     else Inr main_patterns)"

text \<open>
  Every route of a table, the routes of included lists among them, and the routes that are
  debug or introspection routes: the debug toolbar, silk, and the serving of files.
\<close>

primrec subroutes :: "route \<Rightarrow> route list" and included :: "handler \<Rightarrow> route list" where
  "subroutes (Route pre h name) = Route pre h name # included h"
| "subroutes (Serve_route url document_root) = [Serve_route url document_root]"
| "included (View v) = []"
| "included (Include_module m name) = []"
| "included (Include_patterns rs) = concat (map subroutes rs)"

fun introspection :: "route \<Rightarrow> bool" where
  "introspection (Serve_route url document_root) = True"
| "introspection (Route pre (Include_module m name) n) =
     (pre \<in> set [''__debug__/'', ''silk/''] \<or> m \<in> set [''debug_toolbar.urls'', ''silk.urls''])"
| "introspection (Route pre h n) = (pre \<in> set [''__debug__/'', ''silk/''])"

section \<open>\<^verbatim>\<open>celery.py\<close>\<close>

text \<open>
  Line 10: \<^verbatim>\<open>os.environ.setdefault('DJANGO_SETTINGS_MODULE', 'backend.settings.development')\<close>
  binds the overlay selector when the process environment does not.
\<close>

definition setdefault :: "environ \<Rightarrow> string \<Rightarrow> string \<Rightarrow> environ" where
  "setdefault os_environ k v = (case os_environ k of None \<Rightarrow> os_environ(k \<mapsto> v) | Some _ \<Rightarrow> os_environ)"

definition celery_environ :: "environ \<Rightarrow> environ" where
  "celery_environ os_environ =
     setdefault os_environ ''DJANGO_SETTINGS_MODULE'' ''backend.settings.development''"

text \<open>
  The settings are then loaded by Django, on first use (lines 16 and 19): the module named by
  the selector is imported, and a selector that is absent or empty is refused. Importing is
  the parameter \<open>import_module\<close>.
\<close>

definition load_settings :: "(string \<Rightarrow> error + 'm) \<Rightarrow> environ \<Rightarrow> error + 'm" where
  "load_settings import_module os_environ =
     (case os_environ ''DJANGO_SETTINGS_MODULE'' of
        None \<Rightarrow> Inl ImproperlyConfigured
      | Some name \<Rightarrow> if name = [] then Inl ImproperlyConfigured else import_module name)"

definition celery_load_settings :: "(string \<Rightarrow> error + 'm) \<Rightarrow> environ \<Rightarrow> error + 'm" where
  "celery_load_settings import_module os_environ =
     load_settings import_module (celery_environ os_environ)"

text \<open>
  The overlays of the package \<^verbatim>\<open>backend.settings\<close> by module name, for evaluating the loader
  on concrete selectors.
\<close>

definition overlay_named :: "string \<Rightarrow> error + overlay" where
  "overlay_named name =
     (if name = ''backend.settings.development'' then Inr Development
      else if name = ''backend.settings.production'' then Inr Production
      else Inl (ModuleNotFoundError name))"

text \<open>Lines 22 to 39: the periodic job table. The first entry has its \<^verbatim>\<open>task\<close> commented out.\<close>

definition beat_schedule :: "(string \<times> pyval) list" where
  "beat_schedule =
     [(''cleanup-expired-tokens'', VDict
         [(''schedule'', VFloat 3600)]),
      (''send-event-reminders'', VDict
         [(''task'', VStr ''apps.events.tasks.send_event_reminders''),
          (''schedule'', VFloat 1800)]),
      (''update-event-analytics'', VDict
         [(''task'', VStr ''apps.analytics.tasks.update_event_analytics''),
          (''schedule'', VFloat 900)]),
      (''cleanup-old-notifications'', VDict
         [(''task'', VStr ''apps.notifications.tasks.cleanup_old_notifications''),
          (''schedule'', VFloat 86400)])]"

text \<open>What the scheduler reads from an entry: its cadence in seconds and its handler.\<close>

definition cadence :: "pyval \<Rightarrow> error + pyval" where
  "cadence entry = getitem entry (K ''schedule'')"

definition task :: "pyval \<Rightarrow> error + pyval" where
  "task entry = getitem entry (K ''task'')"

fun positive_integer :: "error + pyval \<Rightarrow> bool" where
  "positive_integer (Inr (VInt i)) = (0 < i)"
| "positive_integer (Inr (VFloat x)) = (0 < x \<and> x = of_int \<lfloor>x\<rfloor>)"
| "positive_integer _ = False"

section \<open>Concrete inputs\<close>

text \<open>
  Coercions to evaluate the model with. \<open>boolean\<close> is the table of python-decouple (case
  is ignored); \<open>decimal\<close> reads an optionally signed run of decimal digits, which
  \<^verbatim>\<open>int\<close> accepts (it does not read digits grouped by underscores); the float coercion reads
  what \<open>decimal\<close> reads (no fraction, no exponent). They are used on text where they agree
  with the library.
\<close>

definition lower :: "char \<Rightarrow> char" where
  "lower ch =
     (let n = of_char ch :: nat in if 65 \<le> n \<and> n \<le> 90 then char_of (n + 32) else ch)"

definition boolean :: "string \<Rightarrow> bool option" where
  "boolean v =
     (let w = map lower v in
      if w \<in> set [''y'', ''yes'', ''t'', ''true'', ''on'', ''1''] then Some True
      else if w \<in> set [''n'', ''no'', ''f'', ''false'', ''off'', ''0'', []] then Some False
      else None)"

definition digit :: "char \<Rightarrow> nat option" where
  "digit ch =
     (let n = of_char ch :: nat in if 48 \<le> n \<and> n \<le> 57 then Some (n - 48) else None)"

fun digits :: "nat \<Rightarrow> string \<Rightarrow> nat option" where
  "digits acc [] = Some acc"
| "digits acc (ch # s) = (case digit ch of None \<Rightarrow> None | Some d \<Rightarrow> digits (10 * acc + d) s)"

definition decimal :: "string \<Rightarrow> int option" where
  "decimal v =
     (case strip v of
        [] \<Rightarrow> None
      | ch # s \<Rightarrow>
          if ch = CHR ''-'' then (if s = [] then None else map_option (\<lambda>n. - int n) (digits 0 s))
          else if ch = CHR ''+'' then (if s = [] then None else map_option int (digits 0 s))
          else map_option int (digits 0 (ch # s)))"

definition python :: casts where
  "python = \<lparr>to_bool = boolean, to_int = decimal, to_float = (\<lambda>v. map_option of_int (decimal v))\<rparr>"

definition checkout :: process where
  "checkout = \<lparr>base_dir = ['''', ''srv'', ''primepass'', ''backend''], dockerenv_exists = False,
                sys_argv = [''manage.py'', ''runserver''], sys_modules = [''sys'', ''os'']\<rparr>"

definition container :: process where
  "container = checkout\<lparr>dockerenv_exists := True\<rparr>"

definition test_run :: process where
  "test_run = checkout\<lparr>sys_argv := [''manage.py'', ''test'']\<rparr>"

definition production_bindings :: "(string \<times> string) list" where
  "production_bindings =
     [(''ALLOWED_HOSTS'', ''primepass.com, www.primepass.com''),
      (''DATABASE_HOST'', ''pgbouncer.internal''),
      (''CORS_ALLOWED_ORIGINS'', ''https://primepass.com'')]"

text \<open>Bindings that try to override the cross-origin settings.\<close>

definition cors_bindings :: "(string \<times> string) list" where
  "cors_bindings =
     [(''CORS_ALLOW_ALL_ORIGINS'', ''false''), (''CORS_ALLOWED_ORIGINS'', ''https://app.example'')]"

text \<open>
  Django as a deployment at the root has it, to evaluate the route table with: the script
  prefix \<^verbatim>\<open>/\<close>, and for the network location of a URL, after a scheme (a letter,
  then letters, digits, \<^verbatim>\<open>+\<close>, \<^verbatim>\<open>-\<close> or \<^verbatim>\<open>.\<close>, up to the first colon) the text between \<^verbatim>\<open>//\<close>
  and the next \<^verbatim>\<open>/\<close>, \<^verbatim>\<open>?\<close> or \<^verbatim>\<open>#\<close>. It is used on plain URLs, where
  \<^verbatim>\<open>urlsplit\<close> gives the same.
\<close>

definition scheme_char :: "char \<Rightarrow> bool" where
  "scheme_char ch =
     (let n = of_char ch :: nat in
      (65 \<le> n \<and> n \<le> 90) \<or> (97 \<le> n \<and> n \<le> 122) \<or> (48 \<le> n \<and> n \<le> 57) \<or> n \<in> set [43, 45, 46])"

definition letter :: "char \<Rightarrow> bool" where
  "letter ch = (let n = of_char ch :: nat in (65 \<le> n \<and> n \<le> 90) \<or> (97 \<le> n \<and> n \<le> 122))"

definition plain_netloc :: "string \<Rightarrow> error + string" where
  "plain_netloc url =
     (let scheme = takeWhile (\<lambda>ch. ch \<noteq> CHR '':'') url;
          rest = (if length scheme < length url \<and> list_all scheme_char scheme \<and>
                     (case scheme of [] \<Rightarrow> False | ch # s \<Rightarrow> letter ch)
                  then drop (Suc (length scheme)) url
                  else url)
      in if take 2 rest = ''//''
         then Inr (takeWhile (\<lambda>ch. ch \<notin> set ''/?#'') (drop 2 rest))
         else Inr [])"

definition django_default :: django where
  "django_default = \<lparr>script_prefix = ''/'', netloc = plain_netloc\<rparr>"

section \<open>Notions used in the statements and proofs\<close>

text \<open>A section keeps a name when every successful run of it leaves the name's binding alone.\<close>

definition keeps :: "string \<Rightarrow> (namespace \<Rightarrow> error + namespace) \<Rightarrow> bool" where
  "keeps k f = (\<forall>ns ns'. f ns = Inr ns' \<longrightarrow> ns' k = ns k)"

text \<open>The value a resolution gives a setting; nothing when the resolution was aborted.\<close>

definition resolved :: "resolution \<Rightarrow> string \<Rightarrow> pyval option" where
  "resolved r k = (case outcome r of Inl e \<Rightarrow> None | Inr ns \<Rightarrow> ns k)"

text \<open>The route table assembled from the configuration a resolution gives.\<close>

definition resolved_routes :: "django \<Rightarrow> resolution \<Rightarrow> error + route list" where
  "resolved_routes w r = (case outcome r of Inl e \<Rightarrow> Inl e | Inr ns \<Rightarrow> urlpatterns w ns)"

text \<open>Reading \<^verbatim>\<open>NAME[k1]...[kn]\<close> in the configuration a resolution gives.\<close>

definition resolved_item :: "resolution \<Rightarrow> string \<Rightarrow> key list \<Rightarrow> error + pyval" where
  "resolved_item r name path = (case outcome r of Inl e \<Rightarrow> Inl e | Inr ns \<Rightarrow> read ns name path)"

text \<open>
  The reads of bindings that can raise, in the order the modules make them; \<open>failure\<close> is
  the exception of one read, if it raises.
\<close>

definition failure :: "error + 'a \<Rightarrow> error list" where
  "failure m = (case m of Inl e \<Rightarrow> [e] | Inr x \<Rightarrow> [])"

definition base_failures :: "casts \<Rightarrow> environ \<Rightarrow> error list" where
  "base_failures c env =
     failure (config_bool c env ''DEBUG'' False) @
     failure (config_int c env ''CACHE_TTL'' 3600) @
     failure (config_int c env ''SESSION_CACHE_TTL'' 86400) @
     failure (and_then (config_int c env ''JWT_ACCESS_TOKEN_LIFETIME'' 3600) timedelta_seconds) @
     failure (and_then (config_int c env ''JWT_REFRESH_TOKEN_LIFETIME'' 86400) timedelta_seconds) @
     failure (config_bool c env ''JWT_ROTATE_REFRESH_TOKENS'' True) @
     failure (config_bool c env ''CORS_ALLOW_CREDENTIALS'' True) @
     failure (config_bool c env ''CORS_ALLOW_ALL_ORIGINS'' False) @
     failure (config_bool c env ''SECURE_BROWSER_XSS_FILTER'' True) @
     failure (config_bool c env ''SECURE_CONTENT_TYPE_NOSNIFF'' True) @
     failure (config_int c env ''EMAIL_PORT'' 587) @
     failure (config_bool c env ''EMAIL_USE_TLS'' True) @
     failure (config_int c env ''MAX_EVENTS_PER_USER'' 10) @
     failure (config_int c env ''MAX_ATTENDEES_PER_EVENT'' 1000) @
     failure (config_int c env ''DEFAULT_EVENT_DURATION'' 3600) @
     failure (config_bool c env ''ENABLE_NOTIFICATIONS'' True)"

definition development_failures :: "casts \<Rightarrow> environ \<Rightarrow> process \<Rightarrow> error list" where
  "development_failures c env p =
     base_failures c env @
     failure (config_bool c env ''ENABLE_SILK_PROFILING'' False) @
     failure (config_bool c env ''USE_PGBOUNCER'' False) @
     (if dockerenv_exists p then [] else failure (config_bool c env ''DOCKER_ENV'' False)) @
     failure (config_bool c env ''CELERY_EAGER'' False)"

definition production_head_failures :: "casts \<Rightarrow> environ \<Rightarrow> error list" where
  "production_head_failures c env =
     base_failures c env @
     failure (config_csv env ''ALLOWED_HOSTS'') @
     failure (config_bool c env ''SECURE_SSL_REDIRECT'' True) @
     failure (config_int c env ''SECURE_HSTS_SECONDS'' 31536000) @
     failure (config_bool c env ''SECURE_HSTS_INCLUDE_SUBDOMAINS'' True) @
     failure (config_bool c env ''SECURE_HSTS_PRELOAD'' True) @
     failure (config env ''DATABASE_HOST'') @
     failure (config_bool c env ''USE_S3'' False) @
     (if config_bool c env ''USE_S3'' False = Inr True
      then failure (config env ''AWS_ACCESS_KEY_ID'') @
           failure (config env ''AWS_SECRET_ACCESS_KEY'') @
           failure (config env ''AWS_STORAGE_BUCKET_NAME'')
      else [])"

definition production_failures :: "casts \<Rightarrow> environ \<Rightarrow> error list" where
  "production_failures c env =
     production_head_failures c env @
     (if config_or env ''SENTRY_DSN'' [] \<noteq> []
      then failure (config_float c env ''SENTRY_TRACES_SAMPLE_RATE'' (1 / 10))
      else []) @
     failure (config_csv env ''CORS_ALLOWED_ORIGINS'')"

text \<open>The exceptions that come from a binding: absent, not coercible, or out of range.\<close>

fun binding_error :: "error \<Rightarrow> bool" where
  "binding_error (UndefinedValueError name) = True"
| "binding_error (ValueError name text) = True"
| "binding_error OverflowError = True"
| "binding_error e = False"

section \<open>Sequencing and names kept\<close>

lemma and_then_Inl [simp]: "and_then (Inl e) f = Inl e"
  by (simp add: and_then_def)

lemma and_then_Inr [simp]: "and_then (Inr x) f = f x"
  by (simp add: and_then_def)

lemma and_then_eq_Inr: "and_then m f = Inr y \<longleftrightarrow> (\<exists>x. m = Inr x \<and> f x = Inr y)"
  by (cases m) simp_all

lemma and_then_eq_Inl: "and_then m f = Inl e \<longleftrightarrow> (m = Inl e \<or> (\<exists>x. m = Inr x \<and> f x = Inl e))"
  by (cases m) simp_all

lemma run_Cons_Inr: "run (f # fs) s = Inr s' \<longleftrightarrow> (\<exists>s1. f s = Inr s1 \<and> run fs s1 = Inr s')"
  by (cases "f s") simp_all

lemma run_append: "run (fs @ gs) s = and_then (run fs s) (run gs)"
  by (induction fs arbitrary: s) (auto split: sum.splits)

lemma keepsD: "keeps k f \<Longrightarrow> f ns = Inr ns' \<Longrightarrow> ns' k = ns k"
  by (simp add: keeps_def)

lemma keeps_run: "list_all (keeps k) fs \<Longrightarrow> keeps k (run fs)"
proof (induction fs)
  case Nil
  show ?case by (simp add: keeps_def)
next
  case (Cons f fs)
  then have f: "keeps k f" and fs: "keeps k (run fs)" by simp_all
  show ?case
    unfolding keeps_def
  proof (intro allI impI)
    fix ns ns' assume "run (f # fs) ns = Inr ns'"
    then obtain ns1 where a: "f ns = Inr ns1" and b: "run fs ns1 = Inr ns'"
      unfolding run_Cons_Inr by blast
    show "ns' k = ns k" using keepsD[OF f a] keepsD[OF fs b] by simp
  qed
qed

lemma run_keeps: "run fs ns = Inr ns' \<Longrightarrow> list_all (keeps k) fs \<Longrightarrow> ns' k = ns k"
  using keepsD[OF keeps_run] by blast

lemma keeps_assign: "k \<noteq> name \<Longrightarrow> keeps k (assign name v)"
  by (auto simp: keeps_def assign_def)

lemma keeps_mutate: "k \<noteq> name \<Longrightarrow> keeps k (mutate name path f)"
  by (auto simp: keeps_def mutate_def and_then_eq_Inr)

lemma keeps_assign_item: "k \<noteq> name \<Longrightarrow> keeps k (assign_item name path j v)"
  by (simp add: assign_item_def keeps_mutate)


lemma keeps_Inr: "keeps k Inr"
  by (simp add: keeps_def)

lemmas keeps_simps = keeps_run keeps_assign keeps_mutate keeps_assign_item keeps_Inr

subsection \<open>The names each section binds\<close>

text \<open>A section keeps every name outside the list of those it assigns or mutates.\<close>

lemma keeps_base_core:
  "k \<notin> set [''BASE_DIR'', ''SECRET_KEY'', ''DEBUG'', ''ALLOWED_HOSTS'', ''DJANGO_APPS'', ''THIRD_PARTY_APPS'',
     ''LOCAL_APPS'', ''INSTALLED_APPS'', ''MIDDLEWARE'', ''ROOT_URLCONF'', ''TEMPLATES'', ''WSGI_APPLICATION'',
     ''ASGI_APPLICATION''] \<Longrightarrow> keeps k (base_core c env p)"
  by (auto simp: keeps_def base_core_def and_then_eq_Inr)

lemma keeps_base_database: "k \<noteq> ''DATABASES'' \<Longrightarrow> keeps k (base_database env)"
  by (auto simp: keeps_def base_database_def)

lemma keeps_base_cache:
  "k \<notin> set [''CACHES'', ''SESSION_ENGINE'', ''SESSION_CACHE_ALIAS'', ''SESSION_COOKIE_AGE''] \<Longrightarrow>
   keeps k (base_cache c env)"
  by (auto simp: keeps_def base_cache_def and_then_eq_Inr)

lemma keeps_base_auth:
  "k \<notin> set [''AUTHENTICATION_BACKENDS'', ''SITE_ID'', ''ACCOUNT_EMAIL_REQUIRED'', ''ACCOUNT_USERNAME_REQUIRED'',
     ''ACCOUNT_AUTHENTICATION_METHOD'', ''ACCOUNT_EMAIL_VERIFICATION''] \<Longrightarrow> keeps k base_auth"
  by (auto simp: keeps_def base_auth_def)

lemma keeps_base_rest: "k \<notin> set [''REST_FRAMEWORK'', ''SIMPLE_JWT''] \<Longrightarrow> keeps k (base_rest c env)"
  by (auto simp: keeps_def base_rest_def and_then_eq_Inr)

lemma keeps_base_cors:
  "k \<notin> set [''CORS_ALLOWED_ORIGINS'', ''CORS_ALLOW_CREDENTIALS'', ''CORS_ALLOW_ALL_ORIGINS''] \<Longrightarrow>
   keeps k (base_cors c env)"
  by (auto simp: keeps_def base_cors_def and_then_eq_Inr)

lemma keeps_base_services:
  "k \<notin> set [''CHANNEL_LAYERS'', ''CELERY_BROKER_URL'', ''CELERY_RESULT_BACKEND'', ''CELERY_ACCEPT_CONTENT'',
     ''CELERY_TASK_SERIALIZER'', ''CELERY_RESULT_SERIALIZER'', ''CELERY_TIMEZONE'', ''CELERY_BEAT_SCHEDULER'',
     ''LANGUAGE_CODE'', ''TIME_ZONE'', ''USE_I18N'', ''USE_TZ'', ''STATIC_URL'', ''STATIC_ROOT'',
     ''STATICFILES_DIRS'', ''MEDIA_URL'', ''MEDIA_ROOT'', ''STATICFILES_STORAGE''] \<Longrightarrow>
   keeps k (base_services env p)"
  by (auto simp: keeps_def base_services_def)

lemma keeps_base_security:
  "k \<notin> set [''SECURE_BROWSER_XSS_FILTER'', ''SECURE_CONTENT_TYPE_NOSNIFF'', ''X_FRAME_OPTIONS'',
     ''AXES_FAILURE_LIMIT'', ''AXES_COOLOFF_TIME'', ''AXES_LOCK_OUT_BY_COMBINATION_USER_AND_IP''] \<Longrightarrow>
   keeps k (base_security c env)"
  by (auto simp: keeps_def base_security_def and_then_eq_Inr)

lemma keeps_base_logging_docs:
  "k \<notin> set [''LOGGING'', ''SPECTACULAR_SETTINGS'', ''DEFAULT_AUTO_FIELD''] \<Longrightarrow>
   keeps k (base_logging_docs env)"
  by (auto simp: keeps_def base_logging_docs_def)

lemma keeps_base_email:
  "k \<notin> set [''EMAIL_BACKEND'', ''EMAIL_HOST'', ''EMAIL_PORT'', ''EMAIL_USE_TLS'', ''EMAIL_HOST_USER'',
     ''EMAIL_HOST_PASSWORD''] \<Longrightarrow> keeps k (base_email c env)"
  by (auto simp: keeps_def base_email_def and_then_eq_Inr)

lemma keeps_base_custom:
  "k \<notin> set [''FRONTEND_URL'', ''API_VERSION'', ''MAX_EVENTS_PER_USER'', ''MAX_ATTENDEES_PER_EVENT'',
     ''DEFAULT_EVENT_DURATION'', ''ENABLE_NOTIFICATIONS'', ''NOTIFICATION_CHANNELS'', ''WEBSOCKET_URL''] \<Longrightarrow>
   keeps k (base_custom c env)"
  by (auto simp: keeps_def base_custom_def and_then_eq_Inr)

lemmas keeps_base =
  keeps_base_core keeps_base_database keeps_base_cache keeps_base_auth keeps_base_rest keeps_base_cors
  keeps_base_services keeps_base_security keeps_base_logging_docs keeps_base_email keeps_base_custom

lemma keeps_dev_debug:
  "k \<notin> set [''DEBUG'', ''ALLOWED_HOSTS'', ''INSTALLED_APPS'', ''MIDDLEWARE'', ''INTERNAL_IPS'',
     ''DEBUG_TOOLBAR_CONFIG'', ''SILKY_PYTHON_PROFILER'', ''SILKY_PYTHON_PROFILER_BINARY'',
     ''SILKY_AUTHENTICATION'', ''SILKY_AUTHORISATION''] \<Longrightarrow> keeps k (dev_debug c env)"
  unfolding keeps_def dev_debug_def and_then_eq_Inr
  by (auto dest!: run_keeps[where k=k] simp: keeps_simps simp del: run.simps)

lemma keeps_dev_database: "k \<noteq> ''DATABASES'' \<Longrightarrow> keeps k (dev_database c env p)"
  unfolding keeps_def dev_database_def and_then_eq_Inr
  by (auto dest!: run_keeps[where k=k] simp: keeps_simps simp del: run.simps split: if_splits)

lemma keeps_dev_cache: "k \<noteq> ''CACHES'' \<Longrightarrow> keeps k dev_cache"
  by (simp add: dev_cache_def keeps_simps)

lemma keeps_dev_email_cors:
  "k \<notin> set [''EMAIL_BACKEND'', ''CORS_ALLOW_ALL_ORIGINS'', ''CORS_ALLOWED_ORIGINS''] \<Longrightarrow>
   keeps k dev_email_cors"
  by (simp add: dev_email_cors_def keeps_simps)

lemma keeps_dev_logging_security:
  "k \<notin> set [''LOGGING'', ''SHELL_PLUS_PRINT_SQL'', ''SHELL_PLUS_PRINT_SQL_TRUNCATE'', ''SECURE_SSL_REDIRECT'',
     ''SECURE_PROXY_SSL_HEADER'', ''SECURE_HSTS_SECONDS'', ''SECURE_HSTS_INCLUDE_SUBDOMAINS'',
     ''SECURE_HSTS_PRELOAD''] \<Longrightarrow> keeps k dev_logging_security"
  by (simp add: dev_logging_security_def keeps_simps)

lemma keeps_dev_celery:
  "k \<notin> set [''CELERY_TASK_ALWAYS_EAGER'', ''CELERY_TASK_EAGER_PROPAGATES'', ''QUERYCOUNT''] \<Longrightarrow>
   keeps k (dev_celery c env)"
  by (auto simp: keeps_def dev_celery_def and_then_eq_Inr)

lemma keeps_dev_templates: "k \<noteq> ''TEMPLATES'' \<Longrightarrow> keeps k dev_templates"
  unfolding keeps_def dev_templates_def and_then_eq_Inr
  by (auto dest!: keepsD[OF keeps_assign_item, rotated] split: if_splits)

lemma keeps_dev_testing:
  "k \<notin> set [''DATABASES'', ''MIGRATION_MODULES'', ''CACHES'', ''CELERY_TASK_ALWAYS_EAGER'',
     ''CELERY_TASK_EAGER_PROPAGATES''] \<Longrightarrow> keeps k (dev_testing p)"
  unfolding keeps_def dev_testing_def
  by (auto dest!: run_keeps[where k=k] simp: keeps_simps simp del: run.simps split: if_splits)

lemma keeps_dev_testing_off: "\<not> testing p \<Longrightarrow> keeps k (dev_testing p)"
  by (simp add: keeps_def dev_testing_def)

lemmas keeps_dev =
  keeps_dev_debug keeps_dev_database keeps_dev_cache keeps_dev_email_cors keeps_dev_logging_security
  keeps_dev_celery keeps_dev_templates keeps_dev_testing


lemma keeps_prod_security:
  "k \<notin> set [''DEBUG'', ''ALLOWED_HOSTS'', ''SECURE_SSL_REDIRECT'', ''SECURE_PROXY_SSL_HEADER'',
     ''SECURE_HSTS_SECONDS'', ''SECURE_HSTS_INCLUDE_SUBDOMAINS'', ''SECURE_HSTS_PRELOAD'',
     ''SECURE_CONTENT_TYPE_NOSNIFF'', ''SECURE_BROWSER_XSS_FILTER'', ''SECURE_REFERRER_POLICY'',
     ''SESSION_COOKIE_SECURE'', ''SESSION_COOKIE_HTTPONLY'', ''SESSION_COOKIE_SAMESITE'',
     ''CSRF_COOKIE_SECURE'', ''CSRF_COOKIE_HTTPONLY'', ''CSRF_COOKIE_SAMESITE''] \<Longrightarrow>
   keeps k (prod_security c env)"
  by (auto simp: keeps_def prod_security_def and_then_eq_Inr)

lemma keeps_prod_database: "k \<noteq> ''DATABASES'' \<Longrightarrow> keeps k (prod_database env)"
  unfolding keeps_def prod_database_def and_then_eq_Inr
  by (auto dest!: run_keeps[where k=k] simp: keeps_simps simp del: run.simps)

lemma keeps_prod_cache: "k \<noteq> ''CACHES'' \<Longrightarrow> keeps k prod_cache"
  by (simp add: prod_cache_def keeps_simps)

lemma keeps_prod_storage:
  "k \<notin> set [''AWS_ACCESS_KEY_ID'', ''AWS_SECRET_ACCESS_KEY'', ''AWS_STORAGE_BUCKET_NAME'',
     ''AWS_S3_REGION_NAME'', ''AWS_S3_CUSTOM_DOMAIN'', ''AWS_DEFAULT_ACL'', ''AWS_S3_OBJECT_PARAMETERS'',
     ''STATICFILES_STORAGE'', ''STATIC_URL'', ''DEFAULT_FILE_STORAGE'', ''MEDIA_URL''] \<Longrightarrow>
   keeps k (prod_storage c env)"
  by (auto simp: keeps_def prod_storage_def and_then_eq_Inr split: if_splits)

lemma keeps_prod_email_logging:
  "k \<notin> set [''EMAIL_BACKEND'', ''ANYMAIL'', ''DEFAULT_FROM_EMAIL'', ''SERVER_EMAIL'', ''LOGGING''] \<Longrightarrow>
   keeps k (prod_email_logging env)"
  by (auto simp: keeps_def prod_email_logging_def)

lemma prod_sentry_keeps:
  "prod_sentry c env ns = Inr (ns', effs) \<Longrightarrow> k \<noteq> ''SENTRY_DSN'' \<Longrightarrow> ns' k = ns k"
  by (auto simp: prod_sentry_def Let_def and_then_eq_Inr split: if_splits)

lemma keeps_prod_cors_celery:
  "k \<notin> set [''CORS_ALLOW_ALL_ORIGINS'', ''CORS_ALLOWED_ORIGINS'', ''CELERY_TASK_ALWAYS_EAGER'',
     ''CELERY_WORKER_PREFETCH_MULTIPLIER'', ''CELERY_TASK_ACKS_LATE'', ''CELERY_WORKER_MAX_TASKS_PER_CHILD'',
     ''CELERY_TASK_ROUTES''] \<Longrightarrow> keeps k (prod_cors_celery env)"
  by (auto simp: keeps_def prod_cors_celery_def and_then_eq_Inr)

lemma keeps_prod_tuning:
  "k \<notin> set [''DATABASES'', ''TEMPLATES'', ''HEALTH_CHECK'', ''RATELIMIT_ENABLE'', ''RATELIMIT_USE_CACHE'',
     ''REST_FRAMEWORK'', ''MIDDLEWARE'', ''CACHE_MIDDLEWARE_ALIAS'', ''CACHE_MIDDLEWARE_SECONDS'',
     ''CACHE_MIDDLEWARE_KEY_PREFIX'', ''DBBACKUP_STORAGE'', ''DBBACKUP_STORAGE_OPTIONS'', ''ADMIN_URL'',
     ''ADMIN_FORCE_ALLAUTH''] \<Longrightarrow> keeps k (prod_tuning env)"
  by (simp add: prod_tuning_def keeps_simps)

lemmas keeps_prod =
  keeps_prod_security keeps_prod_database keeps_prod_cache keeps_prod_storage keeps_prod_email_logging
  keeps_prod_cors_celery keeps_prod_tuning

section \<open>The value of \<^verbatim>\<open>DEBUG\<close>\<close>

lemma development_Inr:
  "outcome (resolve c Development env p) = Inr ns \<longleftrightarrow>
     (\<exists>ns0. base c env p = Inr ns0 \<and> run (development_sections c env p) ns0 = Inr ns)"
  by (simp add: resolve_def development_def and_then_eq_Inr)

lemma production_Inr:
  "outcome (resolve c Production env p) = Inr ns \<longleftrightarrow>
     (\<exists>ns0 ns1 ns2 effs. base c env p = Inr ns0 \<and> run (production_head c env) ns0 = Inr ns1 \<and>
        prod_sentry c env ns1 = Inr (ns2, effs) \<and> run (production_tail env) ns2 = Inr ns)"
  by (auto simp: resolve_def production_def and_then_eq_Inr split: sum.splits prod.splits)

lemma run_assign_first:
  "run (assign k v # fs) ns = Inr ns' \<Longrightarrow> list_all (keeps k) fs \<Longrightarrow> ns' k = Some v"
  by (auto simp: run_Cons_Inr assign_def dest!: run_keeps[where k=k] simp del: run.simps)

lemma dev_debug_DEBUG: "dev_debug c env ns = Inr ns' \<Longrightarrow> ns' ''DEBUG'' = Some (VBool True)"
  unfolding dev_debug_def and_then_eq_Inr
  by (auto dest!: run_assign_first simp: keeps_simps simp del: run.simps)

lemma development_DEBUG:
  assumes "outcome (resolve c Development env p) = Inr ns"
  shows "ns ''DEBUG'' = Some (VBool True)"
proof -
  from assms obtain ns0 ns1 where
    d: "dev_debug c env ns0 = Inr ns1" and r: "run (tl (development_sections c env p)) ns1 = Inr ns"
    unfolding development_Inr development_sections_def run_Cons_Inr list.sel by blast
  have "ns ''DEBUG'' = ns1 ''DEBUG''"
    by (rule run_keeps[OF r]) (simp add: development_sections_def keeps_dev)
  with dev_debug_DEBUG[OF d] show ?thesis by simp
qed

lemma prod_security_DEBUG: "prod_security c env ns = Inr ns' \<Longrightarrow> ns' ''DEBUG'' = Some (VBool False)"
  by (auto simp: prod_security_def and_then_eq_Inr)

lemma production_DEBUG:
  assumes "outcome (resolve c Production env p) = Inr ns"
  shows "ns ''DEBUG'' = Some (VBool False)"
proof -
  from assms obtain ns0 nsa ns1 ns2 effs where
    s: "prod_security c env ns0 = Inr nsa" and
    h: "run (tl (production_head c env)) nsa = Inr ns1" and
    m: "prod_sentry c env ns1 = Inr (ns2, effs)" and
    t: "run (production_tail env) ns2 = Inr ns"
    unfolding production_Inr production_head_def run_Cons_Inr list.sel by blast
  have "ns ''DEBUG'' = ns2 ''DEBUG''"
    by (rule run_keeps[OF t]) (simp add: production_tail_def keeps_prod)
  also have "\<dots> = ns1 ''DEBUG''"
    by (rule prod_sentry_keeps[OF m]) simp
  also have "\<dots> = nsa ''DEBUG''"
    by (rule run_keeps[OF h]) (simp add: production_head_def keeps_prod)
  finally show ?thesis using prod_security_DEBUG[OF s] by simp
qed


text \<open>The value a section leaves in a name survives the sections that keep the name.\<close>

section \<open>What the base module leaves in a name\<close>

lemma run_nth_sets:
  assumes r: "run fs ns = Inr ns'" and n: "n < length fs"
    and f: "\<And>a b. (fs ! n) a = Inr b \<Longrightarrow> Q (b k)"
    and post: "list_all (keeps k) (drop (Suc n) fs)"
  shows "Q (ns' k)"
proof -
  have "fs = take n fs @ (fs ! n # drop (Suc n) fs)"
    using n by (simp add: id_take_nth_drop)
  then have "run (take n fs @ (fs ! n # drop (Suc n) fs)) ns = Inr ns'"
    using r by simp
  then obtain a b where "(fs ! n) a = Inr b" and d: "run (drop (Suc n) fs) b = Inr ns'"
    unfolding run_append and_then_eq_Inr run_Cons_Inr by blast
  then have "Q (b k)" using f by blast
  moreover have "ns' k = b k" by (rule run_keeps[OF d post])
  ultimately show ?thesis by simp
qed

lemma run_nth_sets':
  assumes r: "run fs ns = Inr ns'" and n: "n < length fs"
    and f: "\<And>a b. run (take n fs) ns = Inr a \<Longrightarrow> (fs ! n) a = Inr b \<Longrightarrow> Q (b k)"
    and post: "list_all (keeps k) (drop (Suc n) fs)"
  shows "Q (ns' k)"
proof -
  have "fs = take n fs @ (fs ! n # drop (Suc n) fs)"
    using n by (simp add: id_take_nth_drop)
  then have "run (take n fs @ (fs ! n # drop (Suc n) fs)) ns = Inr ns'"
    using r by simp
  then obtain a b where "run (take n fs) ns = Inr a" "(fs ! n) a = Inr b"
    and d: "run (drop (Suc n) fs) b = Inr ns'"
    unfolding run_append and_then_eq_Inr run_Cons_Inr by blast
  then have "Q (b k)" using f by blast
  moreover have "ns' k = b k" by (rule run_keeps[OF d post])
  ultimately show ?thesis by simp
qed

lemma base_run: "base c env p = Inr ns \<Longrightarrow> run (base_sections c env p) Map.empty = Inr ns"
  by (simp add: base_def)

lemma base_INSTALLED_APPS:
  assumes "base c env p = Inr ns"
  shows "ns ''INSTALLED_APPS'' = Some (strs (django_apps @ third_party_apps @ local_apps))"
  by (rule run_nth_sets[OF base_run[OF assms], where n=0])
     (auto simp: base_sections_def keeps_base base_core_def and_then_eq_Inr)

lemma base_MIDDLEWARE:
  assumes "base c env p = Inr ns"
  shows "ns ''MIDDLEWARE'' = Some (strs base_middleware)"
  by (rule run_nth_sets[OF base_run[OF assms], where n=0])
     (auto simp: base_sections_def keeps_base base_core_def and_then_eq_Inr)

lemma base_TEMPLATES:
  assumes "base c env p = Inr ns"
  shows "ns ''TEMPLATES'' = Some (base_templates p)"
  by (rule run_nth_sets[OF base_run[OF assms], where n=0])
     (auto simp: base_sections_def keeps_base base_core_def and_then_eq_Inr)

lemma base_DATABASES:
  assumes "base c env p = Inr ns"
  shows "ns ''DATABASES'' = Some (base_databases env)"
  by (rule run_nth_sets[OF base_run[OF assms], where n=1])
     (auto simp: base_sections_def keeps_base base_database_def)

lemma base_CACHES:
  assumes "base c env p = Inr ns"
  shows "\<exists>ttl. config_int c env ''CACHE_TTL'' 3600 = Inr ttl \<and> ns ''CACHES'' = Some (base_caches env ttl)"
  by (rule run_nth_sets[OF base_run[OF assms], where n=2])
     (auto simp: base_sections_def keeps_base base_cache_def and_then_eq_Inr)

lemma base_REST_FRAMEWORK:
  assumes "base c env p = Inr ns"
  shows "ns ''REST_FRAMEWORK'' = Some base_rest_framework"
  by (rule run_nth_sets[OF base_run[OF assms], where n=4])
     (auto simp: base_sections_def keeps_base base_rest_def and_then_eq_Inr)

lemma base_LOGGING:
  assumes "base c env p = Inr ns"
  shows "ns ''LOGGING'' = Some (base_logging env)"
  by (rule run_nth_sets[OF base_run[OF assms], where n=8])
     (auto simp: base_sections_def keeps_base base_logging_docs_def)


section \<open>Resolution fails only where a binding fails\<close>

text \<open>
  The statements that index or mutate a setting cannot raise on the values the base module
  built, so an aborted resolution carries the error of one of its reads of a binding, and a
  resolution yields a configuration exactly when none of these reads fails.
\<close>

lemma run_Cons_Inl:
  "run (f # fs) s = Inl e \<longleftrightarrow> (f s = Inl e \<or> (\<exists>s1. f s = Inr s1 \<and> run fs s1 = Inl e))"
  by (cases "f s") simp_all

lemma run_prefix_error:
  "run fs ns = Inl e \<Longrightarrow> \<exists>n<length fs. \<exists>a. run (take n fs) ns = Inr a \<and> (fs ! n) a = Inl e"
proof (induction fs arbitrary: ns)
  case Nil
  then show ?case by simp
next
  case (Cons f fs)
  from Cons.prems consider "f ns = Inl e" | s1 where "f ns = Inr s1" "run fs s1 = Inl e"
    unfolding run_Cons_Inl by blast
  then show ?case
  proof cases
    case 1
    then have "run (take 0 (f # fs)) ns = Inr ns \<and> ((f # fs) ! 0) ns = Inl e" by simp
    then show ?thesis by blast
  next
    case 2
    from Cons.IH[OF 2(2)] obtain n a where
      n: "n < length fs" and a: "run (take n fs) s1 = Inr a" and e: "(fs ! n) a = Inl e" by blast
    have "run (take (Suc n) (f # fs)) ns = Inr a \<and> ((f # fs) ! Suc n) a = Inl e"
      using 2(1) a e by simp
    with n show ?thesis by (metis Suc_less_eq length_Cons)
  qed
qed

lemmas statement_defs = assign_def mutate_def assign_item_def lookup_def read_def

lemma dev_debug_Inl:
  assumes "ns ''INSTALLED_APPS'' = Some (VList xs)" "ns ''MIDDLEWARE'' = Some (VList ys)"
    and "dev_debug c env ns = Inl e"
  shows "config_bool c env ''ENABLE_SILK_PROFILING'' False = Inl e"
  using assms
  by (simp add: dev_debug_def statement_defs strs_def and_then_eq_Inl)

lemma dev_database_Inl:
  assumes "ns ''DATABASES'' = Some (base_databases env)"
    and "dev_database c env p ns = Inl e"
  shows "config_bool c env ''USE_PGBOUNCER'' False = Inl e \<or>
         (\<not> dockerenv_exists p \<and> config_bool c env ''DOCKER_ENV'' False = Inl e)"
  using assms
  by (auto simp: dev_database_def statement_defs base_databases_def and_then_eq_Inl split: if_splits)

lemma dev_database_dict:
  assumes "ns ''DATABASES'' = Some (base_databases env)"
    and "dev_database c env p ns = Inr ns'"
  shows "\<exists>kvs. ns' ''DATABASES'' = Some (VDict kvs)"
  using assms
  by (auto simp: dev_database_def statement_defs base_databases_def and_then_eq_Inr split: if_splits)

lemma dev_cache_Inl:
  assumes "ns ''CACHES'' = Some (base_caches env ttl)"
  shows "dev_cache ns \<noteq> Inl e"
  using assms
  by (simp add: dev_cache_def statement_defs base_caches_def)

lemma dev_email_cors_Inl: "dev_email_cors ns \<noteq> Inl e"
  by (simp add: dev_email_cors_def statement_defs)

lemma dev_logging_security_Inl:
  assumes "ns ''LOGGING'' = Some (base_logging env)"
  shows "dev_logging_security ns \<noteq> Inl e"
  using assms
  by (simp add: dev_logging_security_def statement_defs base_logging_def)

lemma dev_celery_Inl:
  assumes "dev_celery c env ns = Inl e"
  shows "config_bool c env ''CELERY_EAGER'' False = Inl e"
  using assms
  by (simp add: dev_celery_def and_then_eq_Inl)

lemma dev_templates_Inl:
  assumes "ns ''TEMPLATES'' = Some (base_templates p)"
  shows "dev_templates ns \<noteq> Inl e"
  using assms
  by (simp add: dev_templates_def statement_defs base_templates_def)

lemma dev_testing_Inl:
  assumes "ns ''DATABASES'' = Some (VDict kvs)"
  shows "dev_testing p ns \<noteq> Inl e"
  using assms
  by (simp add: dev_testing_def statement_defs)

lemma failure_Inl [simp]: "failure (Inl e) = [e]"
  by (simp add: failure_def)

lemma failure_Inr [simp]: "failure (Inr x) = []"
  by (simp add: failure_def)

lemma in_failure: "e \<in> set (failure m) \<longleftrightarrow> m = Inl e"
  by (cases m) auto

lemma base_core_Inl:
  "base_core c env p ns = Inl e \<Longrightarrow> config_bool c env ''DEBUG'' False = Inl e"
  by (simp add: base_core_def and_then_eq_Inl)

lemma base_cache_Inl:
  "base_cache c env ns = Inl e \<Longrightarrow>
     config_int c env ''CACHE_TTL'' 3600 = Inl e \<or> config_int c env ''SESSION_CACHE_TTL'' 86400 = Inl e"
  by (auto simp: base_cache_def and_then_eq_Inl)

lemma base_rest_Inl:
  "base_rest c env ns = Inl e \<Longrightarrow>
     and_then (config_int c env ''JWT_ACCESS_TOKEN_LIFETIME'' 3600) timedelta_seconds = Inl e \<or>
     and_then (config_int c env ''JWT_REFRESH_TOKEN_LIFETIME'' 86400) timedelta_seconds = Inl e \<or>
     config_bool c env ''JWT_ROTATE_REFRESH_TOKENS'' True = Inl e"
  by (auto simp: base_rest_def and_then_eq_Inl)

lemma base_cors_Inl:
  "base_cors c env ns = Inl e \<Longrightarrow>
     config_bool c env ''CORS_ALLOW_CREDENTIALS'' True = Inl e \<or>
     config_bool c env ''CORS_ALLOW_ALL_ORIGINS'' False = Inl e"
  by (auto simp: base_cors_def and_then_eq_Inl)

lemma base_security_Inl:
  "base_security c env ns = Inl e \<Longrightarrow>
     config_bool c env ''SECURE_BROWSER_XSS_FILTER'' True = Inl e \<or>
     config_bool c env ''SECURE_CONTENT_TYPE_NOSNIFF'' True = Inl e"
  by (auto simp: base_security_def and_then_eq_Inl)

lemma base_email_Inl:
  "base_email c env ns = Inl e \<Longrightarrow>
     config_int c env ''EMAIL_PORT'' 587 = Inl e \<or> config_bool c env ''EMAIL_USE_TLS'' True = Inl e"
  by (auto simp: base_email_def and_then_eq_Inl)

lemma base_custom_Inl:
  "base_custom c env ns = Inl e \<Longrightarrow>
     config_int c env ''MAX_EVENTS_PER_USER'' 10 = Inl e \<or>
     config_int c env ''MAX_ATTENDEES_PER_EVENT'' 1000 = Inl e \<or>
     config_int c env ''DEFAULT_EVENT_DURATION'' 3600 = Inl e \<or>
     config_bool c env ''ENABLE_NOTIFICATIONS'' True = Inl e"
  by (auto simp: base_custom_def and_then_eq_Inl)


lemma run_error_section: "run fs ns = Inl e \<Longrightarrow> \<exists>f\<in>set fs. \<exists>a. f a = Inl e"
  using run_prefix_error nth_mem by metis

lemma in_base_failures:
  "e \<in> set (base_failures c env) \<longleftrightarrow>
     config_bool c env ''DEBUG'' False = Inl e \<or>
     config_int c env ''CACHE_TTL'' 3600 = Inl e \<or>
     config_int c env ''SESSION_CACHE_TTL'' 86400 = Inl e \<or>
     and_then (config_int c env ''JWT_ACCESS_TOKEN_LIFETIME'' 3600) timedelta_seconds = Inl e \<or>
     and_then (config_int c env ''JWT_REFRESH_TOKEN_LIFETIME'' 86400) timedelta_seconds = Inl e \<or>
     config_bool c env ''JWT_ROTATE_REFRESH_TOKENS'' True = Inl e \<or>
     config_bool c env ''CORS_ALLOW_CREDENTIALS'' True = Inl e \<or>
     config_bool c env ''CORS_ALLOW_ALL_ORIGINS'' False = Inl e \<or>
     config_bool c env ''SECURE_BROWSER_XSS_FILTER'' True = Inl e \<or>
     config_bool c env ''SECURE_CONTENT_TYPE_NOSNIFF'' True = Inl e \<or>
     config_int c env ''EMAIL_PORT'' 587 = Inl e \<or>
     config_bool c env ''EMAIL_USE_TLS'' True = Inl e \<or>
     config_int c env ''MAX_EVENTS_PER_USER'' 10 = Inl e \<or>
     config_int c env ''MAX_ATTENDEES_PER_EVENT'' 1000 = Inl e \<or>
     config_int c env ''DEFAULT_EVENT_DURATION'' 3600 = Inl e \<or>
     config_bool c env ''ENABLE_NOTIFICATIONS'' True = Inl e"
  unfolding base_failures_def set_append Un_iff in_failure by (simp only: disj_assoc)

lemma base_failure:
  assumes "base c env p = Inl e"
  shows "e \<in> set (base_failures c env)"
proof -
  from assms have "\<exists>f\<in>set (base_sections c env p). \<exists>a. f a = Inl e"
    unfolding base_def by (rule run_error_section)
  then consider
      (core) a where "base_core c env p a = Inl e"
    | (cache) a where "base_cache c env a = Inl e"
    | (rest) a where "base_rest c env a = Inl e"
    | (cors) a where "base_cors c env a = Inl e"
    | (security) a where "base_security c env a = Inl e"
    | (email) a where "base_email c env a = Inl e"
    | (custom) a where "base_custom c env a = Inl e"
    by (auto simp: base_sections_def base_database_def base_auth_def base_services_def
          base_logging_docs_def)
  then show ?thesis
  proof cases
    case core
    from base_core_Inl[OF this] show ?thesis unfolding in_base_failures by blast
  next
    case cache
    from base_cache_Inl[OF this] show ?thesis unfolding in_base_failures by blast
  next
    case rest
    from base_rest_Inl[OF this] show ?thesis unfolding in_base_failures by blast
  next
    case cors
    from base_cors_Inl[OF this] show ?thesis unfolding in_base_failures by blast
  next
    case security
    from base_security_Inl[OF this] show ?thesis unfolding in_base_failures by blast
  next
    case email
    from base_email_Inl[OF this] show ?thesis unfolding in_base_failures by blast
  next
    case custom
    from base_custom_Inl[OF this] show ?thesis unfolding in_base_failures by blast
  qed
qed


lemma in_development_failures:
  "e \<in> set (development_failures c env p) \<longleftrightarrow>
     e \<in> set (base_failures c env) \<or>
     config_bool c env ''ENABLE_SILK_PROFILING'' False = Inl e \<or>
     config_bool c env ''USE_PGBOUNCER'' False = Inl e \<or>
     (\<not> dockerenv_exists p \<and> config_bool c env ''DOCKER_ENV'' False = Inl e) \<or>
     config_bool c env ''CELERY_EAGER'' False = Inl e"
  unfolding development_failures_def set_append Un_iff by (auto simp: in_failure)

lemma development_failure:
  assumes "outcome (resolve c Development env p) = Inl e"
  shows "e \<in> set (development_failures c env p)"
proof -
  let ?fs = "development_sections c env p"
  from assms consider "base c env p = Inl e"
    | ns0 where "base c env p = Inr ns0" "run ?fs ns0 = Inl e"
    by (auto simp: resolve_def development_def and_then_eq_Inl)
  then show ?thesis
  proof cases
    case 1
    then show ?thesis using base_failure unfolding in_development_failures by blast
  next
    case 2
    note b = 2(1)
    from run_prefix_error[OF 2(2)] obtain n a where n: "n < length ?fs"
      and a: "run (take n ?fs) ns0 = Inr a" and e: "(?fs ! n) a = Inl e" by blast
    from n have "n < 8" by (simp add: development_sections_def)
    then consider "n = 0" | "n = 1" | "n = 2" | "n = 3" | "n = 4" | "n = 5" | "n = 6" | "n = 7"
      by linarith
    then show ?thesis
    proof cases
      case 1
      with a e have "dev_debug c env ns0 = Inl e" by (simp add: development_sections_def)
      moreover have "ns0 ''INSTALLED_APPS'' = Some (VList (map VStr (django_apps @ third_party_apps @ local_apps)))"
        using base_INSTALLED_APPS[OF b] by (simp add: strs_def)
      moreover have "ns0 ''MIDDLEWARE'' = Some (VList (map VStr base_middleware))"
        using base_MIDDLEWARE[OF b] by (simp add: strs_def)
      ultimately have "config_bool c env ''ENABLE_SILK_PROFILING'' False = Inl e"
        using dev_debug_Inl by blast
      then show ?thesis unfolding in_development_failures by blast
    next
      case 2
      with e have e': "dev_database c env p a = Inl e" by (simp add: development_sections_def)
      have "a ''DATABASES'' = ns0 ''DATABASES''"
        by (rule run_keeps[OF a]) (simp add: 2 development_sections_def keeps_dev)
      with base_DATABASES[OF b] have "a ''DATABASES'' = Some (base_databases env)" by simp
      from dev_database_Inl[OF this e'] show ?thesis unfolding in_development_failures by blast
    next
      case 3
      with e have e': "dev_cache a = Inl e" by (simp add: development_sections_def)
      have "a ''CACHES'' = ns0 ''CACHES''"
        by (rule run_keeps[OF a]) (simp add: 3 development_sections_def keeps_dev)
      with base_CACHES[OF b] obtain ttl where "a ''CACHES'' = Some (base_caches env ttl)" by auto
      with dev_cache_Inl[of a env ttl e] e' show ?thesis by blast
    next
      case 4
      with e have "dev_email_cors a = Inl e" by (simp add: development_sections_def)
      with dev_email_cors_Inl show ?thesis by blast
    next
      case 5
      with e have e': "dev_logging_security a = Inl e" by (simp add: development_sections_def)
      have "a ''LOGGING'' = ns0 ''LOGGING''"
        by (rule run_keeps[OF a]) (simp add: 5 development_sections_def keeps_dev)
      with base_LOGGING[OF b] have "a ''LOGGING'' = Some (base_logging env)" by simp
      with dev_logging_security_Inl[of a env e] e' show ?thesis by blast
    next
      case 6
      with e have "dev_celery c env a = Inl e" by (simp add: development_sections_def)
      from dev_celery_Inl[OF this] show ?thesis unfolding in_development_failures by blast
    next
      case 7
      with e have e': "dev_templates a = Inl e" by (simp add: development_sections_def)
      have "a ''TEMPLATES'' = ns0 ''TEMPLATES''"
        by (rule run_keeps[OF a]) (simp add: 7 development_sections_def keeps_dev)
      with base_TEMPLATES[OF b] have "a ''TEMPLATES'' = Some (base_templates p)" by simp
      with dev_templates_Inl[of a p e] e' show ?thesis by blast
    next
      case 8
      with e have e': "dev_testing p a = Inl e" by (simp add: development_sections_def)
      from a have a': "run [dev_debug c env, dev_database c env p, dev_cache, dev_email_cors,
          dev_logging_security, dev_celery c env, dev_templates] ns0 = Inr a"
        by (simp add: 8 development_sections_def)
      then obtain x y where x: "dev_debug c env ns0 = Inr x" and y: "dev_database c env p x = Inr y"
        and r: "run [dev_cache, dev_email_cors, dev_logging_security, dev_celery c env, dev_templates] y = Inr a"
        unfolding run_Cons_Inr by blast
      have "x ''DATABASES'' = ns0 ''DATABASES''"
        by (rule keepsD[of "''DATABASES''" "dev_debug c env" ns0 x]) (simp_all add: keeps_dev x)
      with base_DATABASES[OF b] have "x ''DATABASES'' = Some (base_databases env)" by simp
      from dev_database_dict[OF this y] obtain kvs where "y ''DATABASES'' = Some (VDict kvs)" by blast
      moreover have "a ''DATABASES'' = y ''DATABASES''"
        by (rule run_keeps[OF r]) (simp add: keeps_dev)
      ultimately have "a ''DATABASES'' = Some (VDict kvs)" by simp
      with dev_testing_Inl[of a kvs p e] e' show ?thesis by blast
    qed
  qed
qed

lemma development_succeeds:
  assumes "development_failures c env p = []"
  shows "\<exists>ns. outcome (resolve c Development env p) = Inr ns"
proof (cases "outcome (resolve c Development env p)")
  case (Inl e)
  from development_failure[OF this] assms show ?thesis by simp
next
  case (Inr ns)
  then show ?thesis by blast
qed

lemma in_production_head_failures:
  "e \<in> set (production_head_failures c env) \<longleftrightarrow>
     e \<in> set (base_failures c env) \<or>
     config_csv env ''ALLOWED_HOSTS'' = Inl e \<or>
     config_bool c env ''SECURE_SSL_REDIRECT'' True = Inl e \<or>
     config_int c env ''SECURE_HSTS_SECONDS'' 31536000 = Inl e \<or>
     config_bool c env ''SECURE_HSTS_INCLUDE_SUBDOMAINS'' True = Inl e \<or>
     config_bool c env ''SECURE_HSTS_PRELOAD'' True = Inl e \<or>
     config env ''DATABASE_HOST'' = Inl e \<or>
     config_bool c env ''USE_S3'' False = Inl e \<or>
     (config_bool c env ''USE_S3'' False = Inr True \<and>
       (config env ''AWS_ACCESS_KEY_ID'' = Inl e \<or> config env ''AWS_SECRET_ACCESS_KEY'' = Inl e \<or>
        config env ''AWS_STORAGE_BUCKET_NAME'' = Inl e))"
  unfolding production_head_failures_def set_append Un_iff by (auto simp: in_failure)

lemma in_production_failures:
  "e \<in> set (production_failures c env) \<longleftrightarrow>
     e \<in> set (production_head_failures c env) \<or>
     (config_or env ''SENTRY_DSN'' [] \<noteq> [] \<and>
        config_float c env ''SENTRY_TRACES_SAMPLE_RATE'' (1 / 10) = Inl e) \<or>
     config_csv env ''CORS_ALLOWED_ORIGINS'' = Inl e"
  unfolding production_failures_def set_append Un_iff by (auto simp: in_failure)

lemma prod_security_Inl:
  "prod_security c env ns = Inl e \<Longrightarrow>
     config_csv env ''ALLOWED_HOSTS'' = Inl e \<or>
     config_bool c env ''SECURE_SSL_REDIRECT'' True = Inl e \<or>
     config_int c env ''SECURE_HSTS_SECONDS'' 31536000 = Inl e \<or>
     config_bool c env ''SECURE_HSTS_INCLUDE_SUBDOMAINS'' True = Inl e \<or>
     config_bool c env ''SECURE_HSTS_PRELOAD'' True = Inl e"
  by (auto simp: prod_security_def and_then_eq_Inl)

lemma prod_database_Inl:
  assumes "ns ''DATABASES'' = Some (base_databases env)"
    and "prod_database env ns = Inl e"
  shows "config env ''DATABASE_HOST'' = Inl e"
  using assms
  by (auto simp: prod_database_def statement_defs base_databases_def and_then_eq_Inl)

lemma prod_database_shape:
  assumes "ns ''DATABASES'' = Some (base_databases env)"
    and "prod_database env ns = Inr ns'"
  shows "\<exists>kvs opts. ns' ''DATABASES'' = Some (VDict [(''default'', VDict kvs)]) \<and>
           map_of kvs ''OPTIONS'' = Some (VDict opts)"
  using assms
  by (auto simp: prod_database_def statement_defs base_databases_def and_then_eq_Inr)

lemma prod_cache_Inl:
  assumes "ns ''CACHES'' = Some (base_caches env ttl)"
  shows "prod_cache ns \<noteq> Inl e"
  using assms
  by (simp add: prod_cache_def statement_defs base_caches_def)

lemma prod_storage_Inl:
  "prod_storage c env ns = Inl e \<Longrightarrow>
     config_bool c env ''USE_S3'' False = Inl e \<or>
     (config_bool c env ''USE_S3'' False = Inr True \<and>
       (config env ''AWS_ACCESS_KEY_ID'' = Inl e \<or> config env ''AWS_SECRET_ACCESS_KEY'' = Inl e \<or>
        config env ''AWS_STORAGE_BUCKET_NAME'' = Inl e))"
  by (auto simp: prod_storage_def and_then_eq_Inl split: if_splits)

lemma prod_email_logging_Inl: "prod_email_logging env ns \<noteq> Inl e"
  by (simp add: prod_email_logging_def)

lemma prod_sentry_Inl:
  "prod_sentry c env ns = Inl e \<Longrightarrow>
     config_or env ''SENTRY_DSN'' [] \<noteq> [] \<and>
     config_float c env ''SENTRY_TRACES_SAMPLE_RATE'' (1 / 10) = Inl e"
  by (auto simp: prod_sentry_def Let_def and_then_eq_Inl split: if_splits)

lemma prod_cors_celery_Inl:
  "prod_cors_celery env ns = Inl e \<Longrightarrow> config_csv env ''CORS_ALLOWED_ORIGINS'' = Inl e"
  by (simp add: prod_cors_celery_def and_then_eq_Inl)

lemma prod_tuning_Inl:
  assumes "ns ''DATABASES'' = Some (VDict [(''default'', VDict kvs)])"
    and "map_of kvs ''OPTIONS'' = Some (VDict opts)"
    and "ns ''TEMPLATES'' = Some (base_templates p)"
    and "ns ''REST_FRAMEWORK'' = Some base_rest_framework"
    and "ns ''MIDDLEWARE'' = Some (VList ms)"
  shows "prod_tuning env ns \<noteq> Inl e"
  using assms
  by (simp add: prod_tuning_def statement_defs base_templates_def base_rest_framework_def)


lemma production_Inl:
  assumes "outcome (resolve c Production env p) = Inl e"
  obtains (base) "base c env p = Inl e"
    | (head) ns0 where "base c env p = Inr ns0" "run (production_head c env) ns0 = Inl e"
    | (sentry) ns0 ns1 where "base c env p = Inr ns0" "run (production_head c env) ns0 = Inr ns1"
        "prod_sentry c env ns1 = Inl e"
    | (tail) ns0 ns1 ns2 effs where "base c env p = Inr ns0" "run (production_head c env) ns0 = Inr ns1"
        "prod_sentry c env ns1 = Inr (ns2, effs)" "run (production_tail env) ns2 = Inl e"
  using assms
  by (auto simp: resolve_def production_def and_then_eq_Inl and_then_eq_Inr
        split: sum.splits prod.splits)

lemma head_failure:
  assumes b: "base c env p = Inr ns0" and h: "run (production_head c env) ns0 = Inl e"
  shows "e \<in> set (production_head_failures c env)"
proof -
  let ?fs = "production_head c env"
  from run_prefix_error[OF h] obtain n a where n: "n < length ?fs"
    and a: "run (take n ?fs) ns0 = Inr a" and e: "(?fs ! n) a = Inl e" by blast
  from n have "n < 5" by (simp add: production_head_def)
  then consider "n = 0" | "n = 1" | "n = 2" | "n = 3" | "n = 4" by linarith
  then show ?thesis
  proof cases
    case 1
    with e have "prod_security c env a = Inl e" by (simp add: production_head_def)
    from prod_security_Inl[OF this] show ?thesis unfolding in_production_head_failures by blast
  next
    case 2
    with e have e': "prod_database env a = Inl e" by (simp add: production_head_def)
    have "a ''DATABASES'' = ns0 ''DATABASES''"
      by (rule run_keeps[OF a]) (simp add: 2 production_head_def keeps_prod)
    with base_DATABASES[OF b] have "a ''DATABASES'' = Some (base_databases env)" by simp
    from prod_database_Inl[OF this e'] show ?thesis unfolding in_production_head_failures by blast
  next
    case 3
    with e have e': "prod_cache a = Inl e" by (simp add: production_head_def)
    have "a ''CACHES'' = ns0 ''CACHES''"
      by (rule run_keeps[OF a]) (simp add: 3 production_head_def keeps_prod)
    with base_CACHES[OF b] obtain ttl where "a ''CACHES'' = Some (base_caches env ttl)" by auto
    with prod_cache_Inl[of a env ttl e] e' show ?thesis by blast
  next
    case 4
    with e have "prod_storage c env a = Inl e" by (simp add: production_head_def)
    from prod_storage_Inl[OF this] show ?thesis unfolding in_production_head_failures by blast
  next
    case 5
    with e have "prod_email_logging env a = Inl e" by (simp add: production_head_def)
    with prod_email_logging_Inl show ?thesis by blast
  qed
qed

lemma head_DATABASES:
  assumes b: "base c env p = Inr ns0" and h: "run (production_head c env) ns0 = Inr ns1"
  shows "\<exists>kvs opts. ns1 ''DATABASES'' = Some (VDict [(''default'', VDict kvs)]) \<and>
           map_of kvs ''OPTIONS'' = Some (VDict opts)"
proof -
  from h obtain x y where x: "prod_security c env ns0 = Inr x" and y: "prod_database env x = Inr y"
    and r: "run [prod_cache, prod_storage c env, prod_email_logging env] y = Inr ns1"
    unfolding production_head_def run_Cons_Inr by blast
  have "x ''DATABASES'' = ns0 ''DATABASES''"
    by (rule keepsD[of "''DATABASES''" "prod_security c env" ns0 x]) (simp_all add: keeps_prod x)
  with base_DATABASES[OF b] have "x ''DATABASES'' = Some (base_databases env)" by simp
  from prod_database_shape[OF this y] obtain kvs opts where
    "y ''DATABASES'' = Some (VDict [(''default'', VDict kvs)])" "map_of kvs ''OPTIONS'' = Some (VDict opts)"
    by blast
  moreover have "ns1 ''DATABASES'' = y ''DATABASES''"
    by (rule run_keeps[OF r]) (simp add: keeps_prod)
  ultimately show ?thesis by auto
qed

lemma tail_failure:
  assumes b: "base c env p = Inr ns0" and h: "run (production_head c env) ns0 = Inr ns1"
    and m: "prod_sentry c env ns1 = Inr (ns2, effs)" and t: "run (production_tail env) ns2 = Inl e"
  shows "e \<in> set (production_failures c env)"
proof -
  from t consider "prod_cors_celery env ns2 = Inl e"
    | ns3 where "prod_cors_celery env ns2 = Inr ns3" "prod_tuning env ns3 = Inl e"
    unfolding production_tail_def run_Cons_Inl by auto
  then show ?thesis
  proof cases
    case 1
    from prod_cors_celery_Inl[OF this] show ?thesis unfolding in_production_failures by blast
  next
    case 2
    have keep: "ns3 k = ns0 k"
      if k: "k \<in> {''TEMPLATES'', ''REST_FRAMEWORK'', ''MIDDLEWARE''}" for k
    proof -
      have "ns3 k = ns2 k"
        by (rule keepsD[of k "prod_cors_celery env" ns2 ns3]) (use k 2 in \<open>auto simp: keeps_prod\<close>)
      also have "\<dots> = ns1 k"
        by (rule prod_sentry_keeps[OF m]) (use k in auto)
      also have "\<dots> = ns0 k"
        by (rule run_keeps[OF h]) (use k in \<open>auto simp: production_head_def keeps_prod\<close>)
      finally show ?thesis .
    qed
    have "ns3 ''DATABASES'' = ns2 ''DATABASES''"
      by (rule keepsD[of "''DATABASES''" "prod_cors_celery env" ns2 ns3]) (simp_all add: keeps_prod 2)
    also have "\<dots> = ns1 ''DATABASES''"
      by (rule prod_sentry_keeps[OF m]) simp
    finally obtain kvs opts where
      d: "ns3 ''DATABASES'' = Some (VDict [(''default'', VDict kvs)])"
      and o: "map_of kvs ''OPTIONS'' = Some (VDict opts)"
      using head_DATABASES[OF b h] by auto
    have "ns3 ''TEMPLATES'' = Some (base_templates p)"
      using keep[of "''TEMPLATES''"] base_TEMPLATES[OF b] by simp
    moreover have "ns3 ''REST_FRAMEWORK'' = Some base_rest_framework"
      using keep[of "''REST_FRAMEWORK''"] base_REST_FRAMEWORK[OF b] by simp
    moreover have "ns3 ''MIDDLEWARE'' = Some (VList (map VStr base_middleware))"
      using keep[of "''MIDDLEWARE''"] base_MIDDLEWARE[OF b] by (simp add: strs_def)
    ultimately have "prod_tuning env ns3 \<noteq> Inl e"
      using d o by (rule prod_tuning_Inl[of ns3 kvs opts p "map VStr base_middleware" env e, rotated 2])
    with 2 show ?thesis by blast
  qed
qed

lemma production_failure:
  assumes "outcome (resolve c Production env p) = Inl e"
  shows "e \<in> set (production_failures c env)"
  using assms
proof (cases rule: production_Inl)
  case base
  then show ?thesis
    using base_failure unfolding in_production_failures in_production_head_failures by blast
next
  case (head ns0)
  then show ?thesis using head_failure unfolding in_production_failures by blast
next
  case (sentry ns0 ns1)
  from prod_sentry_Inl[OF sentry(3)] show ?thesis unfolding in_production_failures by blast
next
  case (tail ns0 ns1 ns2 effs)
  then show ?thesis by (rule tail_failure)
qed

lemma production_succeeds:
  assumes "production_failures c env = []"
  shows "\<exists>ns. outcome (resolve c Production env p) = Inr ns"
proof (cases "outcome (resolve c Production env p)")
  case (Inl e)
  from production_failure[OF this] assms show ?thesis by simp
next
  case (Inr ns)
  then show ?thesis by blast
qed

subsection \<open>A resolution that succeeds has read every binding\<close>

lemma run_success_sections: "run fs ns = Inr ns' \<Longrightarrow> f \<in> set fs \<Longrightarrow> \<exists>a b. f a = Inr b"
proof (induction fs arbitrary: ns)
  case Nil
  then show ?case by simp
next
  case (Cons g fs)
  from Cons.prems(1) obtain s1 where g: "g ns = Inr s1" and r: "run fs s1 = Inr ns'"
    unfolding run_Cons_Inr by blast
  show ?case
  proof (cases "f = g")
    case True
    with g show ?thesis by blast
  next
    case False
    with Cons.prems(2) have "f \<in> set fs" by simp
    from Cons.IH[OF r this] show ?thesis .
  qed
qed

lemma base_core_Inr:
  "base_core c env p a = Inr b \<Longrightarrow> failure (config_bool c env ''DEBUG'' False) = []"
  by (auto simp: base_core_def and_then_eq_Inr)

lemma base_cache_Inr:
  "base_cache c env a = Inr b \<Longrightarrow>
     failure (config_int c env ''CACHE_TTL'' 3600) = [] \<and>
     failure (config_int c env ''SESSION_CACHE_TTL'' 86400) = []"
  by (auto simp: base_cache_def and_then_eq_Inr)

lemma base_rest_Inr:
  "base_rest c env a = Inr b \<Longrightarrow>
     failure (and_then (config_int c env ''JWT_ACCESS_TOKEN_LIFETIME'' 3600) timedelta_seconds) = [] \<and>
     failure (and_then (config_int c env ''JWT_REFRESH_TOKEN_LIFETIME'' 86400) timedelta_seconds) = [] \<and>
     failure (config_bool c env ''JWT_ROTATE_REFRESH_TOKENS'' True) = []"
  by (auto simp: base_rest_def and_then_eq_Inr)

lemma base_cors_Inr:
  "base_cors c env a = Inr b \<Longrightarrow>
     failure (config_bool c env ''CORS_ALLOW_CREDENTIALS'' True) = [] \<and>
     failure (config_bool c env ''CORS_ALLOW_ALL_ORIGINS'' False) = []"
  by (auto simp: base_cors_def and_then_eq_Inr)

lemma base_security_Inr:
  "base_security c env a = Inr b \<Longrightarrow>
     failure (config_bool c env ''SECURE_BROWSER_XSS_FILTER'' True) = [] \<and>
     failure (config_bool c env ''SECURE_CONTENT_TYPE_NOSNIFF'' True) = []"
  by (auto simp: base_security_def and_then_eq_Inr)

lemma base_email_Inr:
  "base_email c env a = Inr b \<Longrightarrow>
     failure (config_int c env ''EMAIL_PORT'' 587) = [] \<and>
     failure (config_bool c env ''EMAIL_USE_TLS'' True) = []"
  by (auto simp: base_email_def and_then_eq_Inr)

lemma base_custom_Inr:
  "base_custom c env a = Inr b \<Longrightarrow>
     failure (config_int c env ''MAX_EVENTS_PER_USER'' 10) = [] \<and>
     failure (config_int c env ''MAX_ATTENDEES_PER_EVENT'' 1000) = [] \<and>
     failure (config_int c env ''DEFAULT_EVENT_DURATION'' 3600) = [] \<and>
     failure (config_bool c env ''ENABLE_NOTIFICATIONS'' True) = []"
  by (auto simp: base_custom_def and_then_eq_Inr)

lemma base_no_failure:
  assumes "base c env p = Inr ns"
  shows "base_failures c env = []"
proof -
  note r = base_run[OF assms]
  have sec: "f \<in> set (base_sections c env p) \<Longrightarrow> \<exists>a b. f a = Inr b" for f
    using run_success_sections[OF r] by blast
  have "\<exists>a b. base_core c env p a = Inr b" by (rule sec) (simp add: base_sections_def)
  then have 1: "failure (config_bool c env ''DEBUG'' False) = []" using base_core_Inr by blast
  have "\<exists>a b. base_cache c env a = Inr b" by (rule sec) (simp add: base_sections_def)
  then have 2: "failure (config_int c env ''CACHE_TTL'' 3600) = [] \<and>
     failure (config_int c env ''SESSION_CACHE_TTL'' 86400) = []" using base_cache_Inr by blast
  have "\<exists>a b. base_rest c env a = Inr b" by (rule sec) (simp add: base_sections_def)
  then have 3: "failure (and_then (config_int c env ''JWT_ACCESS_TOKEN_LIFETIME'' 3600) timedelta_seconds) = [] \<and>
     failure (and_then (config_int c env ''JWT_REFRESH_TOKEN_LIFETIME'' 86400) timedelta_seconds) = [] \<and>
     failure (config_bool c env ''JWT_ROTATE_REFRESH_TOKENS'' True) = []" using base_rest_Inr by blast
  have "\<exists>a b. base_cors c env a = Inr b" by (rule sec) (simp add: base_sections_def)
  then have 4: "failure (config_bool c env ''CORS_ALLOW_CREDENTIALS'' True) = [] \<and>
     failure (config_bool c env ''CORS_ALLOW_ALL_ORIGINS'' False) = []" using base_cors_Inr by blast
  have "\<exists>a b. base_security c env a = Inr b" by (rule sec) (simp add: base_sections_def)
  then have 5: "failure (config_bool c env ''SECURE_BROWSER_XSS_FILTER'' True) = [] \<and>
     failure (config_bool c env ''SECURE_CONTENT_TYPE_NOSNIFF'' True) = []" using base_security_Inr by blast
  have "\<exists>a b. base_email c env a = Inr b" by (rule sec) (simp add: base_sections_def)
  then have 6: "failure (config_int c env ''EMAIL_PORT'' 587) = [] \<and>
     failure (config_bool c env ''EMAIL_USE_TLS'' True) = []" using base_email_Inr by blast
  have "\<exists>a b. base_custom c env a = Inr b" by (rule sec) (simp add: base_sections_def)
  then have 7: "failure (config_int c env ''MAX_EVENTS_PER_USER'' 10) = [] \<and>
     failure (config_int c env ''MAX_ATTENDEES_PER_EVENT'' 1000) = [] \<and>
     failure (config_int c env ''DEFAULT_EVENT_DURATION'' 3600) = [] \<and>
     failure (config_bool c env ''ENABLE_NOTIFICATIONS'' True) = []" using base_custom_Inr by blast
  show ?thesis unfolding base_failures_def using 1 2 3 4 5 6 7 by simp
qed

lemma dev_debug_Inr:
  "dev_debug c env a = Inr b \<Longrightarrow> failure (config_bool c env ''ENABLE_SILK_PROFILING'' False) = []"
  by (auto simp: dev_debug_def and_then_eq_Inr)

lemma dev_database_Inr:
  "dev_database c env p a = Inr b \<Longrightarrow>
     failure (config_bool c env ''USE_PGBOUNCER'' False) = [] \<and>
     (if dockerenv_exists p then [] else failure (config_bool c env ''DOCKER_ENV'' False)) = []"
  by (auto simp: dev_database_def and_then_eq_Inr split: if_splits)

lemma dev_celery_Inr:
  "dev_celery c env a = Inr b \<Longrightarrow> failure (config_bool c env ''CELERY_EAGER'' False) = []"
  by (auto simp: dev_celery_def and_then_eq_Inr)

lemma development_no_failure:
  assumes "outcome (resolve c Development env p) = Inr ns"
  shows "development_failures c env p = []"
proof -
  from assms obtain ns0 where b: "base c env p = Inr ns0"
    and r: "run (development_sections c env p) ns0 = Inr ns"
    unfolding development_Inr by blast
  have sec: "f \<in> set (development_sections c env p) \<Longrightarrow> \<exists>a b. f a = Inr b" for f
    using run_success_sections[OF r] by blast
  have "\<exists>a b. dev_debug c env a = Inr b" by (rule sec) (simp add: development_sections_def)
  then have 1: "failure (config_bool c env ''ENABLE_SILK_PROFILING'' False) = []"
    using dev_debug_Inr by blast
  have "\<exists>a b. dev_database c env p a = Inr b" by (rule sec) (simp add: development_sections_def)
  then have 2: "failure (config_bool c env ''USE_PGBOUNCER'' False) = [] \<and>
     (if dockerenv_exists p then [] else failure (config_bool c env ''DOCKER_ENV'' False)) = []"
    using dev_database_Inr by blast
  have "\<exists>a b. dev_celery c env a = Inr b" by (rule sec) (simp add: development_sections_def)
  then have 3: "failure (config_bool c env ''CELERY_EAGER'' False) = []"
    using dev_celery_Inr by blast
  show ?thesis unfolding development_failures_def using base_no_failure[OF b] 1 2 3 by simp
qed

lemma prod_security_Inr:
  "prod_security c env a = Inr b \<Longrightarrow>
     failure (config_csv env ''ALLOWED_HOSTS'') = [] \<and>
     failure (config_bool c env ''SECURE_SSL_REDIRECT'' True) = [] \<and>
     failure (config_int c env ''SECURE_HSTS_SECONDS'' 31536000) = [] \<and>
     failure (config_bool c env ''SECURE_HSTS_INCLUDE_SUBDOMAINS'' True) = [] \<and>
     failure (config_bool c env ''SECURE_HSTS_PRELOAD'' True) = []"
  by (auto simp: prod_security_def and_then_eq_Inr)

lemma prod_database_Inr:
  "prod_database env a = Inr b \<Longrightarrow> failure (config env ''DATABASE_HOST'') = []"
  by (auto simp: prod_database_def and_then_eq_Inr)

lemma prod_storage_Inr:
  "prod_storage c env a = Inr b \<Longrightarrow>
     failure (config_bool c env ''USE_S3'' False) = [] \<and>
     (if config_bool c env ''USE_S3'' False = Inr True
      then failure (config env ''AWS_ACCESS_KEY_ID'') @
           failure (config env ''AWS_SECRET_ACCESS_KEY'') @
           failure (config env ''AWS_STORAGE_BUCKET_NAME'')
      else []) = []"
  by (auto simp: prod_storage_def and_then_eq_Inr split: if_splits)

lemma prod_sentry_Inr:
  "prod_sentry c env a = Inr b \<Longrightarrow>
     (if config_or env ''SENTRY_DSN'' [] \<noteq> []
      then failure (config_float c env ''SENTRY_TRACES_SAMPLE_RATE'' (1 / 10))
      else []) = []"
  by (auto simp: prod_sentry_def Let_def and_then_eq_Inr split: if_splits)

lemma prod_cors_celery_Inr:
  "prod_cors_celery env a = Inr b \<Longrightarrow> failure (config_csv env ''CORS_ALLOWED_ORIGINS'') = []"
  by (auto simp: prod_cors_celery_def and_then_eq_Inr)

lemma head_no_failure:
  assumes b: "base c env p = Inr ns0" and h: "run (production_head c env) ns0 = Inr ns1"
  shows "production_head_failures c env = []"
proof -
  have sec: "f \<in> set (production_head c env) \<Longrightarrow> \<exists>a b. f a = Inr b" for f
    using run_success_sections[OF h] by blast
  have "\<exists>a b. prod_security c env a = Inr b" by (rule sec) (simp add: production_head_def)
  then have 1: "failure (config_csv env ''ALLOWED_HOSTS'') = [] \<and>
     failure (config_bool c env ''SECURE_SSL_REDIRECT'' True) = [] \<and>
     failure (config_int c env ''SECURE_HSTS_SECONDS'' 31536000) = [] \<and>
     failure (config_bool c env ''SECURE_HSTS_INCLUDE_SUBDOMAINS'' True) = [] \<and>
     failure (config_bool c env ''SECURE_HSTS_PRELOAD'' True) = []"
    using prod_security_Inr by blast
  have "\<exists>a b. prod_database env a = Inr b" by (rule sec) (simp add: production_head_def)
  then have 2: "failure (config env ''DATABASE_HOST'') = []" using prod_database_Inr by blast
  have "\<exists>a b. prod_storage c env a = Inr b" by (rule sec) (simp add: production_head_def)
  then have 3: "failure (config_bool c env ''USE_S3'' False) = [] \<and>
     (if config_bool c env ''USE_S3'' False = Inr True
      then failure (config env ''AWS_ACCESS_KEY_ID'') @
           failure (config env ''AWS_SECRET_ACCESS_KEY'') @
           failure (config env ''AWS_STORAGE_BUCKET_NAME'')
      else []) = []"
    using prod_storage_Inr by blast
  show ?thesis unfolding production_head_failures_def using base_no_failure[OF b] 1 2 3 by simp
qed

lemma head_succeeds:
  assumes b: "base c env p = Inr ns0" and f: "production_head_failures c env = []"
  shows "\<exists>ns1. run (production_head c env) ns0 = Inr ns1"
proof (cases "run (production_head c env) ns0")
  case (Inl e)
  from head_failure[OF b this] f show ?thesis by simp
next
  case (Inr ns1)
  then show ?thesis by blast
qed

lemma base_succeeds:
  assumes "base_failures c env = []"
  shows "\<exists>ns0. base c env p = Inr ns0"
proof (cases "base c env p")
  case (Inl e)
  from base_failure[OF this] assms show ?thesis by simp
next
  case (Inr ns0)
  then show ?thesis by blast
qed

lemma production_no_failure:
  assumes "outcome (resolve c Production env p) = Inr ns"
  shows "production_failures c env = []"
proof -
  from assms obtain ns0 ns1 ns2 effs where b: "base c env p = Inr ns0"
    and h: "run (production_head c env) ns0 = Inr ns1"
    and m: "prod_sentry c env ns1 = Inr (ns2, effs)"
    and t: "run (production_tail env) ns2 = Inr ns"
    unfolding production_Inr by blast
  note 4 = prod_sentry_Inr[OF m]
  have "\<exists>a b. prod_cors_celery env a = Inr b"
    by (rule run_success_sections[OF t]) (simp add: production_tail_def)
  then have 5: "failure (config_csv env ''CORS_ALLOWED_ORIGINS'') = []"
    using prod_cors_celery_Inr by blast
  show ?thesis unfolding production_failures_def using head_no_failure[OF b h] 4 5 by simp
qed

lemma development_yields:
  "(\<exists>ns. outcome (resolve c Development env p) = Inr ns) \<longleftrightarrow> development_failures c env p = []"
  using development_succeeds development_no_failure by blast

lemma production_yields:
  "(\<exists>ns. outcome (resolve c Production env p) = Inr ns) \<longleftrightarrow> production_failures c env = []"
  using production_succeeds production_no_failure by blast

section \<open>The periodic job table\<close>

text \<open>
  C7. The periodic job table has exactly the four entries cleanup-expired-tokens,
  send-event-reminders, update-event-analytics and cleanup-old-notifications, in this order;
  their cadences are 3600, 1800, 900 and 86400 seconds, each a positive whole number of
  seconds; and cleanup-expired-tokens is the one entry with no handler bound to it.
\<close>

theorem beat_schedule_table:
  "map fst beat_schedule =
     [''cleanup-expired-tokens'', ''send-event-reminders'', ''update-event-analytics'',
      ''cleanup-old-notifications''] \<and>
   map (\<lambda>(job, entry). cadence entry) beat_schedule =
     [Inr (VFloat 3600), Inr (VFloat 1800), Inr (VFloat 900), Inr (VFloat 86400)] \<and>
   list_all (\<lambda>(job, entry). positive_integer (cadence entry)) beat_schedule \<and>
   map fst (filter (\<lambda>(job, entry). task entry = Inl (KeyError ''task'')) beat_schedule) =
     [''cleanup-expired-tokens'']"
  by (simp add: beat_schedule_def cadence_def task_def)

section \<open>Resolutions on concrete bindings\<close>

lemmas config_defs =
  config_def config_or_def config_bool_def config_int_def config_float_def config_csv_def
  config_csv_or_def environ_of_def

lemma development_no_bindings:
  "development_failures python (environ_of []) p = []"
  by (simp add: development_failures_def base_failures_def config_defs timedelta_seconds_def)

lemma production_bindings_ok:
  "production_failures python (environ_of ((''DEBUG'', ''true'') # production_bindings)) = []"
  by (simp add: production_failures_def production_head_failures_def base_failures_def config_defs
        timedelta_seconds_def production_bindings_def python_def boolean_def lower_def)

section \<open>The debug flag\<close>

text \<open>
  C1. Whatever the environment bindings are, a resolution with the development overlay that
  yields a configuration has \<^verbatim>\<open>DEBUG\<close> true in it (in particular when no \<^verbatim>\<open>DEBUG\<close> binding is
  present), and a resolution with the production overlay that yields a configuration has
  \<^verbatim>\<open>DEBUG\<close> false in it, whatever the \<^verbatim>\<open>DEBUG\<close> binding says: no binding makes a production
  resolution give \<^verbatim>\<open>DEBUG\<close> true.
\<close>

theorem debug_by_overlay:
  "(outcome (resolve c Development env p) = Inr ns \<longrightarrow> ns ''DEBUG'' = Some (VBool True)) \<and>
   (outcome (resolve c Production env p) = Inr ns \<longrightarrow> ns ''DEBUG'' = Some (VBool False)) \<and>
   resolved (resolve c Production env p) ''DEBUG'' \<noteq> Some (VBool True)"
proof -
  have "resolved (resolve c Production env p) ''DEBUG'' \<noteq> Some (VBool True)"
    using production_DEBUG[of c env p]
    by (cases "outcome (resolve c Production env p)") (simp_all add: resolved_def)
  then show ?thesis using development_DEBUG production_DEBUG by blast
qed

theorem debug_by_overlay_witness:
  "resolved (resolve python Development (environ_of []) checkout) ''DEBUG'' = Some (VBool True) \<and>
   resolved (resolve python Production (environ_of ((''DEBUG'', ''true'') # production_bindings)) checkout)
     ''DEBUG'' = Some (VBool False)"
proof -
  obtain ns where d: "outcome (resolve python Development (environ_of []) checkout) = Inr ns"
    using development_succeeds[OF development_no_bindings] by blast
  obtain ns' where p: "outcome (resolve python Production
      (environ_of ((''DEBUG'', ''true'') # production_bindings)) checkout) = Inr ns'"
    using production_succeeds[OF production_bindings_ok] by blast
  from debug_by_overlay[of python "environ_of []" checkout ns] d
  have "ns ''DEBUG'' = Some (VBool True)" by blast
  moreover from debug_by_overlay[of python "environ_of ((''DEBUG'', ''true'') # production_bindings)" checkout ns'] p
  have "ns' ''DEBUG'' = Some (VBool False)" by blast
  ultimately show ?thesis using d p by (simp add: resolved_def)
qed

section \<open>Cross-origin settings under development\<close>

lemma dev_email_cors_values:
  assumes "dev_email_cors ns = Inr ns'"
  shows "ns' ''CORS_ALLOW_ALL_ORIGINS'' = Some (VBool True) \<and>
         ns' ''CORS_ALLOWED_ORIGINS'' = Some (strs dev_cors_origins)"
  using assms by (auto simp: dev_email_cors_def assign_def)

lemma development_CORS:
  assumes "outcome (resolve c Development env p) = Inr ns"
  shows "ns ''CORS_ALLOW_ALL_ORIGINS'' = Some (VBool True)"
    and "ns ''CORS_ALLOWED_ORIGINS'' = Some (strs dev_cors_origins)"
proof -
  from assms obtain ns0 where r: "run (development_sections c env p) ns0 = Inr ns"
    unfolding development_Inr by blast
  show "ns ''CORS_ALLOW_ALL_ORIGINS'' = Some (VBool True)"
    by (rule run_nth_sets[OF r, where n=3])
       (auto simp: development_sections_def keeps_dev dest: dev_email_cors_values)
  show "ns ''CORS_ALLOWED_ORIGINS'' = Some (strs dev_cors_origins)"
    by (rule run_nth_sets[OF r, where n=3])
       (auto simp: development_sections_def keeps_dev dest: dev_email_cors_values)
qed

lemma base_CORS_defaults:
  assumes b: "base c env p = Inr ns"
    and "env ''CORS_ALLOW_ALL_ORIGINS'' = None" and "env ''CORS_ALLOWED_ORIGINS'' = None"
  shows "ns ''CORS_ALLOW_ALL_ORIGINS'' = Some (VBool False)"
    and "ns ''CORS_ALLOWED_ORIGINS'' = Some (strs [''http://localhost:3000'', ''http://127.0.0.1:3000''])"
proof -
  have v: "base_cors c env a = Inr b \<Longrightarrow>
      b ''CORS_ALLOW_ALL_ORIGINS'' = Some (VBool False) \<and>
      b ''CORS_ALLOWED_ORIGINS'' = Some (strs [''http://localhost:3000'', ''http://127.0.0.1:3000''])" for a b
    using assms(2,3)
    by (auto simp: base_cors_def and_then_eq_Inr config_defs csv_def strs_def strip_def isspace_def)
  show "ns ''CORS_ALLOW_ALL_ORIGINS'' = Some (VBool False)"
    by (rule run_nth_sets[OF base_run[OF b], where n=5])
       (auto simp: base_sections_def keeps_base dest: v)
  show "ns ''CORS_ALLOWED_ORIGINS'' = Some (strs [''http://localhost:3000'', ''http://127.0.0.1:3000''])"
    by (rule run_nth_sets[OF base_run[OF b], where n=5])
       (auto simp: base_sections_def keeps_base dest: v)
qed

text \<open>
  C10. Under the development overlay every resolution that yields a configuration has
  \<^verbatim>\<open>CORS_ALLOW_ALL_ORIGINS\<close> true and \<^verbatim>\<open>CORS_ALLOWED_ORIGINS\<close> equal to the fixed list of four
  localhost origins, whatever the two bindings of these names say; the base defaults the
  overlay replaces are false and a list of two origins.
\<close>

theorem development_cors:
  "(outcome (resolve c Development env p) = Inr ns \<longrightarrow>
      ns ''CORS_ALLOW_ALL_ORIGINS'' = Some (VBool True) \<and>
      ns ''CORS_ALLOWED_ORIGINS'' =
        Some (strs [''http://localhost:3000'', ''http://127.0.0.1:3000'',
                    ''http://localhost:5173'', ''http://127.0.0.1:5173''])) \<and>
   (base c env p = Inr ns0 \<and> env ''CORS_ALLOW_ALL_ORIGINS'' = None \<and>
    env ''CORS_ALLOWED_ORIGINS'' = None \<longrightarrow>
      ns0 ''CORS_ALLOW_ALL_ORIGINS'' = Some (VBool False) \<and>
      ns0 ''CORS_ALLOWED_ORIGINS'' = Some (strs [''http://localhost:3000'', ''http://127.0.0.1:3000'']))"
  using development_CORS[of c env p ns] base_CORS_defaults[of c env p ns0]
  by (simp add: dev_cors_origins_def)


lemma development_cors_bindings:
  "development_failures python (environ_of cors_bindings) p = []"
  by (simp add: development_failures_def base_failures_def config_defs timedelta_seconds_def
        cors_bindings_def python_def boolean_def lower_def)

lemma base_no_bindings: "base_failures python (environ_of []) = []"
  by (simp add: base_failures_def config_defs timedelta_seconds_def)

theorem development_cors_witness:
  "resolved (resolve python Development (environ_of cors_bindings) checkout) ''CORS_ALLOW_ALL_ORIGINS'' =
     Some (VBool True) \<and>
   resolved (resolve python Development (environ_of cors_bindings) checkout) ''CORS_ALLOWED_ORIGINS'' =
     Some (strs [''http://localhost:3000'', ''http://127.0.0.1:3000'',
                 ''http://localhost:5173'', ''http://127.0.0.1:5173'']) \<and>
   (case base python (environ_of []) checkout of
      Inl e \<Rightarrow> None | Inr ns0 \<Rightarrow> ns0 ''CORS_ALLOW_ALL_ORIGINS'') = Some (VBool False) \<and>
   (case base python (environ_of []) checkout of
      Inl e \<Rightarrow> None | Inr ns0 \<Rightarrow> ns0 ''CORS_ALLOWED_ORIGINS'') =
     Some (strs [''http://localhost:3000'', ''http://127.0.0.1:3000''])"
proof -
  obtain ns where d: "outcome (resolve python Development (environ_of cors_bindings) checkout) = Inr ns"
    using development_succeeds[OF development_cors_bindings] by blast
  obtain ns0 where b: "base python (environ_of []) checkout = Inr ns0"
    using base_succeeds[OF base_no_bindings] by blast
  have e: "environ_of [] ''CORS_ALLOW_ALL_ORIGINS'' = None" "environ_of [] ''CORS_ALLOWED_ORIGINS'' = None"
    by (simp_all add: environ_of_def)
  from development_cors[of python "environ_of cors_bindings" checkout ns] d
  have 1: "ns ''CORS_ALLOW_ALL_ORIGINS'' = Some (VBool True) \<and>
      ns ''CORS_ALLOWED_ORIGINS'' =
        Some (strs [''http://localhost:3000'', ''http://127.0.0.1:3000'',
                    ''http://localhost:5173'', ''http://127.0.0.1:5173''])" by blast
  from development_cors[of python "environ_of []" checkout _ ns0] b e
  have 2: "ns0 ''CORS_ALLOW_ALL_ORIGINS'' = Some (VBool False) \<and>
      ns0 ''CORS_ALLOWED_ORIGINS'' = Some (strs [''http://localhost:3000'', ''http://127.0.0.1:3000''])"
    by blast
  show ?thesis using 1 2 d b by (simp add: resolved_def)
qed

section \<open>A malformed cache lifetime\<close>

lemma base_cache_ttl:
  assumes "env ''CACHE_TTL'' = Some v" "to_int c v = None"
  shows "base c env p =
           (case config_bool c env ''DEBUG'' False of
              Inl e \<Rightarrow> Inl e | Inr debug \<Rightarrow> Inl (ValueError ''CACHE_TTL'' v))"
  using assms
  by (simp add: base_def base_sections_def base_core_def base_database_def base_cache_def
        config_int_def split: sum.splits)

text \<open>
  C8. When the binding \<^verbatim>\<open>CACHE_TTL\<close> is present and cannot be coerced to an integer,
  resolution under either overlay is aborted while the base settings load, with a coercion
  error: the one of \<^verbatim>\<open>CACHE_TTL\<close>, unless the \<^verbatim>\<open>DEBUG\<close> binding, read before it, is malformed
  too. No configuration is produced and nothing has been initialised.
\<close>

theorem malformed_cache_ttl:
  assumes "env ''CACHE_TTL'' = Some v" and "to_int c v = None"
  shows "effects (resolve c ov env p) = [] \<and>
         (outcome (resolve c ov env p) = Inl (ValueError ''CACHE_TTL'' v) \<or>
          (\<exists>d. env ''DEBUG'' = Some d \<and> to_bool c d = None \<and>
               outcome (resolve c ov env p) = Inl (ValueError ''DEBUG'' d)))"
proof -
  have "base c env p = Inl (ValueError ''CACHE_TTL'' v) \<or>
        (\<exists>d. env ''DEBUG'' = Some d \<and> to_bool c d = None \<and> base c env p = Inl (ValueError ''DEBUG'' d))"
    using base_cache_ttl[of env v c p] assms
    by (auto simp: config_bool_def split: option.splits)
  then obtain e where e: "base c env p = Inl e"
    and "e = ValueError ''CACHE_TTL'' v \<or>
         (\<exists>d. env ''DEBUG'' = Some d \<and> to_bool c d = None \<and> e = ValueError ''DEBUG'' d)"
    by auto
  moreover from e have "outcome (resolve c ov env p) = Inl e \<and> effects (resolve c ov env p) = []"
    by (cases ov) (simp_all add: resolve_def development_def production_def)
  ultimately show ?thesis by auto
qed

theorem malformed_cache_ttl_witness:
  "outcome (resolve python Production (environ_of ((''CACHE_TTL'', ''notanumber'') # production_bindings))
      checkout) = Inl (ValueError ''CACHE_TTL'' ''notanumber'') \<and>
   effects (resolve python Production (environ_of ((''CACHE_TTL'', ''notanumber'') # production_bindings))
      checkout) = []"
proof -
  let ?env = "environ_of ((''CACHE_TTL'', ''notanumber'') # production_bindings)"
  have 1: "?env ''CACHE_TTL'' = Some ''notanumber''" by (simp add: environ_of_def)
  have 2: "to_int python ''notanumber'' = None"
    by (simp add: python_def decimal_def strip_def isspace_def digit_def)
  have 3: "?env ''DEBUG'' = None" by (simp add: environ_of_def production_bindings_def)
  from malformed_cache_ttl[of ?env "''notanumber''" python Production checkout] 1 2 3
  show ?thesis by simp
qed

section \<open>Required bindings under production\<close>

lemma config_bool_binding_error: "config_bool c env n d = Inl e \<Longrightarrow> binding_error e"
  by (auto simp: config_bool_def split: option.splits)

lemma config_int_binding_error: "config_int c env n d = Inl e \<Longrightarrow> binding_error e"
  by (auto simp: config_int_def split: option.splits)

lemma config_float_binding_error: "config_float c env n d = Inl e \<Longrightarrow> binding_error e"
  by (auto simp: config_float_def split: option.splits)

lemma config_binding_error: "config env n = Inl e \<Longrightarrow> binding_error e"
  by (auto simp: config_def split: option.splits)

lemma config_csv_binding_error: "config_csv env n = Inl e \<Longrightarrow> binding_error e"
  by (auto simp: config_csv_def split: option.splits)

lemma timedelta_binding_error:
  "and_then (config_int c env n d) timedelta_seconds = Inl e \<Longrightarrow> binding_error e"
  by (auto simp: and_then_eq_Inl timedelta_seconds_def dest: config_int_binding_error split: if_splits)

lemmas binding_errors =
  config_bool_binding_error config_int_binding_error config_float_binding_error
  config_binding_error config_csv_binding_error timedelta_binding_error

lemma base_failures_binding: "e \<in> set (base_failures c env) \<Longrightarrow> binding_error e"
  unfolding in_base_failures by (elim disjE) (erule binding_errors)+

lemma production_failures_binding: "e \<in> set (production_failures c env) \<Longrightarrow> binding_error e"
  unfolding in_production_failures in_production_head_failures
  by (elim disjE conjE) (erule binding_errors base_failures_binding)+

lemma development_failures_binding: "e \<in> set (development_failures c env p) \<Longrightarrow> binding_error e"
  unfolding in_development_failures
  by (elim disjE conjE) (erule binding_errors base_failures_binding)+

lemma resolution_error:
  assumes "outcome (resolve c ov env p) = Inl e"
  shows "binding_error e"
proof (cases ov)
  case Development
  with assms development_failure development_failures_binding show ?thesis by blast
next
  case Production
  with assms production_failure production_failures_binding show ?thesis by blast
qed

text \<open>
  C9. Under the production overlay resolution is aborted, with the error of a binding and
  with no configuration produced, whenever \<^verbatim>\<open>ALLOWED_HOSTS\<close>, \<^verbatim>\<open>DATABASE_HOST\<close> or
  \<^verbatim>\<open>CORS_ALLOWED_ORIGINS\<close> is unset, and whenever \<^verbatim>\<open>USE_S3\<close> is true and one of
  \<^verbatim>\<open>AWS_ACCESS_KEY_ID\<close>, \<^verbatim>\<open>AWS_SECRET_ACCESS_KEY\<close>, \<^verbatim>\<open>AWS_STORAGE_BUCKET_NAME\<close> is unset.
\<close>

theorem production_required_bindings:
  assumes "env ''ALLOWED_HOSTS'' = None \<or> env ''DATABASE_HOST'' = None \<or>
           env ''CORS_ALLOWED_ORIGINS'' = None \<or>
           ((\<exists>v. env ''USE_S3'' = Some v \<and> to_bool c v = Some True) \<and>
            (env ''AWS_ACCESS_KEY_ID'' = None \<or> env ''AWS_SECRET_ACCESS_KEY'' = None \<or>
             env ''AWS_STORAGE_BUCKET_NAME'' = None))"
  shows "\<exists>e. outcome (resolve c Production env p) = Inl e \<and> binding_error e"
proof (cases "outcome (resolve c Production env p)")
  case (Inl e)
  from production_failure[OF this] have "binding_error e" by (rule production_failures_binding)
  with Inl show ?thesis by blast
next
  case (Inr ns)
  from production_no_failure[OF this] have n: "production_failures c env = []" .
  then have h: "production_head_failures c env = []" by (simp add: production_failures_def)
  from n have "failure (config_csv env ''CORS_ALLOWED_ORIGINS'') = []"
    by (simp add: production_failures_def)
  then have 1: "env ''CORS_ALLOWED_ORIGINS'' \<noteq> None"
    by (auto simp: config_csv_def split: option.splits)
  from h have "failure (config_csv env ''ALLOWED_HOSTS'') = []"
    by (simp add: production_head_failures_def)
  then have 2: "env ''ALLOWED_HOSTS'' \<noteq> None"
    by (auto simp: config_csv_def split: option.splits)
  from h have "failure (config env ''DATABASE_HOST'') = []"
    by (simp add: production_head_failures_def)
  then have 3: "env ''DATABASE_HOST'' \<noteq> None"
    by (auto simp: config_def split: option.splits)
  have 4: "env ''AWS_ACCESS_KEY_ID'' \<noteq> None \<and> env ''AWS_SECRET_ACCESS_KEY'' \<noteq> None \<and>
           env ''AWS_STORAGE_BUCKET_NAME'' \<noteq> None"
    if "env ''USE_S3'' = Some v" "to_bool c v = Some True" for v
  proof -
    from that have "config_bool c env ''USE_S3'' False = Inr True" by (simp add: config_bool_def)
    with h have "failure (config env ''AWS_ACCESS_KEY_ID'') = [] \<and>
        failure (config env ''AWS_SECRET_ACCESS_KEY'') = [] \<and>
        failure (config env ''AWS_STORAGE_BUCKET_NAME'') = []"
      by (simp add: production_head_failures_def)
    then show ?thesis by (auto simp: config_def split: option.splits)
  qed
  from assms 1 2 3 4 show ?thesis by blast
qed


lemma no_database_host_failures:
  "production_failures python
     (environ_of [(''ALLOWED_HOSTS'', ''primepass.com''), (''CORS_ALLOWED_ORIGINS'', ''https://primepass.com'')]) =
   [UndefinedValueError ''DATABASE_HOST'']"
  by (simp add: production_failures_def production_head_failures_def base_failures_def config_defs
        timedelta_seconds_def)

lemma no_bucket_failures:
  "production_failures python
     (environ_of ((''USE_S3'', ''true'') # (''AWS_ACCESS_KEY_ID'', ''AKIA'') #
                  (''AWS_SECRET_ACCESS_KEY'', ''secret'') # production_bindings)) =
   [UndefinedValueError ''AWS_STORAGE_BUCKET_NAME'']"
  by (simp add: production_failures_def production_head_failures_def base_failures_def config_defs
        timedelta_seconds_def production_bindings_def python_def boolean_def lower_def)

theorem production_required_bindings_witness:
  "outcome (resolve python Production
     (environ_of [(''ALLOWED_HOSTS'', ''primepass.com''), (''CORS_ALLOWED_ORIGINS'', ''https://primepass.com'')])
     checkout) = Inl (UndefinedValueError ''DATABASE_HOST'') \<and>
   outcome (resolve python Production
     (environ_of ((''USE_S3'', ''true'') # (''AWS_ACCESS_KEY_ID'', ''AKIA'') #
                  (''AWS_SECRET_ACCESS_KEY'', ''secret'') # production_bindings))
     checkout) = Inl (UndefinedValueError ''AWS_STORAGE_BUCKET_NAME'')"
proof -
  let ?a = "environ_of [(''ALLOWED_HOSTS'', ''primepass.com''), (''CORS_ALLOWED_ORIGINS'', ''https://primepass.com'')]"
  let ?b = "environ_of ((''USE_S3'', ''true'') # (''AWS_ACCESS_KEY_ID'', ''AKIA'') #
                  (''AWS_SECRET_ACCESS_KEY'', ''secret'') # production_bindings)"
  have "?a ''DATABASE_HOST'' = None" by (simp add: environ_of_def)
  with production_required_bindings[of ?a python checkout]
  obtain e where e: "outcome (resolve python Production ?a checkout) = Inl e" by blast
  from production_failure[OF e] have 1: "e = UndefinedValueError ''DATABASE_HOST''"
    unfolding no_database_host_failures by simp
  have "?b ''USE_S3'' = Some ''true''" "to_bool python ''true'' = Some True"
    "?b ''AWS_STORAGE_BUCKET_NAME'' = None"
    by (simp_all add: environ_of_def production_bindings_def python_def boolean_def lower_def)
  with production_required_bindings[of ?b python checkout]
  obtain e' where e': "outcome (resolve python Production ?b checkout) = Inl e'" by blast
  from production_failure[OF e'] have 2: "e' = UndefinedValueError ''AWS_STORAGE_BUCKET_NAME''"
    unfolding no_bucket_failures by simp
  from e e' 1 2 show ?thesis by simp
qed

section \<open>The route table\<close>

lemma base_services_values:
  assumes "base_services env p a = Inr b"
  shows "b ''MEDIA_URL'' = Some (VStr (config_or env ''MEDIA_URL'' ''/media/''))"
    and "b ''MEDIA_ROOT'' = Some (VPath (base_dir p @ [''media'']))"
    and "b ''STATIC_URL'' = Some (VStr (config_or env ''STATIC_URL'' ''/static/''))"
    and "b ''STATIC_ROOT'' = Some (VPath (base_dir p @ [''staticfiles'']))"
  using assms by (auto simp: base_services_def)

lemma base_static_media:
  assumes b: "base c env p = Inr ns"
  shows "ns ''MEDIA_URL'' = Some (VStr (config_or env ''MEDIA_URL'' ''/media/''))"
    and "ns ''MEDIA_ROOT'' = Some (VPath (base_dir p @ [''media'']))"
    and "ns ''STATIC_URL'' = Some (VStr (config_or env ''STATIC_URL'' ''/static/''))"
    and "ns ''STATIC_ROOT'' = Some (VPath (base_dir p @ [''staticfiles'']))"
  by (rule run_nth_sets[OF base_run[OF b], where n=6];
      auto simp: base_sections_def keeps_base dest: base_services_values)+

lemma development_static_media:
  assumes "outcome (resolve c Development env p) = Inr ns"
  shows "ns ''MEDIA_URL'' = Some (VStr (config_or env ''MEDIA_URL'' ''/media/''))"
    and "ns ''MEDIA_ROOT'' = Some (VPath (base_dir p @ [''media'']))"
    and "ns ''STATIC_URL'' = Some (VStr (config_or env ''STATIC_URL'' ''/static/''))"
    and "ns ''STATIC_ROOT'' = Some (VPath (base_dir p @ [''staticfiles'']))"
proof -
  from assms obtain ns0 where b: "base c env p = Inr ns0"
    and r: "run (development_sections c env p) ns0 = Inr ns"
    unfolding development_Inr by blast
  have k: "ns k = ns0 k" if "k \<in> {''MEDIA_URL'', ''MEDIA_ROOT'', ''STATIC_URL'', ''STATIC_ROOT''}" for k
    by (rule run_keeps[OF r]) (use that in \<open>auto simp: development_sections_def keeps_dev\<close>)
  show "ns ''MEDIA_URL'' = Some (VStr (config_or env ''MEDIA_URL'' ''/media/''))"
    using k[of "''MEDIA_URL''"] base_static_media(1)[OF b] by simp
  show "ns ''MEDIA_ROOT'' = Some (VPath (base_dir p @ [''media'']))"
    using k[of "''MEDIA_ROOT''"] base_static_media(2)[OF b] by simp
  show "ns ''STATIC_URL'' = Some (VStr (config_or env ''STATIC_URL'' ''/static/''))"
    using k[of "''STATIC_URL''"] base_static_media(3)[OF b] by simp
  show "ns ''STATIC_ROOT'' = Some (VPath (base_dir p @ [''staticfiles'']))"
    using k[of "''STATIC_ROOT''"] base_static_media(4)[OF b] by simp
qed

lemma development_routes:
  assumes d: "outcome (resolve c Development env p) = Inr ns"
  shows "urlpatterns w ns =
     (let media = add_script_prefix w (config_or env ''MEDIA_URL'' ''/media/'');
          files = add_script_prefix w (config_or env ''STATIC_URL'' ''/static/'')
      in if media = [] then Inl ImproperlyConfigured
         else
           (case netloc w media of
              Inl e \<Rightarrow> Inl e
            | Inr media_host \<Rightarrow>
                if files = [] then Inl ImproperlyConfigured
                else
                  (case netloc w files of
                     Inl e \<Rightarrow> Inl e
                   | Inr files_host \<Rightarrow>
                       Inr (main_patterns @
                            [Route ''__debug__/'' (Include_module ''debug_toolbar.urls'' None) None,
                             Route ''silk/'' (Include_module ''silk.urls'' (Some ''silk'')) None] @
                            (if media_host = []
                             then [Serve_route (lstrip_slash media) (VPath (base_dir p @ [''media'']))]
                             else []) @
                            (if files_host = []
                             then [Serve_route (lstrip_slash files) (VPath (base_dir p @ [''staticfiles'']))]
                             else [])))))"
  using development_DEBUG[OF d] development_static_media[OF d]
  by (simp add: urlpatterns_def url_setting_def static_def setting_def debug_patterns_def Let_def
      split: sum.splits)

lemma production_routes:
  assumes "outcome (resolve c Production env p) = Inr ns"
  shows "urlpatterns w ns = Inr main_patterns"
  using production_DEBUG[OF assms] by (simp add: urlpatterns_def setting_def)

lemma main_patterns_plain:
  "list_all (\<lambda>r. \<not> introspection r) (concat (map subroutes main_patterns))"
  by (simp add: main_patterns_def api_v1_patterns_def)

lemma development_media_bindings:
  "development_failures python (environ_of [(''MEDIA_URL'', ''https://cdn.example/m/'')]) p = []"
  by (simp add: development_failures_def base_failures_def config_defs timedelta_seconds_def)

lemma plain_netloc_values:
  "plain_netloc ''/media/'' = Inr []"
  "plain_netloc ''/static/'' = Inr []"
  "plain_netloc ''https://cdn.example/m/'' = Inr ''cdn.example''"
  by (simp_all add: plain_netloc_def scheme_char_def letter_def Let_def)

text \<open>
  C2, as the code has it. The route table is a value built once, when \<^verbatim>\<open>urls.py\<close> is imported,
  from the settings then in force; no request takes part in it. Whatever the environment
  bindings are, the table assembled from a development configuration is an error of
  \<^verbatim>\<open>static\<close> (an empty prefix, a URL whose host cannot be read), or it is the main routes
  followed by the debug toolbar route \<^verbatim>\<open>__debug__/\<close> and the silk route \<^verbatim>\<open>silk/\<close> and then, for
  each of the media and the static prefix, the route serving its files exactly when the
  prefix names no host: a prefix bound to the URL of another host gets no serving route, also
  under development. The table assembled from a production configuration is the main routes
  alone, and none of them, the routes of the included list among them, is a debug toolbar, a
  silk or a file serving route.
\<close>

theorem route_table_by_overlay:
  "(outcome (resolve c Development env p) = Inr ns \<longrightarrow>
      urlpatterns w ns =
        (let media = add_script_prefix w (config_or env ''MEDIA_URL'' ''/media/'');
             files = add_script_prefix w (config_or env ''STATIC_URL'' ''/static/'')
         in if media = [] then Inl ImproperlyConfigured
            else
              (case netloc w media of
                 Inl e \<Rightarrow> Inl e
               | Inr media_host \<Rightarrow>
                   if files = [] then Inl ImproperlyConfigured
                   else
                     (case netloc w files of
                        Inl e \<Rightarrow> Inl e
                      | Inr files_host \<Rightarrow>
                          Inr (main_patterns @
                               [Route ''__debug__/'' (Include_module ''debug_toolbar.urls'' None) None,
                                Route ''silk/'' (Include_module ''silk.urls'' (Some ''silk'')) None] @
                               (if media_host = []
                                then [Serve_route (lstrip_slash media) (VPath (base_dir p @ [''media'']))]
                                else []) @
                               (if files_host = []
                                then [Serve_route (lstrip_slash files)
                                        (VPath (base_dir p @ [''staticfiles'']))]
                                else [])))))) \<and>
   (outcome (resolve c Development env p) = Inr ns \<and> urlpatterns w ns = Inr routes \<longrightarrow>
      Route ''__debug__/'' (Include_module ''debug_toolbar.urls'' None) None \<in> set routes \<and>
      Route ''silk/'' (Include_module ''silk.urls'' (Some ''silk'')) None \<in> set routes) \<and>
   (outcome (resolve c Production env' p') = Inr ns' \<longrightarrow> urlpatterns w ns' = Inr main_patterns) \<and>
   list_all (\<lambda>r. \<not> introspection r) (concat (map subroutes main_patterns))"
proof (intro conjI impI)
  assume "outcome (resolve c Development env p) = Inr ns \<and> urlpatterns w ns = Inr routes"
  then have d: "outcome (resolve c Development env p) = Inr ns" and u: "urlpatterns w ns = Inr routes"
    by simp_all
  from u show "Route ''__debug__/'' (Include_module ''debug_toolbar.urls'' None) None \<in> set routes"
    unfolding development_routes[OF d] by (auto simp: Let_def split: if_splits sum.splits)
  from u show "Route ''silk/'' (Include_module ''silk.urls'' (Some ''silk'')) None \<in> set routes"
    unfolding development_routes[OF d] by (auto simp: Let_def split: if_splits sum.splits)
qed (simp_all only: development_routes production_routes main_patterns_plain)

theorem route_table_by_overlay_witness:
  "resolved_routes django_default (resolve python Development (environ_of []) checkout) =
     Inr [Route ''admin/'' (View ''admin.site.urls'') None,
          Route ''api/v1/''
            (Include_patterns
               [Route ''auth/token/'' (View ''TokenObtainPairView.as_view()'') (Some ''token_obtain_pair''),
                Route ''auth/token/refresh/'' (View ''TokenRefreshView.as_view()'') (Some ''token_refresh''),
                Route ''auth/token/verify/'' (View ''TokenVerifyView.as_view()'') (Some ''token_verify''),
                Route ''health/'' (Include_module ''health_check.urls'' None) None])
            None,
          Route ''api/schema/'' (View ''SpectacularAPIView.as_view()'') (Some ''schema''),
          Route ''api/docs/'' (View ''SpectacularSwaggerView.as_view(url_name=schema)'') (Some ''swagger-ui''),
          Route ''api/redoc/'' (View ''SpectacularRedocView.as_view(url_name=schema)'') (Some ''redoc''),
          Route ''__debug__/'' (Include_module ''debug_toolbar.urls'' None) None,
          Route ''silk/'' (Include_module ''silk.urls'' (Some ''silk'')) None,
          Serve_route ''media/'' (VPath ['''', ''srv'', ''primepass'', ''backend'', ''media'']),
          Serve_route ''static/'' (VPath ['''', ''srv'', ''primepass'', ''backend'', ''staticfiles''])] \<and>
   resolved_routes django_default
     (resolve python Production (environ_of ((''DEBUG'', ''true'') # production_bindings)) checkout) =
     Inr main_patterns"
proof -
  obtain ns where d: "outcome (resolve python Development (environ_of []) checkout) = Inr ns"
    using development_succeeds[OF development_no_bindings] by blast
  obtain ns' where p: "outcome (resolve python Production
      (environ_of ((''DEBUG'', ''true'') # production_bindings)) checkout) = Inr ns'"
    using production_succeeds[OF production_bindings_ok] by blast
  note t = route_table_by_overlay[of python "environ_of []" checkout ns django_default _
      "environ_of ((''DEBUG'', ''true'') # production_bindings)" checkout ns']
  from t d have "urlpatterns django_default ns =
     Inr (main_patterns @
          [Route ''__debug__/'' (Include_module ''debug_toolbar.urls'' None) None,
           Route ''silk/'' (Include_module ''silk.urls'' (Some ''silk'')) None,
           Serve_route ''media/'' (VPath ['''', ''srv'', ''primepass'', ''backend'', ''media'']),
           Serve_route ''static/'' (VPath ['''', ''srv'', ''primepass'', ''backend'', ''staticfiles''])])"
    by (simp add: config_or_def environ_of_def add_script_prefix_def startswith_def
        django_default_def plain_netloc_values lstrip_slash_def checkout_def)
  moreover from t p have "urlpatterns django_default ns' = Inr main_patterns" by blast
  ultimately show ?thesis using d p
    by (simp add: resolved_routes_def main_patterns_def api_v1_patterns_def)
qed

text \<open>
  Under development, with the media prefix bound to the URL of another host, the route table
  has the debug toolbar, the silk and the static serving route, and no route serving media.
\<close>

theorem development_without_media_route:
  "resolved_routes django_default
     (resolve python Development (environ_of [(''MEDIA_URL'', ''https://cdn.example/m/'')]) checkout) =
     Inr (main_patterns @
          [Route ''__debug__/'' (Include_module ''debug_toolbar.urls'' None) None,
           Route ''silk/'' (Include_module ''silk.urls'' (Some ''silk'')) None,
           Serve_route ''static/'' (VPath ['''', ''srv'', ''primepass'', ''backend'', ''staticfiles''])])"
proof -
  obtain ns where d: "outcome (resolve python Development
      (environ_of [(''MEDIA_URL'', ''https://cdn.example/m/'')]) checkout) = Inr ns"
    using development_succeeds[OF development_media_bindings] by blast
  show ?thesis
    using d development_routes[OF d, of django_default]
    by (simp add: resolved_routes_def config_or_def environ_of_def add_script_prefix_def
        startswith_def django_default_def plain_netloc_values lstrip_slash_def checkout_def)
qed

section \<open>The overlay selector\<close>

text \<open>
  C3, as the code has it. At the Celery entry point a selector that is absent is bound to
  \<^verbatim>\<open>backend.settings.development\<close> and that module is loaded; a selector that is present is
  never replaced: an empty one is refused and any other is imported as named, so that a name
  whose import fails, such as \<^verbatim>\<open>backend.settings.staging\<close>, makes loading fail with the import
  error.
\<close>

theorem celery_selector:
  "celery_load_settings import_module os_environ =
     (case os_environ ''DJANGO_SETTINGS_MODULE'' of
        None \<Rightarrow> import_module ''backend.settings.development''
      | Some name \<Rightarrow> if name = [] then Inl ImproperlyConfigured else import_module name) \<and>
   celery_load_settings overlay_named
     (environ_of [(''DJANGO_SETTINGS_MODULE'', ''backend.settings.staging'')]) =
     Inl (ModuleNotFoundError ''backend.settings.staging'')"
  by (simp add: celery_load_settings_def load_settings_def celery_environ_def setdefault_def
        overlay_named_def environ_of_def split: option.splits)

text \<open>
  C3 as stated fails: with no selector in the environment the Celery entry point loads the
  development overlay, and no error is raised.
\<close>

theorem celery_selector_default: "celery_load_settings overlay_named (environ_of []) = Inr Development"
  by (simp add: celery_load_settings_def load_settings_def celery_environ_def setdefault_def
        overlay_named_def environ_of_def)

section \<open>Effects of resolution\<close>

lemma production_effects:
  "effects (resolve c Production env p) =
     (if production_head_failures c env = [] \<and> config_or env ''SENTRY_DSN'' [] \<noteq> []
      then (case config_float c env ''SENTRY_TRACES_SAMPLE_RATE'' (1 / 10) of
              Inl e \<Rightarrow> []
            | Inr rate \<Rightarrow>
                [Sentry_init (config_or env ''SENTRY_DSN'' []) rate
                   (config_or env ''ENVIRONMENT'' ''production'')
                   (config_or env ''RELEASE_VERSION'' ''1.0.0'')])
      else [])"
proof (cases "base c env p")
  case (Inl e)
  from base_failure[OF this] have "production_head_failures c env \<noteq> []"
    unfolding production_head_failures_def by auto
  with Inl show ?thesis by (simp add: resolve_def production_def)
next
  case b: (Inr ns0)
  show ?thesis
  proof (cases "run (production_head c env) ns0")
    case (Inl e)
    from head_failure[OF b this] have "production_head_failures c env \<noteq> []" by auto
    with b Inl show ?thesis by (simp add: resolve_def production_def)
  next
    case (Inr ns1)
    from head_no_failure[OF b this] have "production_head_failures c env = []" .
    with b Inr show ?thesis
      by (auto simp: resolve_def production_def prod_sentry_def Let_def and_then_eq_Inr
            split: sum.splits prod.splits)
  qed
qed

text \<open>
  C6, as the code has it. Resolution with the development overlay has no effect besides its
  result. Resolution with the production overlay has none either when \<^verbatim>\<open>SENTRY_DSN\<close> is
  absent or empty, or when a binding read before line 170 fails; otherwise it initialises the
  monitoring SDK, once, with that DSN, provided the sample rate can be cast.
\<close>

theorem resolution_effects:
  "effects (resolve c Development env p) = [] \<and>
   effects (resolve c Production env p) =
     (if production_head_failures c env = [] \<and> config_or env ''SENTRY_DSN'' [] \<noteq> []
      then (case config_float c env ''SENTRY_TRACES_SAMPLE_RATE'' (1 / 10) of
              Inl e \<Rightarrow> []
            | Inr rate \<Rightarrow>
                [Sentry_init (config_or env ''SENTRY_DSN'' []) rate
                   (config_or env ''ENVIRONMENT'' ''production'')
                   (config_or env ''RELEASE_VERSION'' ''1.0.0'')])
      else [])"
  using production_effects by (simp add: resolve_def)

lemma sentry_bindings_head:
  "production_head_failures python
     (environ_of ((''SENTRY_DSN'', ''https://key@sentry.example/1'') # production_bindings)) = []"
  by (simp add: production_head_failures_def base_failures_def config_defs
        timedelta_seconds_def production_bindings_def)

text \<open>
  C6 as stated fails: with \<^verbatim>\<open>SENTRY_DSN\<close> bound, resolving the production configuration
  initialises the monitoring SDK.
\<close>

theorem sentry_initialised:
  "effects (resolve python Production
      (environ_of ((''SENTRY_DSN'', ''https://key@sentry.example/1'') # production_bindings)) checkout) =
   [Sentry_init ''https://key@sentry.example/1'' (1 / 10) ''production'' ''1.0.0'']"
  unfolding production_effects sentry_bindings_head
  by (simp add: config_defs production_bindings_def)

section \<open>What a resolution depends on\<close>

lemma base_process:
  assumes "base_dir p = base_dir q"
  shows "base c env p = base c env q"
proof -
  have "base_core c env p = base_core c env q"
    using assms by (intro ext) (simp add: base_core_def base_templates_def)
  moreover have "base_services env p = base_services env q"
    using assms by (intro ext) (simp add: base_services_def)
  ultimately show ?thesis by (simp add: base_def base_sections_def)
qed

lemma resolve_in_fresh: "resolve_in c ov env p None = resolve c ov env p"
  by (cases ov)
     (simp_all add: resolve_in_def resolve_def development_in_def development_def production_in_def
        production_def import_base_def)

lemma import_base_process:
  assumes "base_dir p = base_dir q"
  shows "import_base c env p cached = import_base c env q cached"
  using base_process[OF assms] by (cases cached) (simp_all add: import_base_def)

lemma production_in_Inr:
  "outcome (resolve_in c Production env p (Some ns0)) = Inr ns \<longleftrightarrow>
     (\<exists>ns1 ns2 effs. run (production_head c env) ns0 = Inr ns1 \<and>
        prod_sentry c env ns1 = Inr (ns2, effs) \<and> run (production_tail env) ns2 = Inr ns)"
  by (auto simp: resolve_in_def production_in_def import_base_def split: sum.splits prod.splits)

text \<open>
  The production module passes on the \<^verbatim>\<open>INSTALLED_APPS\<close> of the base module as the interpreter
  holds it: in an interpreter that has imported the development module before, this is the
  list that line 21 of \<^verbatim>\<open>development.py\<close> has extended in place.
\<close>

lemma production_in_INSTALLED_APPS:
  assumes "outcome (resolve_in c Production env p (Some ns0)) = Inr ns"
  shows "ns ''INSTALLED_APPS'' = ns0 ''INSTALLED_APPS''"
proof -
  from assms obtain ns1 ns2 effs where
    h: "run (production_head c env) ns0 = Inr ns1" and
    m: "prod_sentry c env ns1 = Inr (ns2, effs)" and
    t: "run (production_tail env) ns2 = Inr ns"
    unfolding production_in_Inr by blast
  have "ns ''INSTALLED_APPS'' = ns2 ''INSTALLED_APPS''"
    by (rule run_keeps[OF t]) (simp add: production_tail_def keeps_prod)
  also have "\<dots> = ns1 ''INSTALLED_APPS''"
    by (rule prod_sentry_keeps[OF m]) simp
  also have "\<dots> = ns0 ''INSTALLED_APPS''"
    by (rule run_keeps[OF h]) (simp add: production_head_def keeps_prod)
  finally show ?thesis .
qed

text \<open>
  C4, as the code has it. Two resolutions with the same overlay and the same bindings give the
  same result, configuration and effects alike, provided they start from the same state of
  the interpreter: either the base module has not been imported (a fresh interpreter, the way
  Django starts) or both find the same base module, as an overlay imported earlier has left
  it; and provided they run from the same package directory and, under the development
  overlay, agree on whether \<^verbatim>\<open>/.dockerenv\<close> exists and on whether the process is a test run.
  So the result depends on the overlay, the bindings, the package directory and the base
  module the interpreter holds, and under the development overlay also on the container
  marker and on the test run.
\<close>

theorem resolution_determined:
  assumes "base_dir p = base_dir q"
    and "ov = Development \<longrightarrow> dockerenv_exists p = dockerenv_exists q \<and> testing p = testing q"
  shows "resolve_in c ov env p cached = resolve_in c ov env q cached"
proof (cases ov)
  case Development
  with assms(2) have d: "dockerenv_exists p = dockerenv_exists q" and t: "testing p = testing q"
    by simp_all
  have "dev_database c env p = dev_database c env q"
    using d by (intro ext) (simp add: dev_database_def)
  moreover have "dev_testing p = dev_testing q"
    using t by (intro ext) (simp add: dev_testing_def)
  ultimately have "development_sections c env p = development_sections c env q"
    by (simp add: development_sections_def)
  with import_base_process[OF assms(1)] Development show ?thesis
    by (simp add: resolve_in_def development_in_def)
next
  case Production
  with import_base_process[OF assms(1)] show ?thesis
    by (simp add: resolve_in_def production_in_def)
qed

theorem resolution_determined_witness:
  "resolve_in python Development (environ_of []) checkout None =
   resolve_in python Development (environ_of [])
     (checkout\<lparr>sys_argv := [''manage.py'', ''shell'']\<rparr>) None \<and>
   resolve_in python Production (environ_of production_bindings) checkout None =
   resolve_in python Production (environ_of production_bindings) test_run None"
proof -
  have "resolve_in python Development (environ_of []) checkout None =
        resolve_in python Development (environ_of [])
          (checkout\<lparr>sys_argv := [''manage.py'', ''shell'']\<rparr>) None"
    by (rule resolution_determined) (simp_all add: checkout_def testing_def)
  moreover have "resolve_in python Production (environ_of production_bindings) checkout None =
        resolve_in python Production (environ_of production_bindings) test_run None"
    by (rule resolution_determined) (simp_all add: test_run_def)
  ultimately show ?thesis by simp
qed

lemma dev_database_docker:
  assumes "ns ''DATABASES'' = Some (base_databases env)" and "dockerenv_exists p"
    and "dev_database c env p ns = Inr ns'"
  shows "read ns' ''DATABASES'' [K ''default'', K ''HOST''] = Inr (VStr ''pgbouncer'')"
  using assms
  by (auto simp: dev_database_def statement_defs base_databases_def and_then_eq_Inr split: if_splits)

lemma dev_database_plain:
  assumes "ns ''DATABASES'' = Some (base_databases env)" and "\<not> dockerenv_exists p"
    and "env ''USE_PGBOUNCER'' = None" and "env ''DOCKER_ENV'' = None"
    and "dev_database c env p ns = Inr ns'"
  shows "read ns' ''DATABASES'' [K ''default'', K ''HOST''] =
           Inr (VStr (config_or env ''DATABASE_HOST'' ''localhost''))"
  using assms
  by (auto simp: dev_database_def statement_defs base_databases_def config_bool_def)

lemma development_DATABASES:
  assumes "outcome (resolve c Development env p) = Inr ns" and "\<not> testing p"
  obtains x y where "x ''DATABASES'' = Some (base_databases env)"
    and "dev_database c env p x = Inr y" and "ns ''DATABASES'' = y ''DATABASES''"
proof -
  from assms(1) obtain ns0 where b: "base c env p = Inr ns0"
    and r: "run (development_sections c env p) ns0 = Inr ns"
    unfolding development_Inr by blast
  from r obtain x y where x: "dev_debug c env ns0 = Inr x" and y: "dev_database c env p x = Inr y"
    and t: "run [dev_cache, dev_email_cors, dev_logging_security, dev_celery c env, dev_templates,
                 dev_testing p] y = Inr ns"
    unfolding development_sections_def run_Cons_Inr by blast
  have "x ''DATABASES'' = ns0 ''DATABASES''"
    by (rule keepsD[of "''DATABASES''" "dev_debug c env" ns0 x]) (simp_all add: keeps_dev x)
  with base_DATABASES[OF b] have 1: "x ''DATABASES'' = Some (base_databases env)" by simp
  have 2: "ns ''DATABASES'' = y ''DATABASES''"
    by (rule run_keeps[OF t]) (simp add: keeps_dev keeps_dev_testing_off[OF assms(2)])
  from 1 y 2 show ?thesis by (rule that)
qed

lemma read_cong: "ns name = ns' name \<Longrightarrow> read ns name path = read ns' name path"
  by (simp add: read_def lookup_def)

text \<open>
  With the same overlay and the same bindings, each time in a fresh interpreter, the
  development configuration resolved inside a container differs from the one resolved
  outside: the database host is \<^verbatim>\<open>pgbouncer\<close> inside and \<^verbatim>\<open>localhost\<close> outside.
\<close>

theorem resolution_depends_on_container:
  "resolve python Development (environ_of []) checkout \<noteq>
   resolve python Development (environ_of []) container"
proof
  let ?env = "environ_of []"
  assume eq: "resolve python Development ?env checkout = resolve python Development ?env container"
  obtain ns where a: "outcome (resolve python Development ?env checkout) = Inr ns"
    using development_succeeds[OF development_no_bindings] by blast
  with eq have b: "outcome (resolve python Development ?env container) = Inr ns" by simp
  have nt: "\<not> testing checkout" "\<not> testing container"
    by (simp_all add: testing_def checkout_def container_def)
  have "read ns ''DATABASES'' [K ''default'', K ''HOST''] = Inr (VStr ''localhost'')"
  proof -
    from development_DATABASES[OF a nt(1)] obtain x y where
      x: "x ''DATABASES'' = Some (base_databases ?env)"
      and y: "dev_database python ?env checkout x = Inr y"
      and n: "ns ''DATABASES'' = y ''DATABASES''" by blast
    have "read y ''DATABASES'' [K ''default'', K ''HOST''] =
            Inr (VStr (config_or ?env ''DATABASE_HOST'' ''localhost''))"
      by (rule dev_database_plain[OF x _ _ _ y]) (simp_all add: checkout_def environ_of_def)
    with read_cong[of ns "''DATABASES''" y, OF n] show ?thesis
      by (simp add: config_or_def environ_of_def)
  qed
  moreover have "read ns ''DATABASES'' [K ''default'', K ''HOST''] = Inr (VStr ''pgbouncer'')"
  proof -
    from development_DATABASES[OF b nt(2)] obtain x y where
      x: "x ''DATABASES'' = Some (base_databases ?env)"
      and y: "dev_database python ?env container x = Inr y"
      and n: "ns ''DATABASES'' = y ''DATABASES''" by blast
    have "read y ''DATABASES'' [K ''default'', K ''HOST''] = Inr (VStr ''pgbouncer'')"
      by (rule dev_database_docker[OF x _ y]) (simp add: container_def)
    with read_cong[of ns "''DATABASES''" y, OF n] show ?thesis by simp
  qed
  ultimately show False by simp
qed

section \<open>Merging into nested settings\<close>

lemma getitem_setitem: "setitem d k y = Inr d' \<Longrightarrow> getitem d' k = Inr y"
  by (cases "(d, k, y)" rule: setitem.cases) (auto simp: update_conv' split: if_splits)

lemma setitem_sibling:
  "setitem x (K a) v = Inr x' \<Longrightarrow> b \<noteq> a \<Longrightarrow> getitem x' (K b) = getitem x (K b)"
  by (cases "(x, K a, v)" rule: setitem.cases) (auto simp: update_conv')

lemma map_of_fold_update:
  "b \<notin> fst ` set new \<Longrightarrow> map_of (fold (\<lambda>(k, v). AList.update k v) new kvs) b = map_of kvs b"
  by (induction new arbitrary: kvs) (auto simp: update_conv')

lemma dict_update_sibling:
  "dict_update new x = Inr x' \<Longrightarrow> b \<notin> fst ` set new \<Longrightarrow> getitem x' (K b) = getitem x (K b)"
  by (cases "(new, x)" rule: dict_update.cases) (auto simp: map_of_fold_update)

lemma modify_sibling:
  assumes "modify d path f = Inr d'"
    and "\<And>x x'. f x = Inr x' \<Longrightarrow> getitem x' (K b) = getitem x (K b)"
  shows "read_path d' (path @ [K b]) = read_path d (path @ [K b])"
  using assms(1)
proof (induction path arbitrary: d d')
  case Nil
  then show ?case using assms(2) by simp
next
  case (Cons k ks)
  from Cons.prems obtain x y where x: "getitem d k = Inr x" and y: "modify x ks f = Inr y"
    and s: "setitem d k y = Inr d'"
    by (auto simp: and_then_eq_Inr)
  from Cons.IH[OF y] x getitem_setitem[OF s] show ?case by simp
qed


lemma base_cache_siblings:
  "read_path (base_caches env ttl) [K ''default'', K ''OPTIONS'', K ''CLIENT_CLASS''] =
     Inr (VStr ''django_redis.client.DefaultClient'')"
  "read_path (base_caches env ttl) [K ''default'', K ''OPTIONS'', K ''SERIALIZER''] =
     Inr (VStr ''django_redis.serializers.json.JSONSerializer'')"
  "read_path (base_caches env ttl) [K ''default'', K ''OPTIONS'', K ''COMPRESSOR''] =
     Inr (VStr ''django_redis.compressors.zlib.ZlibCompressor'')"
  by (simp_all add: base_caches_def base_cache_options_def)

lemma mutate_value:
  assumes "mutate name path f ns = Inr ns'"
  obtains d d' where "ns name = Some d" and "modify d path f = Inr d'" and "ns' name = Some d'"
  using assms by (auto simp: mutate_def lookup_def and_then_eq_Inr split: option.splits)

lemma dev_cache_siblings:
  assumes c: "ns ''CACHES'' = Some (base_caches env ttl)" and r: "dev_cache ns = Inr ns'"
    and b: "b \<noteq> ''IGNORE_EXCEPTIONS''"
  shows "read ns' ''CACHES'' [K ''default'', K ''OPTIONS'', K b] =
         read_path (base_caches env ttl) [K ''default'', K ''OPTIONS'', K b]"
proof -
  from r obtain d d' where d: "ns ''CACHES'' = Some d"
    and m: "modify d [K ''default'', K ''OPTIONS''] (\<lambda>x. setitem x (K ''IGNORE_EXCEPTIONS'') (VBool True)) = Inr d'"
    and d': "ns' ''CACHES'' = Some d'"
    unfolding dev_cache_def assign_item_def by (rule mutate_value)
  from modify_sibling[OF m, of b] b
  have "read_path d' ([K ''default'', K ''OPTIONS''] @ [K b]) =
        read_path d ([K ''default'', K ''OPTIONS''] @ [K b])"
    using setitem_sibling by blast
  with c d d' show ?thesis by (simp add: read_def lookup_def)
qed

lemma dev_cache_ignore_exceptions:
  assumes c: "ns ''CACHES'' = Some (base_caches env ttl)" and r: "dev_cache ns = Inr ns'"
  shows "read ns' ''CACHES'' [K ''default'', K ''OPTIONS'', K ''IGNORE_EXCEPTIONS''] = Inr (VBool True)"
  using assms
  by (auto simp: dev_cache_def statement_defs base_caches_def base_cache_options_def)

lemma prod_cache_siblings:
  assumes c: "ns ''CACHES'' = Some (base_caches env ttl)" and r: "prod_cache ns = Inr ns'"
    and b: "b \<notin> {''CONNECTION_POOL_KWARGS'', ''IGNORE_EXCEPTIONS''}"
  shows "read ns' ''CACHES'' [K ''default'', K ''OPTIONS'', K b] =
         read_path (base_caches env ttl) [K ''default'', K ''OPTIONS'', K b]"
proof -
  from r obtain d d' where d: "ns ''CACHES'' = Some d"
    and m: "modify d [K ''default'', K ''OPTIONS''] (dict_update prod_cache_options) = Inr d'"
    and d': "ns' ''CACHES'' = Some d'"
    unfolding prod_cache_def by (rule mutate_value)
  have "b \<notin> fst ` set prod_cache_options" using b by (simp add: prod_cache_options_def)
  with modify_sibling[OF m, of b]
  have "read_path d' ([K ''default'', K ''OPTIONS''] @ [K b]) =
        read_path d ([K ''default'', K ''OPTIONS''] @ [K b])"
    using dict_update_sibling by blast
  with c d d' show ?thesis by (simp add: read_def lookup_def)
qed


lemma development_CACHES:
  assumes "outcome (resolve c Development env p) = Inr ns" and "\<not> testing p"
  obtains x y ttl where "x ''CACHES'' = Some (base_caches env ttl)"
    and "dev_cache x = Inr y" and "ns ''CACHES'' = y ''CACHES''"
proof -
  let ?fs = "development_sections c env p"
  from assms(1) obtain ns0 where b: "base c env p = Inr ns0" and r: "run ?fs ns0 = Inr ns"
    unfolding development_Inr by blast
  from r obtain w x y where w: "dev_debug c env ns0 = Inr w" and x: "dev_database c env p w = Inr x"
    and y: "dev_cache x = Inr y"
    and t: "run [dev_email_cors, dev_logging_security, dev_celery c env, dev_templates,
                 dev_testing p] y = Inr ns"
    unfolding development_sections_def run_Cons_Inr by blast
  have "w ''CACHES'' = ns0 ''CACHES''"
    by (rule keepsD[of "''CACHES''" "dev_debug c env" ns0 w]) (simp_all add: keeps_dev w)
  moreover have "x ''CACHES'' = w ''CACHES''"
    by (rule keepsD[of "''CACHES''" "dev_database c env p" w x]) (simp_all add: keeps_dev x)
  ultimately obtain ttl where 1: "x ''CACHES'' = Some (base_caches env ttl)"
    using base_CACHES[OF b] by auto
  have 2: "ns ''CACHES'' = y ''CACHES''"
    by (rule run_keeps[OF t]) (simp add: keeps_dev keeps_dev_testing_off[OF assms(2)])
  from 1 y 2 show ?thesis by (rule that)
qed

lemma production_CACHES:
  assumes "outcome (resolve c Production env p) = Inr ns"
  obtains x y ttl where "x ''CACHES'' = Some (base_caches env ttl)"
    and "prod_cache x = Inr y" and "ns ''CACHES'' = y ''CACHES''"
proof -
  from assms obtain ns0 ns1 ns2 effs where b: "base c env p = Inr ns0"
    and h: "run (production_head c env) ns0 = Inr ns1"
    and m: "prod_sentry c env ns1 = Inr (ns2, effs)"
    and t: "run (production_tail env) ns2 = Inr ns"
    unfolding production_Inr by blast
  from h obtain w x y where w: "prod_security c env ns0 = Inr w" and x: "prod_database env w = Inr x"
    and y: "prod_cache x = Inr y"
    and r: "run [prod_storage c env, prod_email_logging env] y = Inr ns1"
    unfolding production_head_def run_Cons_Inr by blast
  have "w ''CACHES'' = ns0 ''CACHES''"
    by (rule keepsD[of "''CACHES''" "prod_security c env" ns0 w]) (simp_all add: keeps_prod w)
  moreover have "x ''CACHES'' = w ''CACHES''"
    by (rule keepsD[of "''CACHES''" "prod_database env" w x]) (simp_all add: keeps_prod x)
  ultimately obtain ttl where 1: "x ''CACHES'' = Some (base_caches env ttl)"
    using base_CACHES[OF b] by auto
  have "ns ''CACHES'' = ns2 ''CACHES''"
    by (rule run_keeps[OF t]) (simp add: production_tail_def keeps_prod)
  also have "\<dots> = ns1 ''CACHES''"
    by (rule prod_sentry_keeps[OF m]) simp
  also have "\<dots> = y ''CACHES''"
    by (rule run_keeps[OF r]) (simp add: keeps_prod)
  finally have 2: "ns ''CACHES'' = y ''CACHES''" .
  from 1 y 2 show ?thesis by (rule that)
qed


lemma development_line_79:
  assumes b: "base c env p = Inr ns0"
    and r: "run [dev_debug c env, dev_database c env p, dev_cache] ns0 = Inr ns1"
  obtains x ttl where "x ''CACHES'' = Some (base_caches env ttl)" and "dev_cache x = Inr ns1"
proof -
  from r obtain w x where w: "dev_debug c env ns0 = Inr w" and x: "dev_database c env p w = Inr x"
    and y: "dev_cache x = Inr ns1"
    unfolding run_Cons_Inr by (auto simp: run_Cons_Inr)
  have "w ''CACHES'' = ns0 ''CACHES''"
    by (rule keepsD[of "''CACHES''" "dev_debug c env" ns0 w]) (simp_all add: keeps_dev w)
  moreover have "x ''CACHES'' = w ''CACHES''"
    by (rule keepsD[of "''CACHES''" "dev_database c env p" w x]) (simp_all add: keeps_dev x)
  ultimately obtain ttl where "x ''CACHES'' = Some (base_caches env ttl)"
    using base_CACHES[OF b] by auto
  from this y show ?thesis by (rule that)
qed

text \<open>
  C5. When a statement of an overlay replaces or adds only some sub-keys of a nested dict, by
  an item assignment or by \<^verbatim>\<open>update\<close>, every sibling sub-key it does not name keeps its value.
  So after the development overlay has set the cache option \<^verbatim>\<open>IGNORE_EXCEPTIONS\<close> (line 79),
  in every process, the cache options still hold the base \<^verbatim>\<open>CLIENT_CLASS\<close>, \<^verbatim>\<open>SERIALIZER\<close> and
  \<^verbatim>\<open>COMPRESSOR\<close>; and so do the resolved cache options under the production overlay, and
  under the development overlay wherever it does nothing else to \<^verbatim>\<open>CACHES\<close>, that is outside
  a test run.
\<close>

theorem partial_merge:
  "(modify d path (\<lambda>x. setitem x (K a) v) = Inr d' \<and> b \<noteq> a \<longrightarrow>
      read_path d' (path @ [K b]) = read_path d (path @ [K b])) \<and>
   (modify d path (dict_update new) = Inr d' \<and> b \<notin> fst ` set new \<longrightarrow>
      read_path d' (path @ [K b]) = read_path d (path @ [K b])) \<and>
   (base c env p = Inr ns0 \<and>
    run [dev_debug c env, dev_database c env p, dev_cache] ns0 = Inr ns1 \<longrightarrow>
      read ns1 ''CACHES'' [K ''default'', K ''OPTIONS'', K ''IGNORE_EXCEPTIONS''] = Inr (VBool True) \<and>
      read ns1 ''CACHES'' [K ''default'', K ''OPTIONS'', K ''CLIENT_CLASS''] =
        Inr (VStr ''django_redis.client.DefaultClient'') \<and>
      read ns1 ''CACHES'' [K ''default'', K ''OPTIONS'', K ''SERIALIZER''] =
        Inr (VStr ''django_redis.serializers.json.JSONSerializer'') \<and>
      read ns1 ''CACHES'' [K ''default'', K ''OPTIONS'', K ''COMPRESSOR''] =
        Inr (VStr ''django_redis.compressors.zlib.ZlibCompressor'')) \<and>
   (outcome (resolve c Development env p) = Inr ns \<and> \<not> testing p \<longrightarrow>
      read ns ''CACHES'' [K ''default'', K ''OPTIONS'', K ''IGNORE_EXCEPTIONS''] = Inr (VBool True) \<and>
      read ns ''CACHES'' [K ''default'', K ''OPTIONS'', K ''CLIENT_CLASS''] =
        Inr (VStr ''django_redis.client.DefaultClient'') \<and>
      read ns ''CACHES'' [K ''default'', K ''OPTIONS'', K ''SERIALIZER''] =
        Inr (VStr ''django_redis.serializers.json.JSONSerializer'') \<and>
      read ns ''CACHES'' [K ''default'', K ''OPTIONS'', K ''COMPRESSOR''] =
        Inr (VStr ''django_redis.compressors.zlib.ZlibCompressor'')) \<and>
   (outcome (resolve c Production env p) = Inr ns \<longrightarrow>
      read ns ''CACHES'' [K ''default'', K ''OPTIONS'', K ''CLIENT_CLASS''] =
        Inr (VStr ''django_redis.client.DefaultClient'') \<and>
      read ns ''CACHES'' [K ''default'', K ''OPTIONS'', K ''SERIALIZER''] =
        Inr (VStr ''django_redis.serializers.json.JSONSerializer'') \<and>
      read ns ''CACHES'' [K ''default'', K ''OPTIONS'', K ''COMPRESSOR''] =
        Inr (VStr ''django_redis.compressors.zlib.ZlibCompressor''))"
proof (intro conjI impI; (elim conjE)?)
  assume "modify d path (\<lambda>x. setitem x (K a) v) = Inr d'" "b \<noteq> a"
  then show "read_path d' (path @ [K b]) = read_path d (path @ [K b])"
    using modify_sibling setitem_sibling by blast
next
  assume "modify d path (dict_update new) = Inr d'" "b \<notin> fst ` set new"
  then show "read_path d' (path @ [K b]) = read_path d (path @ [K b])"
    using modify_sibling dict_update_sibling by blast
next
  assume a: "base c env p = Inr ns0"
    "run [dev_debug c env, dev_database c env p, dev_cache] ns0 = Inr ns1"
  from development_line_79[OF a] obtain x ttl where
    x: "x ''CACHES'' = Some (base_caches env ttl)" and y: "dev_cache x = Inr ns1" by blast
  show "read ns1 ''CACHES'' [K ''default'', K ''OPTIONS'', K ''IGNORE_EXCEPTIONS''] = Inr (VBool True)"
    by (rule dev_cache_ignore_exceptions[OF x y])
  show "read ns1 ''CACHES'' [K ''default'', K ''OPTIONS'', K ''CLIENT_CLASS''] =
        Inr (VStr ''django_redis.client.DefaultClient'')"
    using dev_cache_siblings[OF x y, of "''CLIENT_CLASS''"] base_cache_siblings(1) by simp
  show "read ns1 ''CACHES'' [K ''default'', K ''OPTIONS'', K ''SERIALIZER''] =
        Inr (VStr ''django_redis.serializers.json.JSONSerializer'')"
    using dev_cache_siblings[OF x y, of "''SERIALIZER''"] base_cache_siblings(2) by simp
  show "read ns1 ''CACHES'' [K ''default'', K ''OPTIONS'', K ''COMPRESSOR''] =
        Inr (VStr ''django_redis.compressors.zlib.ZlibCompressor'')"
    using dev_cache_siblings[OF x y, of "''COMPRESSOR''"] base_cache_siblings(3) by simp
next
  assume a: "outcome (resolve c Development env p) = Inr ns" "\<not> testing p"
  from development_CACHES[OF a] obtain x y ttl where
    x: "x ''CACHES'' = Some (base_caches env ttl)" and y: "dev_cache x = Inr y"
    and n: "ns ''CACHES'' = y ''CACHES''" by blast
  note r = read_cong[of ns "''CACHES''" y, OF n]
  show "read ns ''CACHES'' [K ''default'', K ''OPTIONS'', K ''IGNORE_EXCEPTIONS''] = Inr (VBool True)"
    unfolding r by (rule dev_cache_ignore_exceptions[OF x y])
  show "read ns ''CACHES'' [K ''default'', K ''OPTIONS'', K ''CLIENT_CLASS''] =
        Inr (VStr ''django_redis.client.DefaultClient'')"
    unfolding r using dev_cache_siblings[OF x y, of "''CLIENT_CLASS''"] base_cache_siblings(1)
    by simp
  show "read ns ''CACHES'' [K ''default'', K ''OPTIONS'', K ''SERIALIZER''] =
        Inr (VStr ''django_redis.serializers.json.JSONSerializer'')"
    unfolding r using dev_cache_siblings[OF x y, of "''SERIALIZER''"] base_cache_siblings(2)
    by simp
  show "read ns ''CACHES'' [K ''default'', K ''OPTIONS'', K ''COMPRESSOR''] =
        Inr (VStr ''django_redis.compressors.zlib.ZlibCompressor'')"
    unfolding r using dev_cache_siblings[OF x y, of "''COMPRESSOR''"] base_cache_siblings(3)
    by simp
next
  assume a: "outcome (resolve c Production env p) = Inr ns"
  from production_CACHES[OF a] obtain x y ttl where
    x: "x ''CACHES'' = Some (base_caches env ttl)" and y: "prod_cache x = Inr y"
    and n: "ns ''CACHES'' = y ''CACHES''" by blast
  note r = read_cong[of ns "''CACHES''" y, OF n]
  show "read ns ''CACHES'' [K ''default'', K ''OPTIONS'', K ''CLIENT_CLASS''] =
        Inr (VStr ''django_redis.client.DefaultClient'')"
    unfolding r using prod_cache_siblings[OF x y, of "''CLIENT_CLASS''"] base_cache_siblings(1)
    by simp
  show "read ns ''CACHES'' [K ''default'', K ''OPTIONS'', K ''SERIALIZER''] =
        Inr (VStr ''django_redis.serializers.json.JSONSerializer'')"
    unfolding r using prod_cache_siblings[OF x y, of "''SERIALIZER''"] base_cache_siblings(2)
    by simp
  show "read ns ''CACHES'' [K ''default'', K ''OPTIONS'', K ''COMPRESSOR''] =
        Inr (VStr ''django_redis.compressors.zlib.ZlibCompressor'')"
    unfolding r using prod_cache_siblings[OF x y, of "''COMPRESSOR''"] base_cache_siblings(3)
    by simp
qed

lemma dev_testing_CACHES:
  assumes "testing p" and "dev_testing p a = Inr b"
  shows "b ''CACHES'' =
     Some (VDict [(''default'', VDict [(''BACKEND'', VStr ''django.core.cache.backends.dummy.DummyCache'')])])"
  using assms by (auto simp: dev_testing_def assign_def split: sum.splits)

text \<open>
  In a test run the development module goes on to rebind \<^verbatim>\<open>CACHES\<close> as a whole (line 190), a
  statement that names no sub-key and merges nothing: the cache it leaves is the dummy cache,
  which has no options.
\<close>

lemma test_run_rebinds_caches:
  "resolved_item (resolve python Development (environ_of []) test_run)
     ''CACHES'' [K ''default'', K ''OPTIONS'', K ''CLIENT_CLASS''] = Inl (KeyError ''OPTIONS'') \<and>
   resolved (resolve python Development (environ_of []) test_run) ''CACHES'' =
     Some (VDict [(''default'', VDict [(''BACKEND'', VStr ''django.core.cache.backends.dummy.DummyCache'')])])"
proof -
  let ?fs = "development_sections python (environ_of []) test_run"
  obtain ns where a: "outcome (resolve python Development (environ_of []) test_run) = Inr ns"
    using development_succeeds[OF development_no_bindings] by blast
  then obtain ns0 where r: "run ?fs ns0 = Inr ns"
    unfolding development_Inr by blast
  have t: "testing test_run" by (simp add: testing_def test_run_def)
  have "ns ''CACHES'' =
     Some (VDict [(''default'', VDict [(''BACKEND'', VStr ''django.core.cache.backends.dummy.DummyCache'')])])"
    by (rule run_nth_sets[OF r, where n=7])
       (auto simp: development_sections_def dest: dev_testing_CACHES[OF t])
  then show ?thesis using a
    by (simp add: resolved_item_def resolved_def read_def lookup_def)
qed


theorem partial_merge_witness:
  "and_then (modify (base_caches (environ_of []) 3600) [K ''default'', K ''OPTIONS'']
              (\<lambda>x. setitem x (K ''IGNORE_EXCEPTIONS'') (VBool True)))
     (\<lambda>d'. read_path d' [K ''default'', K ''OPTIONS'', K ''SERIALIZER'']) =
     Inr (VStr ''django_redis.serializers.json.JSONSerializer'') \<and>
   and_then (modify (base_caches (environ_of []) 3600) [K ''default'', K ''OPTIONS'']
              (dict_update prod_cache_options))
     (\<lambda>d'. read_path d' [K ''default'', K ''OPTIONS'', K ''SERIALIZER'']) =
     Inr (VStr ''django_redis.serializers.json.JSONSerializer'') \<and>
   (case base python (environ_of []) test_run of
      Inl e \<Rightarrow> Inl e
    | Inr ns0 \<Rightarrow>
        and_then (run [dev_debug python (environ_of []),
                       dev_database python (environ_of []) test_run, dev_cache] ns0)
          (\<lambda>ns1. read ns1 ''CACHES'' [K ''default'', K ''OPTIONS'', K ''CLIENT_CLASS''])) =
     Inr (VStr ''django_redis.client.DefaultClient'') \<and>
   resolved_item (resolve python Development (environ_of []) checkout)
     ''CACHES'' [K ''default'', K ''OPTIONS'', K ''COMPRESSOR''] =
     Inr (VStr ''django_redis.compressors.zlib.ZlibCompressor'') \<and>
   resolved_item (resolve python Production (environ_of ((''DEBUG'', ''true'') # production_bindings)) checkout)
     ''CACHES'' [K ''default'', K ''OPTIONS'', K ''CLIENT_CLASS''] =
     Inr (VStr ''django_redis.client.DefaultClient'')"
proof -
  let ?base = "base_caches (environ_of []) 3600"
  let ?path = "[K ''default'', K ''OPTIONS'']"
  obtain d1 where d1: "modify ?base ?path (\<lambda>x. setitem x (K ''IGNORE_EXCEPTIONS'') (VBool True)) = Inr d1"
    by (simp add: base_caches_def base_cache_options_def)
  obtain d2 where d2: "modify ?base ?path (dict_update prod_cache_options) = Inr d2"
    by (simp add: base_caches_def base_cache_options_def prod_cache_options_def)
  obtain ns where d: "outcome (resolve python Development (environ_of []) checkout) = Inr ns"
    using development_succeeds[OF development_no_bindings] by blast
  obtain ns' where p: "outcome (resolve python Production
      (environ_of ((''DEBUG'', ''true'') # production_bindings)) checkout) = Inr ns'"
    using production_succeeds[OF production_bindings_ok] by blast
  obtain nst where "outcome (resolve python Development (environ_of []) test_run) = Inr nst"
    using development_succeeds[OF development_no_bindings] by blast
  then obtain ns0 where b: "base python (environ_of []) test_run = Inr ns0"
    and rr: "run (development_sections python (environ_of []) test_run) ns0 = Inr nst"
    unfolding development_Inr by blast
  from rr obtain w x ns1 where w: "dev_debug python (environ_of []) ns0 = Inr w"
    and x: "dev_database python (environ_of []) test_run w = Inr x" and y: "dev_cache x = Inr ns1"
    unfolding development_sections_def run_Cons_Inr by blast
  have r: "run [dev_debug python (environ_of []), dev_database python (environ_of []) test_run,
                dev_cache] ns0 = Inr ns1"
    by (simp add: w x y)
  have nt: "\<not> testing checkout" by (simp add: testing_def checkout_def)
  have s: "''SERIALIZER'' \<notin> fst ` set prod_cache_options" by (simp add: prod_cache_options_def)
  from partial_merge[of ?base ?path "''IGNORE_EXCEPTIONS''" "VBool True" d1 "''SERIALIZER''"] d1
  have 1: "read_path d1 [K ''default'', K ''OPTIONS'', K ''SERIALIZER''] =
           Inr (VStr ''django_redis.serializers.json.JSONSerializer'')"
    using base_cache_siblings(2)[of "environ_of []" 3600] by simp
  from partial_merge[of ?base ?path _ _ d2 "''SERIALIZER''" prod_cache_options] d2 s
  have 2: "read_path d2 [K ''default'', K ''OPTIONS'', K ''SERIALIZER''] =
           Inr (VStr ''django_redis.serializers.json.JSONSerializer'')"
    using base_cache_siblings(2)[of "environ_of []" 3600] by simp
  from partial_merge[of _ _ _ _ _ _ _ python "environ_of []" test_run ns0 ns1] b r
  have 5: "read ns1 ''CACHES'' [K ''default'', K ''OPTIONS'', K ''CLIENT_CLASS''] =
     Inr (VStr ''django_redis.client.DefaultClient'')" by blast
  from partial_merge[of _ _ _ _ _ _ _ python "environ_of []" checkout _ _ ns] d nt
  have 3: "read ns ''CACHES'' [K ''default'', K ''OPTIONS'', K ''COMPRESSOR''] =
     Inr (VStr ''django_redis.compressors.zlib.ZlibCompressor'')" by blast
  from partial_merge[of _ _ _ _ _ _ _ python
      "environ_of ((''DEBUG'', ''true'') # production_bindings)" checkout _ _ ns'] p
  have 4: "read ns' ''CACHES'' [K ''default'', K ''OPTIONS'', K ''CLIENT_CLASS''] =
     Inr (VStr ''django_redis.client.DefaultClient'')" by blast
  from 1 2 3 4 5 d1 d2 d p b r show ?thesis by (simp add: resolved_item_def)
qed

end
